theory Spec2Isabelle
  imports Main
begin

section \<open>Python values and string helpers\<close>

text \<open>
  Exceptions of the Python program as values.  \<open>SystemExit n\<close> is what \<open>exit(n)\<close> raises.
\<close>

datatype exn =
    RuntimeError string
  | ValueError
  | KeyError string
  | AttributeError
  | IndexError
  | TypeError
  | OSError
  | SystemExit int

text \<open>\<open>sep.join(xs)\<close>\<close>

fun join :: "string \<Rightarrow> string list \<Rightarrow> string" where
  "join sep [] = []"
| "join sep [x] = x"
| "join sep (x # y # ys) = x @ sep @ join sep (y # ys)"

text \<open>\<open>s.split(c)\<close> for a one-character separator (also \<open>s.rsplit(c)\<close> without a limit).\<close>

fun split_on :: "char \<Rightarrow> string \<Rightarrow> string list" where
  "split_on c [] = [[]]"
| "split_on c (x # xs) =
     (if x = c then [] # split_on c xs
      else (case split_on c xs of [] \<Rightarrow> [[x]] | w # ws \<Rightarrow> (x # w) # ws))"

text \<open>\<open>s.rsplit(c, 1)\<close>: one piece when \<open>c\<close> does not occur, two pieces otherwise.\<close>

definition rsplit1 :: "char \<Rightarrow> string \<Rightarrow> string list" where
  "rsplit1 c s =
     (if c \<in> set s
      then [rev (drop 1 (dropWhile (\<lambda>x. x \<noteq> c) (rev s))), rev (takeWhile (\<lambda>x. x \<noteq> c) (rev s))]
      else [s])"

text \<open>\<open>s.strip(c)\<close> for a one-character argument.\<close>

definition strip :: "char \<Rightarrow> string \<Rightarrow> string" where
  "strip c s = rev (dropWhile (\<lambda>x. x = c) (rev (dropWhile (\<lambda>x. x = c) s)))"

text \<open>Sequencing of results that may be an exception.\<close>

definition bind_exn :: "exn + 'a \<Rightarrow> ('a \<Rightarrow> exn + 'b) \<Rightarrow> exn + 'b" where
  "bind_exn r k = (case r of Inl e \<Rightarrow> Inl e | Inr x \<Rightarrow> k x)"

text \<open>The tuple assignment \<open>a, b = xs\<close>: a \<open>ValueError\<close> unless \<open>xs\<close> has two elements.\<close>

fun unpack2 :: "'a list \<Rightarrow> exn + ('a \<times> 'a)" where
  "unpack2 [a, b] = Inr (a, b)"
| "unpack2 _ = Inl ValueError"

text \<open>\<open>str(n)\<close> of an integer, as \<open>'{}'.format(n)\<close> prints it.\<close>

definition digit_char :: "nat \<Rightarrow> char" where
  "digit_char d = char_of (48 + d)"

fun str_nat :: "nat \<Rightarrow> string" where
  "str_nat n = (if n < 10 then [digit_char n] else str_nat (n div 10) @ [digit_char (n mod 10)])"

declare str_nat.simps [simp del]

definition str_int :: "int \<Rightarrow> string" where
  "str_int i = (if i < 0 then CHR ''-'' # str_nat (nat (- i)) else str_nat (nat i))"

text \<open>\<open>os.path.join(a, b)\<close> on a POSIX system.\<close>

definition path_join :: "string \<Rightarrow> string \<Rightarrow> string" where
  "path_join a b =
     (if b \<noteq> [] \<and> hd b = CHR ''/'' then b
      else if a = [] \<or> last a = CHR ''/'' then a @ b
      else a @ ''/'' @ b)"

section \<open>Configuration and command line\<close>

text \<open>
  One container declaration is a Python dict from option names to values.  A value is a
  string, a dict (strings to strings, in insertion order) or a list (of lists of strings,
  the entries of \<open>any\<close>); other kinds of values are not modelled.
\<close>

datatype cfgval =
    CStr string
  | CDict "(string \<times> string) list"
  | CList "string list list"

type_synonym cfg = "string \<rightharpoonup> cfgval"

datatype kind = KStr | KDict | KList

fun kind_of :: "cfgval \<Rightarrow> kind" where
  "kind_of (CStr _) = KStr"
| "kind_of (CDict _) = KDict"
| "kind_of (CList _) = KList"

fun kind_name :: "kind \<Rightarrow> string" where
  "kind_name KStr = ''str''"
| "kind_name KDict = ''dict''"
| "kind_name KList = ''list''"

text \<open>
  \<open>cfg[key]\<close> where the program goes on to use the value as a string: a \<open>KeyError\<close> when
  the key is absent.  A dict or a list in such a place fails in Python where it is used
  (as an argument of \<open>subprocess.run\<close>, as a member of a set); here it fails at the
  lookup.  Once \<open>_config_check\<close> has passed this is left for \<open>docker_path\<close> only, the one
  string option that is not checked.
\<close>

definition cfg_str :: "cfg \<Rightarrow> string \<Rightarrow> exn + string" where
  "cfg_str c k =
     (case c k of
        None \<Rightarrow> Inl (KeyError k)
      | Some (CStr s) \<Rightarrow> Inr s
      | Some _ \<Rightarrow> Inl TypeError)"

text \<open>\<open>cfg.get(key, {}).items()\<close>; a string or a list has no \<open>items\<close>.\<close>

definition cfg_items :: "cfg \<Rightarrow> string \<Rightarrow> exn + (string \<times> string) list" where
  "cfg_items c k =
     (case c k of
        None \<Rightarrow> Inr []
      | Some (CDict kvs) \<Rightarrow> Inr kvs
      | Some _ \<Rightarrow> Inl AttributeError)"

text \<open>\<open>cfg.get('any', [])\<close>, for the loop over its entries.\<close>

definition cfg_list :: "cfg \<Rightarrow> string \<Rightarrow> exn + string list list" where
  "cfg_list c k =
     (case c k of
        None \<Rightarrow> Inr []
      | Some (CList els) \<Rightarrow> Inr els
      | Some _ \<Rightarrow> Inl TypeError)"

text \<open>The namespace \<open>argparse\<close> returns.\<close>

record cli =
  cli_start :: bool
  cli_stop :: bool
  cli_update :: bool
  cli_upgrade :: bool
  cli_remove :: bool
  cli_purge :: bool
  cli_e :: "string list option"
  cli_b :: bool
  cli_t :: bool
  cli_f :: bool

section \<open>The outside world\<close>

text \<open>
  Every call that leaves the program is an event of the trace, in the order the calls are
  made: a docker command with its arguments and the return code it got; the request for a
  token for a repository; the \<open>HEAD\<close> request for the manifest of a repository and tag
  with a token; \<open>os.makedirs\<close> on a path and whether it succeeded; \<open>shutil.rmtree\<close> on a
  path; \<open>print\<close> of a line.
\<close>

datatype event =
    Docker "string list" int
  | AuthGet string
  | ManifestHead string string string
  | Makedirs string bool
  | Rmtree string
  | Print string

text \<open>The result of \<open>subprocess.run\<close>.\<close>

datatype proc = Proc (returncode: int) (stdout: string) (stderr: string)

text \<open>
  The reply of the token endpoint: its status code and what \<open>rq.json()\<close> gives, which is
  a \<open>ValueError\<close>, a JSON object (reduced to its \<open>token\<close> member, \<open>None\<close> when absent or
  null) or some other JSON value.
\<close>

datatype json = JsonInvalid string | JsonObject "string option" | JsonOther

datatype auth_reply = AuthReply (auth_status: int) (auth_json: json)

text \<open>
  The reply of the manifest endpoint: its status code and \<open>rq.headers\<close> (a lookup by
  header name).
\<close>

datatype head_reply = HeadReply (head_status: int) (head_headers: "(string \<rightharpoonup> string) option")

text \<open>
  The collaborators.  Each answer may depend on everything that happened before (the
  trace).  \<open>subprocess.run\<close> is taken to return, with output that decodes.  An \<open>Inl msg\<close>
  of the two HTTP calls is a \<open>requests\<close> exception with that message; \<open>os_makedirs\<close> is
  \<open>False\<close> when \<open>os.makedirs\<close> raises.
\<close>

record world =
  subprocess_run :: "event list \<Rightarrow> string list \<Rightarrow> proc"
  requests_get_token :: "event list \<Rightarrow> string \<Rightarrow> string + auth_reply"
  requests_head :: "event list \<Rightarrow> string \<Rightarrow> string \<Rightarrow> string \<Rightarrow> string + head_reply"
  os_makedirs :: "event list \<Rightarrow> string \<Rightarrow> bool"

text \<open>A computation reads the trace so far and returns a value or an exception, and the new trace.\<close>

type_synonym 'a io = "event list \<Rightarrow> (exn + 'a) \<times> event list"

definition return_io :: "'a \<Rightarrow> 'a io" where
  "return_io x tr = (Inr x, tr)"

definition raise_io :: "exn \<Rightarrow> 'a io" where
  "raise_io e tr = (Inl e, tr)"

definition bind_io :: "'a io \<Rightarrow> ('a \<Rightarrow> 'b io) \<Rightarrow> 'b io" where
  "bind_io m k tr = (case m tr of (Inl e, tr') \<Rightarrow> (Inl e, tr') | (Inr x, tr') \<Rightarrow> k x tr')"

definition lift_io :: "exn + 'a \<Rightarrow> 'a io" where
  "lift_io r tr = (r, tr)"

definition print_io :: "string \<Rightarrow> unit io" where
  "print_io msg tr = (Inr (), tr @ [Print msg])"

text \<open>\<open>print(msg)\<close> followed by \<open>return v\<close>.\<close>

definition print_return :: "string \<Rightarrow> 'a \<Rightarrow> 'a io" where
  "print_return msg v = bind_io (print_io msg) (\<lambda>_. return_io v)"

section \<open>Registry digest lookup\<close>

text \<open>The two requests; what comes back is the world's answer at this point of the trace.\<close>

definition http_get_token :: "world \<Rightarrow> string \<Rightarrow> (string + auth_reply) io" where
  "http_get_token w registry tr = (Inr (requests_get_token w tr registry), tr @ [AuthGet registry])"

definition http_head :: "world \<Rightarrow> string \<Rightarrow> string \<Rightarrow> string \<Rightarrow> (string + head_reply) io" where
  "http_head w registry tag token tr =
     (Inr (requests_head w tr registry tag token), tr @ [ManifestHead registry tag token])"

text \<open>
  The last part of \<open>_docker_remote_sha256\<close>, from \<open>data = rq.headers\<close> on.  When neither
  header is there the message is printed and \<open>sha256.strip\<close> is called on \<open>None\<close>.
\<close>

definition remote_sha256_headers :: "(string \<rightharpoonup> string) option \<Rightarrow> string option io" where
  "remote_sha256_headers hs =
     (case hs of
        None \<Rightarrow> print_return ''Registry error - no headers'' None
      | Some data \<Rightarrow>
          (let sha256 = data ''Docker-Content-Digest'';
               sha256 = (if sha256 = None \<or> sha256 = Some [] then data ''Etag'' else sha256)
           in case sha256 of
                None \<Rightarrow>
                  bind_io (print_io ''Registry error headers parsing - sha256 not found'')
                    (\<lambda>_. raise_io AttributeError)
              | Some s \<Rightarrow> return_io (Some (strip (CHR 0x22) s))))"

text \<open>The part of \<open>_docker_remote_sha256\<close> after a token was obtained.\<close>

definition remote_sha256_manifest :: "world \<Rightarrow> string \<Rightarrow> string \<Rightarrow> string \<Rightarrow> string option io" where
  "remote_sha256_manifest w registry tag token =
     bind_io (http_head w registry tag token) (\<lambda>r.
       case r of
         Inl e \<Rightarrow> print_return (''Registry request error: '' @ e) None
       | Inr rq \<Rightarrow>
           if head_status rq \<noteq> 200
           then print_return (''Registry response code: '' @ str_int (head_status rq)) None
           else remote_sha256_headers (head_headers rq))"

text \<open>
  \<open>_docker_remote_sha256\<close>: the reference is split at its last colon, a token is
  requested for the repository, then the manifest of the tag is asked for.  Every failure
  that is caught prints a line and returns \<open>None\<close>.
\<close>

definition docker_remote_sha256 :: "world \<Rightarrow> string \<Rightarrow> string option io" where
  "docker_remote_sha256 w rep_tag =
     bind_io (lift_io (unpack2 (rsplit1 CHR '':'' rep_tag))) (\<lambda>(registry, tag).
     bind_io (http_get_token w registry) (\<lambda>r.
       case r of
         Inl e \<Rightarrow> print_return (''Auth request error: '' @ e) None
       | Inr rq \<Rightarrow>
           if auth_status rq \<noteq> 200
           then print_return (''Auth response code: '' @ str_int (auth_status rq)) None
           else
             (case auth_json rq of
                JsonInvalid e \<Rightarrow> print_return (''Auth response error '' @ e) None
              | JsonOther \<Rightarrow> raise_io AttributeError
              | JsonObject None \<Rightarrow> print_return ''Auth error: no token'' None
              | JsonObject (Some token) \<Rightarrow>
                  if token = [] then print_return ''Auth error: no token'' None
                  else remote_sha256_manifest w registry tag token)))"

section \<open>Docker commands\<close>

definition newline :: char where
  "newline = CHR 0x0A"

text \<open>
  \<open>__docker_run_fatal\<close>: runs \<open>docker\<close> with the arguments \<open>cmd\<close>; a non-zero return code
  raises when \<open>fatal\<close> is set.
\<close>

definition docker_run_fatal :: "world \<Rightarrow> string list \<Rightarrow> bool \<Rightarrow> proc io" where
  "docker_run_fatal w cmd fatal tr =
     (let run = subprocess_run w tr cmd;
          tr' = tr @ [Docker cmd (returncode run)]
      in if returncode run \<noteq> 0 \<and> fatal
         then (Inl (RuntimeError (''Error docker '' @ join '' '' cmd @ '': '' @ stderr run)), tr')
         else (Inr run, tr'))"

definition docker_containers :: "world \<Rightarrow> string list io" where
  "docker_containers w =
     bind_io (docker_run_fatal w [''ps'', ''-a'', ''--format'', ''{{.Names}}''] True) (\<lambda>run.
       return_io (filter (\<lambda>line. length line > 2) (split_on newline (stdout run))))"

definition docker_stop :: "world \<Rightarrow> string \<Rightarrow> bool io" where
  "docker_stop w name =
     bind_io (docker_run_fatal w [''stop'', name] False) (\<lambda>run. return_io (returncode run = 0))"

definition docker_start :: "world \<Rightarrow> string \<Rightarrow> bool io" where
  "docker_start w name =
     bind_io (docker_run_fatal w [''start'', name] False) (\<lambda>run. return_io (returncode run = 0))"

definition docker_rm :: "world \<Rightarrow> string \<Rightarrow> bool io" where
  "docker_rm w name =
     bind_io (docker_run_fatal w [''rm'', name] False) (\<lambda>run. return_io (returncode run = 0))"

definition docker_rmi :: "world \<Rightarrow> string \<Rightarrow> bool io" where
  "docker_rmi w rep_tag =
     bind_io (docker_run_fatal w [''rmi'', rep_tag] False) (\<lambda>run. return_io (returncode run = 0))"

definition docker_pull :: "world \<Rightarrow> string \<Rightarrow> bool io" where
  "docker_pull w rep_tag =
     bind_io (docker_run_fatal w [''pull'', rep_tag] False) (\<lambda>run. return_io (returncode run = 0))"

definition docker_build :: "world \<Rightarrow> string \<Rightarrow> string \<Rightarrow> string \<Rightarrow> bool io" where
  "docker_build w rep_tag file path =
     bind_io (docker_run_fatal w [''build'', ''--rm'', ''--no-cache'', ''-t'', rep_tag, ''-f'', file, path] False)
       (\<lambda>run. return_io (returncode run = 0))"

definition docker_run :: "world \<Rightarrow> string list \<Rightarrow> bool io" where
  "docker_run w cmd =
     bind_io (docker_run_fatal w (''run'' # cmd) False) (\<lambda>run. return_io (returncode run = 0))"

text \<open>
  The loop of \<open>_docker_images_sha256\<close> and of \<open>_docker_images_id\<close> (the same code): each
  line is split at its last space into a reference and a value; a line without a space
  fails the tuple assignment.
\<close>

fun images_lines :: "string list \<Rightarrow> (string \<rightharpoonup> string) \<Rightarrow> exn + (string \<rightharpoonup> string)" where
  "images_lines [] data = Inr data"
| "images_lines (line # lines) data =
     (case unpack2 (rsplit1 CHR '' '' line) of
        Inl e \<Rightarrow> Inl e
      | Inr (rep_tag, v) \<Rightarrow> images_lines lines (data(rep_tag \<mapsto> v)))"

definition docker_images_sha256 :: "world \<Rightarrow> (string \<rightharpoonup> string) io" where
  "docker_images_sha256 w =
     bind_io (docker_run_fatal w
                [''images'', ''--digests'', ''--format'', ''{{.Repository}}:{{.Tag}} {{.Digest}}''] True)
       (\<lambda>run. lift_io (images_lines (split_on newline (strip newline (stdout run))) Map.empty))"

definition docker_images_id :: "world \<Rightarrow> (string \<rightharpoonup> string) io" where
  "docker_images_id w =
     bind_io (docker_run_fatal w [''images'', ''--format'', ''{{.Repository}}:{{.Tag}} {{.ID}}''] True)
       (\<lambda>run. lift_io (images_lines (split_on newline (strip newline (stdout run))) Map.empty))"

definition docker_repo_id :: "world \<Rightarrow> string list io" where
  "docker_repo_id w =
     bind_io (docker_run_fatal w [''images'', ''--format'', ''{{.ID}}''] True)
       (\<lambda>run. return_io (split_on newline (strip newline (stdout run))))"

section \<open>The worker of one container\<close>

text \<open>
  \<open>_config_check\<close>.  The three required keys, then the kinds of the options that are
  present, in the order of the table \<open>type_check\<close>.
\<close>

fun check_present :: "cfg \<Rightarrow> string list \<Rightarrow> string option" where
  "check_present c [] = None"
| "check_present c (k # ks) = (if c k = None then Some k else check_present c ks)"

fun check_kinds :: "cfg \<Rightarrow> (kind \<times> string) list \<Rightarrow> (string \<times> kind \<times> kind) option" where
  "check_kinds c [] = None"
| "check_kinds c ((kd, opt) # rest) =
     (case c opt of
        None \<Rightarrow> check_kinds c rest
      | Some v \<Rightarrow> if kind_of v \<noteq> kd then Some (opt, kd, kind_of v) else check_kinds c rest)"

definition type_check :: "(kind \<times> string) list" where
  "type_check =
     map (Pair KStr) [''name'', ''image'', ''data_path'', ''dockerfile'', ''data_path'', ''restart'']
     @ map (Pair KDict) [''p'', ''v'', ''e'']
     @ map (Pair KList) [''any'']"

definition StarterWorker_config_check :: "cfg \<Rightarrow> bool io" where
  "StarterWorker_config_check c =
     (case check_present c [''name'', ''image'', ''data_path''] of
        Some k \<Rightarrow> print_return ([CHR 0x27] @ k @ [CHR 0x27] @ '' must be present'') False
      | None \<Rightarrow>
          (case check_kinds c type_check of
             Some (opt, kd, actual) \<Rightarrow>
               print_return (''Option '' @ [CHR 0x27] @ opt @ [CHR 0x27] @ '' must be ''
                             @ kind_name kd @ '', not '' @ kind_name actual) False
           | None \<Rightarrow> return_io True))"

text \<open>\<open>_pull\<close>: build from the Dockerfile under \<open>-b\<close>, pull otherwise.\<close>

definition StarterWorker_pull :: "world \<Rightarrow> cfg \<Rightarrow> cli \<Rightarrow> bool io" where
  "StarterWorker_pull w c a =
     (if cli_b a
      then bind_io (lift_io (cfg_str c ''image'')) (\<lambda>img.
           bind_io (lift_io (cfg_str c ''dockerfile'')) (\<lambda>file.
           bind_io (lift_io (cfg_str c ''docker_path'')) (\<lambda>path.
             docker_build w img file path)))
      else bind_io (lift_io (cfg_str c ''image'')) (\<lambda>img. docker_pull w img))"

text \<open>The loops of \<open>_run\<close> that extend the argument list \<open>cmd\<close>.\<close>

fun run_ports :: "(string \<times> string) list \<Rightarrow> string list \<Rightarrow> string list" where
  "run_ports [] cmd = cmd"
| "run_ports ((key, val) # kvs) cmd = run_ports kvs (cmd @ [''-p'', key @ '':'' @ val])"

fun run_volumes :: "cfg \<Rightarrow> (string \<times> string) list \<Rightarrow> string list \<Rightarrow> exn + string list" where
  "run_volumes c [] cmd = Inr cmd"
| "run_volumes c ((key, val) # kvs) cmd =
     (case cfg_str c ''data_path'' of
        Inl e \<Rightarrow> Inl e
      | Inr data_path \<Rightarrow> run_volumes c kvs (cmd @ [''-v'', path_join data_path key @ '':'' @ val]))"

fun run_env :: "(string \<times> string) list \<Rightarrow> string list \<Rightarrow> string list" where
  "run_env [] cmd = cmd"
| "run_env ((key, val) # kvs) cmd = run_env kvs (cmd @ [''-e'', key @ ''='' @ val])"

fun run_cli_env :: "string list \<Rightarrow> string list \<Rightarrow> string list" where
  "run_cli_env [] cmd = cmd"
| "run_cli_env (env # envs) cmd = run_cli_env envs (cmd @ [''-e'', env])"

text \<open>
  One entry \<open>el\<close> of \<open>any\<close>: \<open>el[1]\<close>, \<open>el[2]\<close> and \<open>'{}{}{}'.format(*el)\<close> raise an
  \<open>IndexError\<close> on an entry shorter than three.
\<close>

fun run_any :: "string list list \<Rightarrow> string list \<Rightarrow> exn + string list" where
  "run_any [] cmd = Inr cmd"
| "run_any ((a # sep # b # _) # els) cmd =
     (if sep = '' '' then run_any els (cmd @ [a, b]) else run_any els (cmd @ [a @ sep @ b]))"
| "run_any (_ # els) cmd = Inl IndexError"

text \<open>The argument list that \<open>_run\<close> builds, and whether a volume was declared.\<close>

definition run_cmd :: "cfg \<Rightarrow> cli \<Rightarrow> exn + (string list \<times> bool)" where
  "run_cmd c a =
     bind_exn (cfg_items c ''p'') (\<lambda>ps.
     bind_exn (cfg_items c ''v'') (\<lambda>vs.
     bind_exn (run_volumes c vs (run_ports ps [''-d''])) (\<lambda>cmd.
     bind_exn (cfg_items c ''e'') (\<lambda>es.
     bind_exn (cfg_list c ''any'') (\<lambda>els.
     bind_exn (run_any els
                 (run_cli_env (case cli_e a of None \<Rightarrow> [] | Some envs \<Rightarrow> envs) (run_env es cmd))) (\<lambda>cmd.
     bind_exn (if c ''restart'' = None then Inr ''always'' else cfg_str c ''restart'') (\<lambda>restart.
     bind_exn (cfg_str c ''name'') (\<lambda>name.
     bind_exn (cfg_str c ''image'') (\<lambda>img.
       Inr (cmd @ [''--restart='' @ restart] @ [''--name'', name] @ [img], vs \<noteq> []))))))))))"

definition makedirs :: "world \<Rightarrow> string \<Rightarrow> unit io" where
  "makedirs w path tr =
     (if os_makedirs w tr path then (Inr (), tr @ [Makedirs path True])
      else (Inl OSError, tr @ [Makedirs path False]))"

definition StarterWorker_run_container :: "world \<Rightarrow> cfg \<Rightarrow> cli \<Rightarrow> bool io" where
  "StarterWorker_run_container w c a =
     bind_io (lift_io (run_cmd c a)) (\<lambda>(cmd, makedir).
     bind_io (if makedir
              then bind_io (lift_io (cfg_str c ''data_path'')) (\<lambda>data_path. makedirs w data_path)
              else return_io ()) (\<lambda>_.
     bind_io (docker_run w cmd) (\<lambda>result.
     print_return ((if result then ''docker run'' else ''Failed docker run'') @ '' '' @ join '' '' cmd)
       result)))"

text \<open>
  \<open>_start\<close>.  The result is a Boolean, or \<open>None\<close> where the Python function returns
  nothing (or the value of \<open>print\<close>).
\<close>

definition StarterWorker_start :: "world \<Rightarrow> cfg \<Rightarrow> cli \<Rightarrow> string list \<Rightarrow> bool option io" where
  "StarterWorker_start w c a containers =
     bind_io (lift_io (cfg_str c ''name'')) (\<lambda>name.
       if name \<in> set containers
       then bind_io (docker_start w name) (\<lambda>ok. return_io (Some ok))
       else
         bind_io (lift_io (cfg_str c ''image'')) (\<lambda>img.
         bind_io (docker_images_sha256 w) (\<lambda>images.
         bind_io (if images img = None
                  then bind_io (StarterWorker_pull w c a) (\<lambda>ok. return_io (\<not> ok))
                  else return_io False) (\<lambda>failed.
           if failed then print_return ''Runtime error, exit.'' None
           else bind_io (StarterWorker_run_container w c a) (\<lambda>_. return_io None)))))"

definition StarterWorker_stop :: "world \<Rightarrow> cfg \<Rightarrow> cli \<Rightarrow> string list \<Rightarrow> bool io" where
  "StarterWorker_stop w c a containers =
     bind_io (lift_io (cfg_str c ''name'')) (\<lambda>name.
       if name \<in> set containers
       then bind_io (docker_stop w name) (\<lambda>ok.
              if ok then print_return (''stop '' @ name) True
              else print_return (''Error stopping '' @ name) False)
       else if cli_stop a
       then print_return (''Container '' @ name @ '' not found.'') True
       else return_io True)"

text \<open>
  \<open>_update\<close>.  \<open>old_sha or X\<close> takes \<open>X\<close> when \<open>old_sha\<close> is \<open>None\<close> or the empty
  string.
\<close>

definition StarterWorker_update :: "world \<Rightarrow> cfg \<Rightarrow> cli \<Rightarrow> string option \<Rightarrow> bool io" where
  "StarterWorker_update w c a old_sha =
     bind_io (if old_sha = None \<or> old_sha = Some []
              then bind_io (docker_images_sha256 w) (\<lambda>images.
                   bind_io (lift_io (cfg_str c ''image'')) (\<lambda>img. return_io (images img)))
              else return_io old_sha) (\<lambda>old_sha.
       case old_sha of
         None \<Rightarrow>
           if cli_update a
           then bind_io (lift_io (cfg_str c ''image'')) (\<lambda>img.
                  print_return (''Local '' @ img @ '' not found. Use --start'') True)
           else return_io True
       | Some old \<Rightarrow>
           bind_io (lift_io (cfg_str c ''image'')) (\<lambda>img.
           bind_io (docker_remote_sha256 w img) (\<lambda>new_sha.
             case new_sha of
               None \<Rightarrow> return_io False
             | Some new \<Rightarrow>
                 if old = new then print_return (img @ '' up to date'') False
                 else if cli_update a
                 then print_return
                        (img @ '' update found. Use --upgrade''
                         @ (if old = ''<none>'' then ''. You build image? Use -b, -f for force pull'' else []))
                        True
                 else return_io True)))"

definition StarterWorker_allow_source_change :: "cli \<Rightarrow> string \<Rightarrow> bool io" where
  "StarterWorker_allow_source_change a old_sha =
     (let sources = [''hub'', ''local build''];
          old = (if old_sha \<noteq> ''<none>'' then sources ! 0 else sources ! 1);
          new = (if \<not> cli_b a then sources ! 0 else sources ! 1)
      in if old \<noteq> new \<and> \<not> cli_f a
         then print_return (''Disallow! Use -f for change image source from '' @ old @ '' to '' @ new) False
         else return_io True)"

text \<open>\<open>__remove\<close>: removes the container when the snapshot has it.\<close>

definition StarterWorker__remove :: "world \<Rightarrow> cfg \<Rightarrow> string list \<Rightarrow> bool io" where
  "StarterWorker__remove w c containers =
     bind_io (lift_io (cfg_str c ''name'')) (\<lambda>name.
       if name \<in> set containers then docker_rm w name else return_io True)"

text \<open>
  \<open>_rmi\<close>.  The image listing is asked only when the ID is not given or not among the
  IDs; \<open>id_ or image\<close> is the reference when \<open>id_\<close> is \<open>None\<close> or the empty string.
\<close>

definition StarterWorker_rmi :: "world \<Rightarrow> cfg \<Rightarrow> string option \<Rightarrow> bool io" where
  "StarterWorker_rmi w c id_opt =
     bind_io (case id_opt of
                None \<Rightarrow> return_io False
              | Some i \<Rightarrow> bind_io (docker_repo_id w) (\<lambda>ids. return_io (i \<in> set ids))) (\<lambda>known.
     bind_io (if known then return_io True
              else bind_io (lift_io (cfg_str c ''image'')) (\<lambda>img.
                   bind_io (docker_images_sha256 w) (\<lambda>images. return_io (images img \<noteq> None)))) (\<lambda>present.
       if present
       then
         bind_io (if id_opt = None \<or> id_opt = Some []
                  then lift_io (cfg_str c ''image'')
                  else return_io (the id_opt)) (\<lambda>target.
         bind_io (docker_rmi w target) (\<lambda>ok.
           if \<not> ok
           then print_return (''Error delete '' @ target @ '' image. Maybe containers use it?'') False
           else return_io True))
       else return_io True))"

text \<open>\<open>self._stop() and self.__remove()\<close>: the container is removed only after a successful stop.\<close>

definition stop_and_remove :: "world \<Rightarrow> cfg \<Rightarrow> cli \<Rightarrow> string list \<Rightarrow> bool io" where
  "stop_and_remove w c a containers =
     bind_io (StarterWorker_stop w c a containers) (\<lambda>stopped.
       if stopped then StarterWorker__remove w c containers else return_io False)"

definition StarterWorker_remove :: "world \<Rightarrow> cfg \<Rightarrow> cli \<Rightarrow> string list \<Rightarrow> bool io" where
  "StarterWorker_remove w c a containers =
     bind_io (stop_and_remove w c a containers) (\<lambda>_. StarterWorker_rmi w c None)"

definition rmtree :: "string \<Rightarrow> unit io" where
  "rmtree path tr = (Inr (), tr @ [Rmtree path])"

definition StarterWorker_purge :: "world \<Rightarrow> cfg \<Rightarrow> cli \<Rightarrow> string list \<Rightarrow> unit io" where
  "StarterWorker_purge w c a containers =
     bind_io (StarterWorker_remove w c a containers) (\<lambda>removed.
       if removed
       then bind_io (lift_io (cfg_str c ''data_path'')) (\<lambda>data_path. rmtree data_path)
       else return_io ())"

text \<open>
  \<open>_upgrade\<close>, in three parts.  The last part, from \<open>if not self._pull()\<close> on: get the
  new image, stop and remove the container, run the new one when both went well, delete
  the old image.
\<close>

definition upgrade_replace :: "world \<Rightarrow> cfg \<Rightarrow> cli \<Rightarrow> string list \<Rightarrow> string \<Rightarrow> string \<Rightarrow> bool option io" where
  "upgrade_replace w c a containers img old_id =
     bind_io (StarterWorker_pull w c a) (\<lambda>pulled.
       if \<not> pulled then print_return ''Runtime error, exit'' None
       else
         bind_io (stop_and_remove w c a containers) (\<lambda>removed.
         bind_io (if removed
                  then bind_io (StarterWorker_run_container w c a) (\<lambda>_. return_io ())
                  else return_io ()) (\<lambda>_.
         bind_io (lift_io (unpack2 (rsplit1 CHR '':'' img))) (\<lambda>_.
         bind_io (StarterWorker_rmi w c (Some old_id)) (\<lambda>_.
           return_io None)))))"

text \<open>The middle part, from \<open>if not (self._update(old_sha) or self._cli.b)\<close> on.\<close>

definition upgrade_if_stale ::
  "world \<Rightarrow> cfg \<Rightarrow> cli \<Rightarrow> string list \<Rightarrow> string \<Rightarrow> string \<Rightarrow> string \<Rightarrow> bool option io" where
  "upgrade_if_stale w c a containers img old_sha old_id =
     bind_io (StarterWorker_update w c a (Some old_sha)) (\<lambda>stale.
       if \<not> (stale \<or> cli_b a) then return_io None
       else upgrade_replace w c a containers img old_id)"

definition StarterWorker_upgrade :: "world \<Rightarrow> cfg \<Rightarrow> cli \<Rightarrow> string list \<Rightarrow> bool option io" where
  "StarterWorker_upgrade w c a containers =
     bind_io (docker_images_sha256 w) (\<lambda>images.
     bind_io (lift_io (cfg_str c ''image'')) (\<lambda>img.
       case images img of
         None \<Rightarrow> StarterWorker_start w c a containers
       | Some old_sha \<Rightarrow>
           bind_io (docker_images_id w) (\<lambda>ids.
             case ids img of
               None \<Rightarrow>
                 bind_io (lift_io (cfg_str c ''name'')) (\<lambda>name.
                   print_return (''Runtime error,'' @ name @ '' ID not found, exit'') None)
             | Some old_id \<Rightarrow>
                 bind_io (StarterWorker_allow_source_change a old_sha) (\<lambda>allowed.
                   if \<not> allowed then return_io None
                   else upgrade_if_stale w c a containers img old_sha old_id))))"

text \<open>
  \<open>run\<close>, the body of the worker's thread.  The first action flag that is set selects the
  action.  \<open>_status\<close> is set to 0 at the end; an exception ends the thread before that.
\<close>

definition StarterWorker_run :: "world \<Rightarrow> cfg \<Rightarrow> cli \<Rightarrow> string list \<Rightarrow> unit io" where
  "StarterWorker_run w c a containers =
     bind_io (StarterWorker_config_check c) (\<lambda>ok.
       if \<not> ok then return_io ()
       else if cli_start a then bind_io (StarterWorker_start w c a containers) (\<lambda>_. return_io ())
       else if cli_stop a then bind_io (StarterWorker_stop w c a containers) (\<lambda>_. return_io ())
       else if cli_update a then bind_io (StarterWorker_update w c a None) (\<lambda>_. return_io ())
       else if cli_upgrade a then bind_io (StarterWorker_upgrade w c a containers) (\<lambda>_. return_io ())
       else if cli_remove a then bind_io (StarterWorker_remove w c a containers) (\<lambda>_. return_io ())
       else if cli_purge a then StarterWorker_purge w c a containers
       else return_io ())"

text \<open>\<open>status()\<close> of a worker whose thread has ended with the given result.\<close>

definition status :: "(exn + unit) \<Rightarrow> int option" where
  "status r = (case r of Inl _ \<Rightarrow> None | Inr _ \<Rightarrow> Some 0)"

section \<open>The coordinator\<close>

text \<open>
  \<open>DockerStarter._check\<close>, with the two sets \<open>images\<close> and \<open>names\<close> as arguments of the
  loop.  Only a string can be looked up in or added to a set of strings (a dict or a list
  is unhashable).
\<close>

fun DockerStarter_check :: "cli \<Rightarrow> cfg list \<Rightarrow> string set \<Rightarrow> string set \<Rightarrow> unit io" where
  "DockerStarter_check a [] images names = return_io ()"
| "DockerStarter_check a (c # cs) images names =
     bind_io (lift_io (cfg_str c ''name'')) (\<lambda>name.
       if name \<in> names
       then bind_io (print_io (''Container name '' @ name @ '' duplicated. It must be unique. UNACCEPTABLE!''))
              (\<lambda>_. raise_io (SystemExit 1))
       else
         bind_io (lift_io (cfg_str c ''image'')) (\<lambda>img.
           if cli_t a \<and> img \<in> images
           then bind_io (print_io (''Image '' @ img @ '' duplicated and threading enabled, don''
                                   @ [CHR 0x27] @ ''t use -t. UNACCEPTABLE!''))
                  (\<lambda>_. raise_io (SystemExit 1))
           else DockerStarter_check a cs (insert img images) (insert name names)))"

text \<open>
  \<open>_one_by_one\<close>: one worker after the other.  The coordinator polls \<open>status()\<close> until it
  is not \<open>None\<close>; after a thread that ended with an exception it polls forever, which is
  the result \<open>False\<close> with the trace up to there.
\<close>

fun DockerStarter_one_by_one ::
  "world \<Rightarrow> cli \<Rightarrow> string list \<Rightarrow> cfg list \<Rightarrow> event list \<Rightarrow> bool \<times> event list" where
  "DockerStarter_one_by_one w a containers [] tr = (True, tr)"
| "DockerStarter_one_by_one w a containers (c # cs) tr =
     (case StarterWorker_run w c a containers tr of
        (r, tr') \<Rightarrow>
          if status r = None then (False, tr')
          else DockerStarter_one_by_one w a containers cs tr')"

text \<open>
  \<open>_all_once\<close>: all workers at once.  Each thread talks to the collaborators on its own;
  what worker \<open>i\<close> is answered is the world \<open>tw i\<close>, and its events are not merged into
  the coordinator's trace.  The polling loop ends when no status is \<open>None\<close>.
\<close>

definition DockerStarter_all_once :: "(nat \<Rightarrow> world) \<Rightarrow> cli \<Rightarrow> string list \<Rightarrow> cfg list \<Rightarrow> bool" where
  "DockerStarter_all_once tw a containers cfgs =
     list_all (\<lambda>(i, c). status (fst (StarterWorker_run (tw i) c a containers [])) \<noteq> None)
       (enumerate 0 cfgs)"

text \<open>
  How the process ends: with an exit code, or never.  An exception that nobody catches
  ends the interpreter with code 1, \<open>exit(n)\<close> with \<open>n\<close>.
\<close>

datatype outcome = Exit int | Hang

fun exit_code :: "exn \<Rightarrow> int" where
  "exit_code (SystemExit n) = n"
| "exit_code _ = 1"

text \<open>\<open>DockerStarter.__init__\<close> for a list of declarations, as the whole run of the process.\<close>

definition DockerStarter :: "world \<Rightarrow> (nat \<Rightarrow> world) \<Rightarrow> cli \<Rightarrow> cfg list \<Rightarrow> outcome \<times> event list" where
  "DockerStarter w tw a cfgs =
     (case bind_io (docker_containers w) (\<lambda>containers.
           bind_io (DockerStarter_check a cfgs {} {}) (\<lambda>_. return_io containers)) [] of
        (Inl e, tr) \<Rightarrow> (Exit (exit_code e), tr)
      | (Inr containers, tr) \<Rightarrow>
          if cli_t a
          then (if DockerStarter_all_once tw a containers cfgs then Exit 0 else Hang, tr)
          else (case DockerStarter_one_by_one w a containers cfgs tr of
                  (done, tr') \<Rightarrow> (if done then Exit 0 else Hang, tr')))"

section \<open>Properties of traces\<close>

text \<open>
  A call that changes the state of the runtime or of the file system.  Of the docker
  commands only the listings \<open>ps\<close> and \<open>images\<close> are not counted; the two registry
  requests and \<open>print\<close> change nothing.
\<close>

fun mutating :: "event \<Rightarrow> bool" where
  "mutating (Docker cmd rc) = (case cmd of [] \<Rightarrow> True | x # _ \<Rightarrow> x \<noteq> ''ps'' \<and> x \<noteq> ''images'')"
| "mutating (Makedirs _ _) = True"
| "mutating (Rmtree _) = True"
| "mutating (AuthGet _) = False"
| "mutating (ManifestHead _ _ _) = False"
| "mutating (Print _) = False"

text \<open>The kind of call an event is.\<close>

datatype ekind =
    EList | EStart | EStop | ERm | ERmi | EPull | EBuild | ERun | EOther
  | EAuth | EHead | EMakedirs | ERmtree | EPrint

fun docker_kind :: "string list \<Rightarrow> ekind" where
  "docker_kind [] = EOther"
| "docker_kind (x # _) =
     (if x = ''ps'' \<or> x = ''images'' then EList
      else if x = ''start'' then EStart
      else if x = ''stop'' then EStop
      else if x = ''rm'' then ERm
      else if x = ''rmi'' then ERmi
      else if x = ''pull'' then EPull
      else if x = ''build'' then EBuild
      else if x = ''run'' then ERun
      else EOther)"

fun event_kind :: "event \<Rightarrow> ekind" where
  "event_kind (Docker cmd rc) = docker_kind cmd"
| "event_kind (AuthGet _) = EAuth"
| "event_kind (ManifestHead _ _ _) = EHead"
| "event_kind (Makedirs _ _) = EMakedirs"
| "event_kind (Rmtree _) = ERmtree"
| "event_kind (Print _) = EPrint"

text \<open>
  \<open>emits m P\<close>: from every trace, the computation \<open>m\<close> only appends events, and each of
  them satisfies \<open>P\<close>.
\<close>

definition emits :: "'a io \<Rightarrow> (event \<Rightarrow> bool) \<Rightarrow> bool" where
  "emits m P \<longleftrightarrow> (\<forall>tr. \<exists>evs. snd (m tr) = tr @ evs \<and> list_all P evs)"

text \<open>A new image was obtained: a pull or a build that succeeded.\<close>

fun obtained :: "event \<Rightarrow> bool" where
  "obtained (Docker cmd rc) = (rc = 0 \<and> (docker_kind cmd = EPull \<or> docker_kind cmd = EBuild))"
| "obtained _ = False"

text \<open>What \<open>_rmi\<close> prints after \<open>docker rmi\<close> returned \<open>rc\<close>.\<close>

definition delete_report :: "string \<Rightarrow> int \<Rightarrow> event list" where
  "delete_report target rc =
     (if rc = 0 then [] else [Print (''Error delete '' @ target @ '' image. Maybe containers use it?'')])"

text \<open>
  The events of an upgrade from some point on: either no image is deleted, or exactly one
  is, after an image was obtained, as the last call, followed only by the report of a
  failed deletion; the upgrade then ends normally.  The deleted image is the old ID, or
  the reference when that ID is the empty string.
\<close>

definition replaces :: "cfg \<Rightarrow> string \<Rightarrow> (exn + bool option) \<Rightarrow> event list \<Rightarrow> bool" where
  "replaces c old_id r evs \<longleftrightarrow>
     (\<forall>e\<in>set evs. event_kind e \<noteq> ERmi)
     \<or> (\<exists>P rc target.
           evs = P @ Docker [''rmi'', target] rc # delete_report target rc \<and>
           (\<forall>e\<in>set P. event_kind e \<noteq> ERmi) \<and> (\<exists>e\<in>set P. obtained e) \<and> r = Inr None \<and>
           (if old_id = [] then cfg_str c ''image'' = Inr target else target = old_id))"

text \<open>
  The directories after a trace, given those before it.  \<open>os.makedirs\<close> creates the
  directory and its missing parents, \<open>shutil.rmtree\<close> removes the directory and all below
  it; what docker itself does to the file system is not in the trace.
\<close>

definition ancestors :: "string \<Rightarrow> string list" where
  "ancestors p = map (\<lambda>n. take n p) (filter (\<lambda>n. p ! n = CHR ''/'') [1..<length p]) @ [p]"

definition below :: "string \<Rightarrow> string \<Rightarrow> bool" where
  "below p q \<longleftrightarrow> q = p \<or> take (length p + 1) q = p @ ''/''"

fun fs_step :: "string set \<Rightarrow> event \<Rightarrow> string set" where
  "fs_step dirs (Makedirs p ok) = (if ok then dirs \<union> set (ancestors p) else dirs)"
| "fs_step dirs (Rmtree p) = {q \<in> dirs. \<not> below p q}"
| "fs_step dirs _ = dirs"

definition dirs_after :: "string set \<Rightarrow> event list \<Rightarrow> string set" where
  "dirs_after dirs evs = foldl fs_step dirs evs"

text \<open>
  An event that, if it creates a directory, creates the data path of a declaration with
  at least one volume.
\<close>

definition creates_only_data_path :: "cfg \<Rightarrow> event \<Rightarrow> bool" where
  "creates_only_data_path c e \<longleftrightarrow>
     (\<forall>p ok. e = Makedirs p ok \<longrightarrow>
        cfg_str c ''data_path'' = Inr p \<and> (\<exists>vs. cfg_items c ''v'' = Inr vs \<and> vs \<noteq> []))"

section \<open>The words of the specification\<close>

text \<open>
  The source guard in the words of the specification: the provenance of the image that
  is there is read off its digest, the provenance asked for off the build flag; the
  guard blocks when they differ and the force flag is not set.
\<close>

datatype provenance = Hub | LocalBuild

definition inferred_provenance :: "string \<Rightarrow> provenance" where
  "inferred_provenance digest = (if digest = ''<none>'' then LocalBuild else Hub)"

definition requested_provenance :: "cli \<Rightarrow> provenance" where
  "requested_provenance a = (if cli_b a then LocalBuild else Hub)"

fun provenance_name :: "provenance \<Rightarrow> string" where
  "provenance_name Hub = ''hub''"
| "provenance_name LocalBuild = ''local build''"

definition guard_blocks :: "cli \<Rightarrow> string \<Rightarrow> bool" where
  "guard_blocks a digest \<longleftrightarrow> inferred_provenance digest \<noteq> requested_provenance a \<and> \<not> cli_f a"

definition guard_report :: "cli \<Rightarrow> string \<Rightarrow> event" where
  "guard_report a digest =
     Print (''Disallow! Use -f for change image source from ''
            @ provenance_name (inferred_provenance digest) @ '' to ''
            @ provenance_name (requested_provenance a))"

text \<open>
  The run invocation in the words of the specification: the detached flag; a
  port-publish entry per port mapping; a bind-mount entry per volume mapping, the host
  side being the data path joined with the subpath; an environment entry per declared
  variable, then one per command-line override; the extra arguments, an entry being one
  token when its separator is empty and a flag and a value when it is a space; the
  restart policy; the name; the image reference last.
\<close>

definition spec_extra_arg :: "string \<times> string \<times> string \<Rightarrow> string list" where
  "spec_extra_arg el = (case el of (flag, sep, val) \<Rightarrow> if sep = '' '' then [flag, val] else [flag @ val])"

definition spec_run_args ::
  "string \<Rightarrow> (string \<times> string) list \<Rightarrow> (string \<times> string) list \<Rightarrow> (string \<times> string) list \<Rightarrow>
   string list \<Rightarrow> (string \<times> string \<times> string) list \<Rightarrow> string \<Rightarrow> string \<Rightarrow> string \<Rightarrow> string list" where
  "spec_run_args data_path ports volumes env overrides extra restart name img =
     [''-d'']
     @ concat (map (\<lambda>(host, port). [''-p'', host @ '':'' @ port]) ports)
     @ concat (map (\<lambda>(sub, mount). [''-v'', path_join data_path sub @ '':'' @ mount]) volumes)
     @ concat (map (\<lambda>(key, val). [''-e'', key @ ''='' @ val]) env)
     @ concat (map (\<lambda>kv. [''-e'', kv]) overrides)
     @ concat (map spec_extra_arg extra)
     @ [''--restart='' @ restart, ''--name'', name, img]"

section \<open>The arguments of the listings\<close>

text \<open>The arguments of the two image listings.\<close>

definition digests_cmd :: "string list" where
  "digests_cmd = [''images'', ''--digests'', ''--format'', ''{{.Repository}}:{{.Tag}} {{.Digest}}'']"

definition ids_cmd :: "string list" where
  "ids_cmd = [''images'', ''--format'', ''{{.Repository}}:{{.Tag}} {{.ID}}'']"

text \<open>The arguments of the listing of image IDs.\<close>

definition repo_cmd :: "string list" where
  "repo_cmd = [''images'', ''--format'', ''{{.ID}}'']"

text \<open>The arguments of the container listing.\<close>

definition ps_cmd :: "string list" where
  "ps_cmd = [''ps'', ''-a'', ''--format'', ''{{.Names}}'']"

section \<open>Example inputs\<close>

text \<open>The declaration \<open>{name: c1, image: repo:tag, data_path: /d}\<close>.\<close>

definition cfg_c1 :: cfg where
  "cfg_c1 = [''name'' \<mapsto> CStr ''c1'', ''image'' \<mapsto> CStr ''repo:tag'', ''data_path'' \<mapsto> CStr ''/d'']"

text \<open>
  The same with the name \<open>app\<close>.  (A name of one or two characters never gets into the
  snapshot: \<open>_docker_containers\<close> keeps the lines longer than two.)
\<close>

definition cfg_app :: cfg where
  "cfg_app = [''name'' \<mapsto> CStr ''app'', ''image'' \<mapsto> CStr ''repo:tag'', ''data_path'' \<mapsto> CStr ''/d'']"

text \<open>A second declaration with the image of the first.\<close>

definition cfg_c2 :: cfg where
  "cfg_c2 = [''name'' \<mapsto> CStr ''c2'', ''image'' \<mapsto> CStr ''repo:tag'', ''data_path'' \<mapsto> CStr ''/d2'']"


text \<open>A declaration with every option.\<close>

definition cfg_web :: cfg where
  "cfg_web =
     [''name'' \<mapsto> CStr ''web'', ''image'' \<mapsto> CStr ''nginx:latest'', ''data_path'' \<mapsto> CStr ''/srv/web'',
      ''p'' \<mapsto> CDict [(''8080'', ''80'')],
      ''v'' \<mapsto> CDict [(''conf'', ''/etc/nginx'')],
      ''e'' \<mapsto> CDict [(''TZ'', ''UTC'')],
      ''any'' \<mapsto> CList [[''--network'', '' '', ''host''], [''--memory='', [], ''512m'']],
      ''restart'' \<mapsto> CStr ''unless-stopped'']"

text \<open>No flag set; an action is chosen by setting its flag.\<close>

definition cli_none :: cli where
  "cli_none =
     \<lparr>cli_start = False, cli_stop = False, cli_update = False, cli_upgrade = False,
      cli_remove = False, cli_purge = False, cli_e = None, cli_b = False, cli_t = False,
      cli_f = False\<rparr>"

text \<open>
  A world that depends on the command only.  The listings know the one image \<open>ref\<close>
  with digest \<open>sha256:AAA\<close> and ID \<open>0123abcd\<close>, and the container names \<open>c1\<close>, \<open>app\<close> and \<open>web\<close>; every
  docker command succeeds but those whose first word is in \<open>failing\<close>; the registry
  answers with the digest \<open>remote\<close> in the content-digest header, or without any digest
  header when \<open>remote\<close> is \<open>None\<close>.
\<close>

definition listing :: "string \<Rightarrow> string list \<Rightarrow> string" where
  "listing ref cmd =
     (if cmd = [''images'', ''--digests'', ''--format'', ''{{.Repository}}:{{.Tag}} {{.Digest}}'']
      then ref @ '' sha256:AAA'' @ [newline]
      else if cmd = [''images'', ''--format'', ''{{.Repository}}:{{.Tag}} {{.ID}}'']
      then ref @ '' 0123abcd'' @ [newline]
      else if cmd = [''images'', ''--format'', ''{{.ID}}'']
      then ''0123abcd'' @ [newline]
      else if cmd = [''ps'', ''-a'', ''--format'', ''{{.Names}}'']
      then ''c1'' @ [newline] @ ''app'' @ [newline] @ ''web'' @ [newline]
      else [])"

definition world_of :: "string \<Rightarrow> string list \<Rightarrow> string option \<Rightarrow> world" where
  "world_of ref failing remote =
     \<lparr>subprocess_run = (\<lambda>tr cmd.
        if cmd \<noteq> [] \<and> hd cmd \<in> set failing then Proc 1 [] ''failed'' else Proc 0 (listing ref cmd) []),
      requests_get_token = (\<lambda>tr registry. Inr (AuthReply 200 (JsonObject (Some ''t0ken'')))),
      requests_head = (\<lambda>tr registry tag token.
        Inr (HeadReply 200 (Some (case remote of
                                    None \<Rightarrow> Map.empty
                                  | Some d \<Rightarrow> [''Docker-Content-Digest'' \<mapsto> d])))),
      os_makedirs = (\<lambda>tr path. True)\<rparr>"


text \<open>A world in which docker knows no image and no container: every listing is empty.\<close>

definition world_no_images :: world where
  "world_no_images = (world_of ''repo:tag'' [] None)\<lparr>subprocess_run := (\<lambda>tr cmd. Proc 0 [] [])\<rparr>"

text \<open>
  The world \<open>world_of ''repo:tag'' [] (Some ''sha256:BBB'')\<close> with an image \<open>repo:tag\<close> that
  was built locally: the digest listing gives it the digest \<open><none>\<close>.
\<close>

definition world_local_build :: world where
  "world_local_build =
     (world_of ''repo:tag'' [] (Some ''sha256:BBB''))\<lparr>subprocess_run := (\<lambda>tr cmd.
        if cmd = digests_cmd then Proc 0 (''repo:tag <none>'' @ [newline]) []
        else Proc 0 (listing ''repo:tag'' cmd) [])\<rparr>"

section \<open>Trace invariants\<close>

lemma emits_return: "emits (return_io x) P"
  by (simp add: emits_def return_io_def)

lemma emits_raise: "emits (raise_io e) P"
  by (simp add: emits_def raise_io_def)

lemma emits_lift: "emits (lift_io r) P"
  by (simp add: emits_def lift_io_def)

lemma emits_print: "P (Print msg) \<Longrightarrow> emits (print_io msg) P"
  by (simp add: emits_def print_io_def)

lemma emits_bind:
  assumes "emits m P" and "\<And>x. emits (k x) P"
  shows "emits (bind_io m k) P"
  unfolding emits_def
proof
  fix tr
  from assms(1) obtain evs where m: "snd (m tr) = tr @ evs" "list_all P evs"
    unfolding emits_def by blast
  show "\<exists>evs. snd (bind_io m k tr) = tr @ evs \<and> list_all P evs"
  proof (cases "m tr")
    case (Pair r tr')
    with m have tr': "tr' = tr @ evs" by simp
    show ?thesis
    proof (cases r)
      case (Inl e)
      with Pair tr' m show ?thesis by (simp add: bind_io_def)
    next
      case (Inr x)
      from assms(2) obtain evs2 where k: "snd (k x tr') = tr' @ evs2" "list_all P evs2"
        unfolding emits_def by blast
      with Pair Inr tr' m show ?thesis by (simp add: bind_io_def)
    qed
  qed
qed

lemma emits_print_return: "P (Print msg) \<Longrightarrow> emits (print_return msg v) P"
  unfolding print_return_def by (intro emits_bind emits_print emits_return)

lemma emits_docker: "(\<And>rc. P (Docker cmd rc)) \<Longrightarrow> emits (docker_run_fatal w cmd fatal) P"
  by (simp add: emits_def docker_run_fatal_def Let_def)

lemma emits_images_sha256:
  "(\<And>rc cmd. P (Docker (''images'' # cmd) rc)) \<Longrightarrow> emits (docker_images_sha256 w) P"
  unfolding docker_images_sha256_def by (intro emits_bind emits_docker emits_lift) simp

lemma emits_http_get_token: "P (AuthGet r) \<Longrightarrow> emits (http_get_token w r) P"
  by (simp add: emits_def http_get_token_def)

lemma emits_http_head: "P (ManifestHead r t k) \<Longrightarrow> emits (http_head w r t k) P"
  by (simp add: emits_def http_head_def)

lemma emits_remote_headers: "(\<And>msg. P (Print msg)) \<Longrightarrow> emits (remote_sha256_headers hs) P"
  unfolding remote_sha256_headers_def Let_def
  by (auto split: option.splits
      intro!: emits_bind emits_print emits_print_return emits_return emits_raise)

lemma emits_remote_manifest:
  "(\<And>msg. P (Print msg)) \<Longrightarrow> (\<And>r t k. P (ManifestHead r t k)) \<Longrightarrow>
   emits (remote_sha256_manifest w r t k) P"
  unfolding remote_sha256_manifest_def
  by (auto split: sum.splits
      intro!: emits_bind emits_http_head emits_print_return emits_remote_headers)

lemma emits_remote_sha256:
  "(\<And>msg. P (Print msg)) \<Longrightarrow> (\<And>r t k. P (ManifestHead r t k)) \<Longrightarrow> (\<And>r. P (AuthGet r)) \<Longrightarrow>
   emits (docker_remote_sha256 w img) P"
  unfolding docker_remote_sha256_def
  by (auto split: sum.splits json.splits option.splits prod.splits
      intro!: emits_bind emits_lift emits_http_get_token emits_print_return emits_raise
              emits_remote_manifest)

lemma emits_update:
  "(\<And>msg. P (Print msg)) \<Longrightarrow> (\<And>r t k. P (ManifestHead r t k)) \<Longrightarrow> (\<And>r. P (AuthGet r)) \<Longrightarrow>
   (\<And>rc cmd. P (Docker (''images'' # cmd) rc)) \<Longrightarrow>
   emits (StarterWorker_update w c a old) P"
  unfolding StarterWorker_update_def
  by (auto split: option.splits
      intro!: emits_bind emits_lift emits_print_return emits_return emits_remote_sha256
              emits_images_sha256)

lemma emits_config_check: "(\<And>msg. P (Print msg)) \<Longrightarrow> emits (StarterWorker_config_check c) P"
  unfolding StarterWorker_config_check_def
  by (auto split: option.splits intro!: emits_print_return emits_return)

lemma emitsD:
  "emits m P \<Longrightarrow> m tr = (r, tr') \<Longrightarrow> \<exists>evs. tr' = tr @ evs \<and> (\<forall>e\<in>set evs. P e)"
  unfolding emits_def by (metis list_all_iff snd_conv)

section \<open>Evaluation on concrete inputs\<close>

lemmas io_defs = return_io_def raise_io_def bind_io_def lift_io_def print_io_def print_return_def
  bind_exn_def

lemmas docker_defs = docker_run_fatal_def docker_containers_def docker_stop_def docker_start_def
  docker_rm_def docker_rmi_def docker_pull_def docker_build_def docker_run_def
  docker_images_sha256_def docker_images_id_def docker_repo_id_def
  http_get_token_def http_head_def remote_sha256_headers_def remote_sha256_manifest_def
  docker_remote_sha256_def

lemmas worker_defs = StarterWorker_config_check_def type_check_def StarterWorker_pull_def run_cmd_def
  makedirs_def StarterWorker_run_container_def StarterWorker_start_def StarterWorker_stop_def
  StarterWorker_update_def StarterWorker_allow_source_change_def StarterWorker__remove_def
  StarterWorker_rmi_def stop_and_remove_def StarterWorker_remove_def rmtree_def
  StarterWorker_purge_def upgrade_replace_def upgrade_if_stale_def StarterWorker_upgrade_def
  StarterWorker_run_def
  cfg_str_def cfg_items_def cfg_list_def

lemmas example_defs = cfg_c1_def cfg_app_def cli_none_def world_of_def listing_def newline_def
  rsplit1_def strip_def

section \<open>The update action is read-only\<close>

text \<open>
  C6.  For every declaration, every command line, every world and every trace so far,
  \<open>_update\<close> (with or without a digest handed in) appends no mutating call: no docker
  command other than a listing, no directory creation, no directory removal.  The same
  holds for the whole worker when \<open>--update\<close> is the selected action.  The worlds range
  over every outcome of the comparison: image absent, digests equal, digests different,
  failed fetch.
\<close>

theorem update_never_mutates:
  "(StarterWorker_update w c a old_sha tr = (r, tr') \<longrightarrow>
      (\<exists>evs. tr' = tr @ evs \<and> (\<forall>e\<in>set evs. \<not> mutating e)))
   \<and> (cli_update a \<and> \<not> cli_start a \<and> \<not> cli_stop a \<and>
        StarterWorker_run w c a containers tr = (r2, tr2) \<longrightarrow>
      (\<exists>evs. tr2 = tr @ evs \<and> (\<forall>e\<in>set evs. \<not> mutating e)))"
proof -
  have upd: "emits (StarterWorker_update w c a old) (\<lambda>e. \<not> mutating e)" for old
    by (rule emits_update) simp_all
  have run: "emits (StarterWorker_run w c a containers) (\<lambda>e. \<not> mutating e)"
    if "cli_update a" "\<not> cli_start a" "\<not> cli_stop a"
    unfolding StarterWorker_run_def using that
    by (auto intro!: emits_bind emits_config_check emits_return upd)
  show ?thesis
    using emitsD [OF upd] emitsD [OF run] by blast
qed

theorem update_never_mutates_witness:
  "cli_update (cli_none\<lparr>cli_update := True\<rparr>) \<and> \<not> cli_start (cli_none\<lparr>cli_update := True\<rparr>)
   \<and> \<not> cli_stop (cli_none\<lparr>cli_update := True\<rparr>)
   \<and> StarterWorker_update (world_of ''repo:tag'' [] (Some ''sha256:BBB'')) cfg_c1 (cli_none\<lparr>cli_update := True\<rparr>) None []
       = (Inr True,
          [Docker [''images'', ''--digests'', ''--format'', ''{{.Repository}}:{{.Tag}} {{.Digest}}''] 0,
           AuthGet ''repo'', ManifestHead ''repo'' ''tag'' ''t0ken'',
           Print ''repo:tag update found. Use --upgrade''])
   \<and> StarterWorker_run (world_of ''repo:tag'' [] (Some ''sha256:BBB'')) cfg_c1 (cli_none\<lparr>cli_update := True\<rparr>) [] []
       = (Inr (),
          [Docker [''images'', ''--digests'', ''--format'', ''{{.Repository}}:{{.Tag}} {{.Digest}}''] 0,
           AuthGet ''repo'', ManifestHead ''repo'' ''tag'' ''t0ken'',
           Print ''repo:tag update found. Use --upgrade''])
   \<and> (\<exists>evs. [Docker [''images'', ''--digests'', ''--format'', ''{{.Repository}}:{{.Tag}} {{.Digest}}''] 0,
              AuthGet ''repo'', ManifestHead ''repo'' ''tag'' ''t0ken'',
              Print ''repo:tag update found. Use --upgrade''] = [] @ evs
            \<and> (\<forall>e\<in>set evs. \<not> mutating e))"
proof -
  let ?w = "world_of ''repo:tag'' [] (Some ''sha256:BBB'')"
  let ?a = "cli_none\<lparr>cli_update := True\<rparr>"
  let ?t = "[Docker [''images'', ''--digests'', ''--format'', ''{{.Repository}}:{{.Tag}} {{.Digest}}''] 0,
             AuthGet ''repo'', ManifestHead ''repo'' ''tag'' ''t0ken'',
             Print ''repo:tag update found. Use --upgrade'']"
  have flags: "cli_update ?a \<and> \<not> cli_start ?a \<and> \<not> cli_stop ?a"
    by (simp add: cli_none_def)
  have u: "StarterWorker_update ?w cfg_c1 ?a None [] = (Inr True, ?t)"
    by code_simp
  have r: "StarterWorker_run ?w cfg_c1 ?a [] [] = (Inr (), ?t)"
    by code_simp
  from update_never_mutates [of ?w cfg_c1 ?a None "[]" "Inr True" ?t "[]" "Inr ()" ?t] flags u r
  show ?thesis by blast
qed

section \<open>The calls each function can make\<close>

lemma mutating_ekind: "mutating e \<longleftrightarrow> event_kind e \<notin> {EList, EAuth, EHead, EPrint}"
  by (cases e) (auto split: list.splits)

lemma emits_mono: "emits m P \<Longrightarrow> (\<And>e. P e \<Longrightarrow> Q e) \<Longrightarrow> emits m Q"
  unfolding emits_def list_all_iff by metis

lemma emits_kind_docker: "docker_kind cmd \<in> S \<Longrightarrow> emits (docker_run_fatal w cmd fatal) (\<lambda>e. event_kind e \<in> S)"
  by (rule emits_docker) simp

lemma emits_makedirs: "(\<And>ok. P (Makedirs p ok)) \<Longrightarrow> emits (makedirs w p) P"
  by (simp add: emits_def makedirs_def)

lemma emits_rmtree: "P (Rmtree p) \<Longrightarrow> emits (rmtree p) P"
  by (simp add: emits_def rmtree_def)

lemmas emits_intros = emits_bind emits_return emits_raise emits_lift emits_print emits_print_return
  emits_docker

lemma emits_kind_pull: "emits (StarterWorker_pull w c a) (\<lambda>e. event_kind e \<in> {EPull, EBuild})"
  unfolding StarterWorker_pull_def docker_build_def docker_pull_def
  by (auto intro!: emits_intros)

lemma emits_kind_run_container:
  "emits (StarterWorker_run_container w c a) (\<lambda>e. event_kind e \<in> {EMakedirs, ERun, EPrint})"
  unfolding StarterWorker_run_container_def docker_run_def
  by (auto intro!: emits_intros emits_makedirs split: prod.splits)

lemma emits_kind_images_sha256: "emits (docker_images_sha256 w) (\<lambda>e. event_kind e \<in> {EList})"
  by (rule emits_images_sha256) simp

lemma emits_kind_images_id: "emits (docker_images_id w) (\<lambda>e. event_kind e \<in> {EList})"
  unfolding docker_images_id_def by (auto intro!: emits_intros)

lemma emits_kind_repo_id: "emits (docker_repo_id w) (\<lambda>e. event_kind e \<in> {EList})"
  unfolding docker_repo_id_def by (auto intro!: emits_intros)

lemma emits_kind_update:
  "emits (StarterWorker_update w c a old) (\<lambda>e. event_kind e \<in> {EList, EAuth, EHead, EPrint})"
  by (rule emits_update) simp_all

lemma emits_kind_stop: "emits (StarterWorker_stop w c a cs) (\<lambda>e. event_kind e \<in> {EStop, EPrint})"
  unfolding StarterWorker_stop_def docker_stop_def
  by (auto intro!: emits_intros)

lemma emits_kind__remove: "emits (StarterWorker__remove w c cs) (\<lambda>e. event_kind e \<in> {ERm})"
  unfolding StarterWorker__remove_def docker_rm_def
  by (auto intro!: emits_intros)

lemma emits_kind_stop_and_remove:
  "emits (stop_and_remove w c a cs) (\<lambda>e. event_kind e \<in> {EStop, ERm, EPrint})"
  unfolding stop_and_remove_def
  by (auto intro!: emits_bind emits_return
      emits_mono [OF emits_kind_stop] emits_mono [OF emits_kind__remove])

lemma emits_kind_rmi: "emits (StarterWorker_rmi w c i) (\<lambda>e. event_kind e \<in> {EList, ERmi, EPrint})"
  unfolding StarterWorker_rmi_def docker_rmi_def
  by (auto intro!: emits_intros emits_mono [OF emits_kind_images_sha256]
      emits_mono [OF emits_kind_repo_id] split: option.splits)

lemma emits_kind_remove:
  "emits (StarterWorker_remove w c a cs) (\<lambda>e. event_kind e \<in> {EList, EStop, ERm, ERmi, EPrint})"
  unfolding StarterWorker_remove_def
  by (auto intro!: emits_bind emits_mono [OF emits_kind_stop_and_remove] emits_mono [OF emits_kind_rmi])

lemma emits_kind_purge:
  "emits (StarterWorker_purge w c a cs) (\<lambda>e. event_kind e \<in> {EList, EStop, ERm, ERmi, ERmtree, EPrint})"
  unfolding StarterWorker_purge_def
  by (auto intro!: emits_bind emits_return emits_lift emits_rmtree emits_mono [OF emits_kind_remove])

lemma emits_kind_start:
  "emits (StarterWorker_start w c a cs) (\<lambda>e. event_kind e \<in> {EList, EStart, EPull, EBuild, EMakedirs, ERun, EPrint})"
  unfolding StarterWorker_start_def docker_start_def
  by (auto intro!: emits_intros emits_mono [OF emits_kind_images_sha256]
      emits_mono [OF emits_kind_pull] emits_mono [OF emits_kind_run_container])

lemma emits_kind_allow: "emits (StarterWorker_allow_source_change a old) (\<lambda>e. event_kind e \<in> {EPrint})"
  unfolding StarterWorker_allow_source_change_def Let_def
  by (auto intro!: emits_intros)

lemma emits_kind_replace:
  "emits (upgrade_replace w c a cs img old_id)
     (\<lambda>e. event_kind e \<in> {EList, EStop, ERm, ERmi, EPull, EBuild, EMakedirs, ERun, EPrint})"
  unfolding upgrade_replace_def
  by (auto intro!: emits_intros emits_mono [OF emits_kind_pull]
      emits_mono [OF emits_kind_stop_and_remove] emits_mono [OF emits_kind_run_container]
      emits_mono [OF emits_kind_rmi])

lemma emits_kind_if_stale:
  "emits (upgrade_if_stale w c a cs img old_sha old_id)
     (\<lambda>e. event_kind e \<in> {EList, EAuth, EHead, EStop, ERm, ERmi, EPull, EBuild, EMakedirs, ERun, EPrint})"
  unfolding upgrade_if_stale_def
  by (auto intro!: emits_intros emits_mono [OF emits_kind_update] emits_mono [OF emits_kind_replace])

lemma emits_kind_upgrade:
  "emits (StarterWorker_upgrade w c a cs)
     (\<lambda>e. event_kind e \<in> {EList, EAuth, EHead, EStart, EStop, ERm, ERmi, EPull, EBuild, EMakedirs, ERun, EPrint})"
  unfolding StarterWorker_upgrade_def
  by (auto intro!: emits_intros emits_mono [OF emits_kind_images_sha256]
      emits_mono [OF emits_kind_images_id] emits_mono [OF emits_kind_start]
      emits_mono [OF emits_kind_allow] emits_mono [OF emits_kind_if_stale]
      split: option.splits)

section \<open>The decision of the source guard and the listings before it\<close>

lemma bind_io_Inr: "m tr = (Inr x, tr') \<Longrightarrow> bind_io m k tr = k x tr'"
  by (simp add: bind_io_def)

lemma bind_io_Inl: "m tr = (Inl e, tr') \<Longrightarrow> bind_io m k tr = (Inl e, tr')"
  by (simp add: bind_io_def)

lemma allow_source_change_eq:
  "StarterWorker_allow_source_change a old_sha tr =
     (if guard_blocks a old_sha then (Inr False, tr @ [guard_report a old_sha]) else (Inr True, tr))"
  by (simp add: StarterWorker_allow_source_change_def guard_blocks_def guard_report_def
      inferred_provenance_def requested_provenance_def Let_def io_defs)

lemma images_sha256_trace:
  "docker_images_sha256 w tr = (Inr images, tr1) \<Longrightarrow> tr1 = tr @ [Docker digests_cmd 0]"
  by (auto simp: docker_images_sha256_def docker_run_fatal_def digests_cmd_def Let_def io_defs
      split: if_splits sum.splits)

lemma images_id_trace:
  "docker_images_id w tr = (Inr ids, tr1) \<Longrightarrow> tr1 = tr @ [Docker ids_cmd 0]"
  by (auto simp: docker_images_id_def docker_run_fatal_def ids_cmd_def Let_def io_defs
      split: if_splits sum.splits)

section \<open>The run invocation\<close>

lemma run_ports_eq:
  "run_ports ps cmd = cmd @ concat (map (\<lambda>(host, port). [''-p'', host @ '':'' @ port]) ps)"
  by (induction ps cmd rule: run_ports.induct) simp_all

lemma run_env_eq:
  "run_env es cmd = cmd @ concat (map (\<lambda>(key, val). [''-e'', key @ ''='' @ val]) es)"
  by (induction es cmd rule: run_env.induct) simp_all

lemma run_cli_env_eq:
  "run_cli_env envs cmd = cmd @ concat (map (\<lambda>kv. [''-e'', kv]) envs)"
  by (induction envs arbitrary: cmd) simp_all

lemma run_volumes_eq:
  "cfg_str c ''data_path'' = Inr dp \<Longrightarrow>
   run_volumes c vs cmd = Inr (cmd @ concat (map (\<lambda>(sub, mount). [''-v'', path_join dp sub @ '':'' @ mount]) vs))"
  by (induction vs arbitrary: cmd) auto

lemma run_any_eq:
  "\<forall>(flag, sep, val)\<in>set els. sep = [] \<or> sep = '' '' \<Longrightarrow>
   run_any (map (\<lambda>(flag, sep, val). [flag, sep, val]) els) cmd = Inr (cmd @ concat (map spec_extra_arg els))"
  by (induction els arbitrary: cmd) (auto simp: spec_extra_arg_def)

lemma run_cmd_eq:
  assumes "c ''name'' = Some (CStr name)" "c ''image'' = Some (CStr img)"
    "c ''data_path'' = Some (CStr dp)"
    "cfg_items c ''p'' = Inr ps" "cfg_items c ''v'' = Inr vs" "cfg_items c ''e'' = Inr es"
    "cfg_list c ''any'' = Inr (map (\<lambda>(flag, sep, val). [flag, sep, val]) els)"
    "\<forall>(flag, sep, val)\<in>set els. sep = [] \<or> sep = '' ''"
    "c ''restart'' = None \<and> restart = ''always'' \<or> c ''restart'' = Some (CStr restart)"
  shows "run_cmd c a =
     Inr (spec_run_args dp ps vs es (case cli_e a of None \<Rightarrow> [] | Some envs \<Rightarrow> envs) els restart name img,
          vs \<noteq> [])"
proof -
  from assms(3) have dp: "cfg_str c ''data_path'' = Inr dp" by (simp add: cfg_str_def)
  from assms(9) have rs: "(if c ''restart'' = None then Inr ''always'' else cfg_str c ''restart'') = Inr restart"
    by (auto simp: cfg_str_def)
  show ?thesis
    unfolding run_cmd_def
    using assms(1,2,4,5,6,7) run_any_eq [OF assms(8)]
    by (simp add: bind_exn_def rs run_volumes_eq [OF dp] run_ports_eq run_env_eq run_cli_env_eq
        spec_run_args_def cfg_str_def)
qed

text \<open>
  What holds of \<open>_run\<close> and \<open>_start\<close>.  For a declaration whose options have the declared
  kinds and whose extra arguments are triples with an empty or a one-space separator, the
  argument list built by \<open>_run\<close> is the one the specification describes, in that order,
  and \<open>_run\<close> hands exactly this list to \<open>docker run\<close> (after creating the data path when
  a volume is declared) and prints the outcome.  For the declaration \<open>{name: c1, image:
  repo:tag, data_path: /d}\<close>, the action \<open>start\<close> without \<open>-b\<close> and \<open>-e\<close>, no container
  in the snapshot and a digest listing that gives a mapping without \<open>repo:tag\<close>: when the
  pull and the run succeed, the worker lists the images, pulls \<open>repo:tag\<close>, runs
  \<open>-d --restart=always --name c1 repo:tag\<close>, reports it and ends normally.
\<close>

theorem run_invocation:
  "(c ''name'' = Some (CStr name) \<and> c ''image'' = Some (CStr img) \<and> c ''data_path'' = Some (CStr dp) \<and>
    cfg_items c ''p'' = Inr ps \<and> cfg_items c ''v'' = Inr vs \<and> cfg_items c ''e'' = Inr es \<and>
    cfg_list c ''any'' = Inr (map (\<lambda>(flag, sep, val). [flag, sep, val]) els) \<and>
    (\<forall>(flag, sep, val)\<in>set els. sep = [] \<or> sep = '' '') \<and>
    (c ''restart'' = None \<and> restart = ''always'' \<or> c ''restart'' = Some (CStr restart)) \<and>
    args = spec_run_args dp ps vs es (case cli_e a of None \<Rightarrow> [] | Some envs \<Rightarrow> envs) els restart name img \<and>
    tra = (if vs = [] then tr else tr @ [Makedirs dp True]) \<and> (vs = [] \<or> os_makedirs w tr dp) \<and>
    rc = returncode (subprocess_run w tra (''run'' # args))
    \<longrightarrow>
      run_cmd c a = Inr (args, vs \<noteq> []) \<and>
      StarterWorker_run_container w c a tr =
        (Inr (rc = 0),
         tra @ [Docker (''run'' # args) rc,
                Print ((if rc = 0 then ''docker run'' else ''Failed docker run'') @ '' '' @ join '' '' args)]))
   \<and> (cli_start b \<and> \<not> cli_b b \<and> cli_e b = None \<and>
        docker_images_sha256 w tr = (Inr images, trb) \<and> images ''repo:tag'' = None \<and>
        returncode (subprocess_run w trb [''pull'', ''repo:tag'']) = 0 \<and>
        returncode (subprocess_run w (trb @ [Docker [''pull'', ''repo:tag''] 0])
                      [''run'', ''-d'', ''--restart=always'', ''--name'', ''c1'', ''repo:tag'']) = 0
        \<longrightarrow>
          StarterWorker_run w cfg_c1 b [] tr =
            (Inr (),
             trb @ [Docker [''pull'', ''repo:tag''] 0,
                    Docker [''run'', ''-d'', ''--restart=always'', ''--name'', ''c1'', ''repo:tag''] 0,
                    Print ''docker run -d --restart=always --name c1 repo:tag'']))"
proof (intro conjI impI)
  assume h: "c ''name'' = Some (CStr name) \<and> c ''image'' = Some (CStr img) \<and> c ''data_path'' = Some (CStr dp) \<and>
    cfg_items c ''p'' = Inr ps \<and> cfg_items c ''v'' = Inr vs \<and> cfg_items c ''e'' = Inr es \<and>
    cfg_list c ''any'' = Inr (map (\<lambda>(flag, sep, val). [flag, sep, val]) els) \<and>
    (\<forall>(flag, sep, val)\<in>set els. sep = [] \<or> sep = '' '') \<and>
    (c ''restart'' = None \<and> restart = ''always'' \<or> c ''restart'' = Some (CStr restart)) \<and>
    args = spec_run_args dp ps vs es (case cli_e a of None \<Rightarrow> [] | Some envs \<Rightarrow> envs) els restart name img \<and>
    tra = (if vs = [] then tr else tr @ [Makedirs dp True]) \<and> (vs = [] \<or> os_makedirs w tr dp) \<and>
    rc = returncode (subprocess_run w tra (''run'' # args))"
  then have cmd: "run_cmd c a = Inr (args, vs \<noteq> [])"
    using run_cmd_eq [of c name img dp ps vs es els restart a] by simp
  then show "run_cmd c a = Inr (args, vs \<noteq> [])" .
  from h have dp: "cfg_str c ''data_path'' = Inr dp" by (simp add: cfg_str_def)
  from h show "StarterWorker_run_container w c a tr =
        (Inr (rc = 0),
         tra @ [Docker (''run'' # args) rc,
                Print ((if rc = 0 then ''docker run'' else ''Failed docker run'') @ '' '' @ join '' '' args)])"
    unfolding StarterWorker_run_container_def
    by (auto simp: cmd dp io_defs makedirs_def docker_run_def docker_run_fatal_def Let_def)
next
  assume h: "cli_start b \<and> \<not> cli_b b \<and> cli_e b = None \<and>
        docker_images_sha256 w tr = (Inr images, trb) \<and> images ''repo:tag'' = None \<and>
        returncode (subprocess_run w trb [''pull'', ''repo:tag'']) = 0 \<and>
        returncode (subprocess_run w (trb @ [Docker [''pull'', ''repo:tag''] 0])
                      [''run'', ''-d'', ''--restart=always'', ''--name'', ''c1'', ''repo:tag'']) = 0"
  have cmd: "run_cmd cfg_c1 b = Inr ([''-d'', ''--restart=always'', ''--name'', ''c1'', ''repo:tag''], False)"
    using h by (simp add: run_cmd_def bind_exn_def cfg_items_def cfg_list_def cfg_str_def cfg_c1_def)
  have chk: "StarterWorker_config_check cfg_c1 tr = (Inr True, tr)"
    by (simp add: StarterWorker_config_check_def type_check_def cfg_c1_def io_defs)
  have strs: "cfg_str cfg_c1 ''name'' = Inr ''c1''" "cfg_str cfg_c1 ''image'' = Inr ''repo:tag''"
    by (simp_all add: cfg_str_def cfg_c1_def)
  from h have start: "StarterWorker_start w cfg_c1 b [] tr =
            (Inr None,
             trb @ [Docker [''pull'', ''repo:tag''] 0,
                    Docker [''run'', ''-d'', ''--restart=always'', ''--name'', ''c1'', ''repo:tag''] 0,
                    Print ''docker run -d --restart=always --name c1 repo:tag''])"
    unfolding StarterWorker_start_def
    by (simp add: strs cmd StarterWorker_pull_def StarterWorker_run_container_def docker_pull_def
        docker_run_def docker_run_fatal_def Let_def io_defs)
  from h show "StarterWorker_run w cfg_c1 b [] tr =
            (Inr (),
             trb @ [Docker [''pull'', ''repo:tag''] 0,
                    Docker [''run'', ''-d'', ''--restart=always'', ''--name'', ''c1'', ''repo:tag''] 0,
                    Print ''docker run -d --restart=always --name c1 repo:tag''])"
    unfolding StarterWorker_run_def
    by (simp add: chk start io_defs)
qed


theorem run_invocation_witness:
  "run_cmd cfg_web (cli_none\<lparr>cli_start := True, cli_e := Some [''DEBUG=1'']\<rparr>)
     = Inr ([''-d'', ''-p'', ''8080:80'', ''-v'', ''/srv/web/conf:/etc/nginx'', ''-e'', ''TZ=UTC'',
             ''-e'', ''DEBUG=1'', ''--network'', ''host'', ''--memory=512m'',
             ''--restart=unless-stopped'', ''--name'', ''web'', ''nginx:latest''], True)
   \<and> StarterWorker_run_container (world_of ''other:1'' [] None) cfg_web
         (cli_none\<lparr>cli_start := True, cli_e := Some [''DEBUG=1'']\<rparr>) []
     = (Inr True,
        [Makedirs ''/srv/web'' True,
         Docker [''run'', ''-d'', ''-p'', ''8080:80'', ''-v'', ''/srv/web/conf:/etc/nginx'', ''-e'', ''TZ=UTC'',
                 ''-e'', ''DEBUG=1'', ''--network'', ''host'', ''--memory=512m'',
                 ''--restart=unless-stopped'', ''--name'', ''web'', ''nginx:latest''] 0,
         Print (''docker run -d -p 8080:80 -v /srv/web/conf:/etc/nginx -e TZ=UTC -e DEBUG=1 ''
                @ ''--network host --memory=512m --restart=unless-stopped --name web nginx:latest'')])
   \<and> StarterWorker_run (world_of ''other:1'' [] None) cfg_c1 (cli_none\<lparr>cli_start := True\<rparr>) [] []
     = (Inr (),
        [Docker digests_cmd 0,
         Docker [''pull'', ''repo:tag''] 0,
         Docker [''run'', ''-d'', ''--restart=always'', ''--name'', ''c1'', ''repo:tag''] 0,
         Print ''docker run -d --restart=always --name c1 repo:tag''])"
proof -
  let ?w = "world_of ''other:1'' [] None"
  let ?a = "cli_none\<lparr>cli_start := True, cli_e := Some [''DEBUG=1'']\<rparr>"
  let ?b = "cli_none\<lparr>cli_start := True\<rparr>"
  let ?els = "[(''--network'', '' '', ''host''), (''--memory='', [], ''512m'')]"
  let ?args = "spec_run_args ''/srv/web'' [(''8080'', ''80'')] [(''conf'', ''/etc/nginx'')] [(''TZ'', ''UTC'')]
                 [''DEBUG=1''] ?els ''unless-stopped'' ''web'' ''nginx:latest''"
  have args: "?args = [''-d'', ''-p'', ''8080:80'', ''-v'', ''/srv/web/conf:/etc/nginx'', ''-e'', ''TZ=UTC'',
             ''-e'', ''DEBUG=1'', ''--network'', ''host'', ''--memory=512m'',
             ''--restart=unless-stopped'', ''--name'', ''web'', ''nginx:latest'']"
    by (simp add: spec_run_args_def spec_extra_arg_def path_join_def)
  have hyps: "cfg_web ''name'' = Some (CStr ''web'') \<and> cfg_web ''image'' = Some (CStr ''nginx:latest'') \<and>
      cfg_web ''data_path'' = Some (CStr ''/srv/web'') \<and>
      cfg_items cfg_web ''p'' = Inr [(''8080'', ''80'')] \<and>
      cfg_items cfg_web ''v'' = Inr [(''conf'', ''/etc/nginx'')] \<and>
      cfg_items cfg_web ''e'' = Inr [(''TZ'', ''UTC'')] \<and>
      cfg_list cfg_web ''any'' = Inr (map (\<lambda>(flag, sep, val). [flag, sep, val]) ?els) \<and>
      (\<forall>(flag, sep, val)\<in>set ?els. sep = [] \<or> sep = '' '') \<and>
      cfg_web ''restart'' = Some (CStr ''unless-stopped'') \<and>
      cli_e ?a = Some [''DEBUG=1''] \<and> os_makedirs ?w [] ''/srv/web'' \<and>
      returncode (subprocess_run ?w [Makedirs ''/srv/web'' True] (''run'' # ?args)) = 0"
    by (simp add: cfg_web_def cfg_items_def cfg_list_def cli_none_def world_of_def listing_def args)
  have hyps_b: "cli_start ?b \<and> \<not> cli_b ?b \<and> cli_e ?b = None \<and>
      docker_images_sha256 ?w [] = (Inr [''other:1'' \<mapsto> ''sha256:AAA''], [Docker digests_cmd 0]) \<and>
      [''other:1'' \<mapsto> ''sha256:AAA''] ''repo:tag'' = None \<and>
      returncode (subprocess_run ?w [Docker digests_cmd 0] [''pull'', ''repo:tag'']) = 0 \<and>
      returncode (subprocess_run ?w ([Docker digests_cmd 0] @ [Docker [''pull'', ''repo:tag''] 0])
                    [''run'', ''-d'', ''--restart=always'', ''--name'', ''c1'', ''repo:tag'']) = 0"
    by (simp add: docker_defs io_defs example_defs digests_cmd_def)
  note inst = run_invocation [where c = cfg_web and name = "''web''" and img = "''nginx:latest''"
      and dp = "''/srv/web''" and ps = "[(''8080'', ''80'')]" and vs = "[(''conf'', ''/etc/nginx'')]"
      and es = "[(''TZ'', ''UTC'')]" and els = ?els and restart = "''unless-stopped''" and a = ?a
      and args = ?args and w = ?w and tr = "[]" and tra = "[Makedirs ''/srv/web'' True]" and rc = 0
      and b = ?b and images = "[''other:1'' \<mapsto> ''sha256:AAA'']" and trb = "[Docker digests_cmd 0]"]
  from inst hyps hyps_b show ?thesis
    by (simp add: args)
qed

text \<open>
  C9 does not hold of the code.  The order of the arguments is as the claim has it, but
  its example fails where the image is absent because docker has no image at all: the
  digest listing prints nothing, the one empty line has no space to split at, and the
  tuple assignment in \<open>_docker_images_sha256\<close> raises \<open>ValueError\<close> before \<open>_start\<close> can
  pull or run anything.  Where the listing knows some other image, \<open>_start\<close> pulls and
  runs as the claim says.
\<close>

theorem start_without_local_images:
  "docker_images_sha256 world_no_images [] = (Inl ValueError, [Docker digests_cmd 0])
   \<and> StarterWorker_start world_no_images cfg_c1 (cli_none\<lparr>cli_start := True\<rparr>) [] []
       = (Inl ValueError, [Docker digests_cmd 0])
   \<and> StarterWorker_start (world_of ''other:1'' [] None) cfg_c1 (cli_none\<lparr>cli_start := True\<rparr>) [] []
       = (Inr None,
          [Docker digests_cmd 0,
           Docker [''pull'', ''repo:tag''] 0,
           Docker [''run'', ''-d'', ''--restart=always'', ''--name'', ''c1'', ''repo:tag''] 0,
           Print ''docker run -d --restart=always --name c1 repo:tag''])"
  by (simp add: world_no_images_def docker_defs io_defs worker_defs example_defs digests_cmd_def)

section \<open>Validation of the declared set\<close>

lemma check_cases:
  "map (\<lambda>c. cfg_str c ''name'') cfgs = map Inr names \<Longrightarrow>
   map (\<lambda>c. cfg_str c ''image'') cfgs = map Inr images \<Longrightarrow>
   (if \<not> distinct names \<or> set names \<inter> N \<noteq> {} \<or> cli_t a \<and> (\<not> distinct images \<or> set images \<inter> I \<noteq> {})
    then \<exists>msg. DockerStarter_check a cfgs I N tr = (Inl (SystemExit 1), tr @ [Print msg])
    else DockerStarter_check a cfgs I N tr = (Inr (), tr))"
proof (induction cfgs arbitrary: names images I N)
  case Nil
  then show ?case by (simp add: return_io_def)
next
  case (Cons c cs)
  from Cons.prems obtain n ns i "is" where
    names: "names = n # ns" and images: "images = i # is"
    and n: "cfg_str c ''name'' = Inr n" and i: "cfg_str c ''image'' = Inr i"
    and ns: "map (\<lambda>c. cfg_str c ''name'') cs = map Inr ns"
    and "is": "map (\<lambda>c. cfg_str c ''image'') cs = map Inr is"
    by (cases names; cases images) auto
  note IH = Cons.IH [OF ns "is", of "insert n N" "insert i I"]
  show ?case
  proof (cases "n \<in> N")
    case True
    then show ?thesis by (simp add: names n io_defs)
  next
    case nN: False
    show ?thesis
    proof (cases "cli_t a \<and> i \<in> I")
      case True
      then show ?thesis using nN by (simp add: names images n i io_defs)
    next
      case False
      have eq: "DockerStarter_check a (c # cs) I N tr = DockerStarter_check a cs (insert i I) (insert n N) tr"
        using nN False by (auto simp: n i io_defs)
      show ?thesis
        unfolding eq using IH nN False
        by (auto simp: names images split: if_splits)
    qed
  qed
qed


lemma docker_containers_ok:
  "returncode (subprocess_run w tr ps_cmd) = 0 \<Longrightarrow>
   \<exists>cs. docker_containers w tr = (Inr cs, tr @ [Docker ps_cmd 0])"
  by (simp add: docker_containers_def docker_run_fatal_def ps_cmd_def Let_def io_defs)

lemma one_by_one_cases:
  "\<exists>done tr'. DockerStarter_one_by_one w a cs cfgs tr = (done, tr')"
  by (cases "DockerStarter_one_by_one w a cs cfgs tr") simp

text \<open>
  What holds of \<open>_check\<close>.  For declarations whose names and images are strings, and a
  container listing that succeeds: when two declarations share a name, or share an image
  while \<open>-t\<close> is set, \<open>_check\<close> raises \<open>SystemExit(1)\<close>, and the whole run is the container
  listing and one printed message, with exit code 1 (no worker was started, nothing was
  changed).  Otherwise (in particular when only images are shared and \<open>-t\<close> is not set)
  \<open>_check\<close> returns without a trace, and no outcome of a worker gives an exit code other
  than 0.  That the run may not end at all is shown at the end of this section.
\<close>

theorem validation_exit_code:
  "map (\<lambda>c. cfg_str c ''name'') cfgs = map Inr names \<and>
   map (\<lambda>c. cfg_str c ''image'') cfgs = map Inr images \<and>
   returncode (subprocess_run w [] ps_cmd) = 0 \<longrightarrow>
     (if \<not> distinct names \<or> cli_t a \<and> \<not> distinct images
      then fst (DockerStarter_check a cfgs {} {} tr) = Inl (SystemExit 1)
           \<and> (\<exists>msg. DockerStarter w tw a cfgs = (Exit 1, [Docker ps_cmd 0, Print msg]))
      else DockerStarter_check a cfgs {} {} tr = (Inr (), tr)
           \<and> (fst (DockerStarter w tw a cfgs) = Exit 0 \<or> fst (DockerStarter w tw a cfgs) = Hang))"
proof
  assume h: "map (\<lambda>c. cfg_str c ''name'') cfgs = map Inr names \<and>
   map (\<lambda>c. cfg_str c ''image'') cfgs = map Inr images \<and>
   returncode (subprocess_run w [] ps_cmd) = 0"
  then obtain cs where cs: "docker_containers w [] = (Inr cs, [Docker ps_cmd 0])"
    using docker_containers_ok [of w "[]"] by auto
  note chk = check_cases [of cfgs names images "{}" a "{}", simplified]
  show "if \<not> distinct names \<or> cli_t a \<and> \<not> distinct images
      then fst (DockerStarter_check a cfgs {} {} tr) = Inl (SystemExit 1)
           \<and> (\<exists>msg. DockerStarter w tw a cfgs = (Exit 1, [Docker ps_cmd 0, Print msg]))
      else DockerStarter_check a cfgs {} {} tr = (Inr (), tr)
           \<and> (fst (DockerStarter w tw a cfgs) = Exit 0 \<or> fst (DockerStarter w tw a cfgs) = Hang)"
  proof (cases "\<not> distinct names \<or> cli_t a \<and> \<not> distinct images")
    case True
    with chk [of tr] h obtain m1 where
      m1: "DockerStarter_check a cfgs {} {} tr = (Inl (SystemExit 1), tr @ [Print m1])"
      by (auto split: if_splits)
    from True chk [of "[Docker ps_cmd 0]"] h obtain m2 where
      m2: "DockerStarter_check a cfgs {} {} [Docker ps_cmd 0]
             = (Inl (SystemExit 1), [Docker ps_cmd 0] @ [Print m2])"
      by (auto split: if_splits)
    have "DockerStarter w tw a cfgs = (Exit 1, [Docker ps_cmd 0, Print m2])"
      by (simp add: DockerStarter_def bind_io_def cs m2)
    with True m1 show ?thesis by auto
  next
    case False
    with chk h have ok: "DockerStarter_check a cfgs {} {} t = (Inr (), t)" for t
      by (auto split: if_splits)
    obtain d t' where obo: "DockerStarter_one_by_one w a cs cfgs [Docker ps_cmd 0] = (d, t')"
      using one_by_one_cases by blast
    have "fst (DockerStarter w tw a cfgs) = Exit 0 \<or> fst (DockerStarter w tw a cfgs) = Hang"
      by (simp add: DockerStarter_def bind_io_def cs ok return_io_def obo)
    with False ok show ?thesis by auto
  qed
qed


theorem validation_exit_code_witness:
  "fst (DockerStarter_check (cli_none\<lparr>cli_stop := True, cli_t := True\<rparr>) [cfg_c1, cfg_c2] {} {} [])
     = Inl (SystemExit 1)
   \<and> DockerStarter (world_of ''repo:tag'' [] None) (\<lambda>i. world_of ''repo:tag'' [] None)
         (cli_none\<lparr>cli_stop := True, cli_t := True\<rparr>) [cfg_c1, cfg_c2]
       = (Exit 1,
          [Docker ps_cmd 0,
           Print (''Image repo:tag duplicated and threading enabled, don'' @ [CHR 0x27]
                  @ ''t use -t. UNACCEPTABLE!'')])
   \<and> fst (DockerStarter_check (cli_none\<lparr>cli_stop := True\<rparr>) [cfg_c1, cfg_c1] {} {} [])
     = Inl (SystemExit 1)
   \<and> DockerStarter (world_of ''repo:tag'' [] None) (\<lambda>i. world_of ''repo:tag'' [] None)
         (cli_none\<lparr>cli_stop := True\<rparr>) [cfg_c1, cfg_c1]
       = (Exit 1,
          [Docker ps_cmd 0, Print ''Container name c1 duplicated. It must be unique. UNACCEPTABLE!''])
   \<and> DockerStarter_check (cli_none\<lparr>cli_stop := True\<rparr>) [cfg_c1, cfg_web] {} {} [] = (Inr (), [])
   \<and> DockerStarter (world_of ''repo:tag'' [''stop''] None) (\<lambda>i. world_of ''repo:tag'' [''stop''] None)
         (cli_none\<lparr>cli_stop := True\<rparr>) [cfg_c1, cfg_web]
       = (Exit 0,
          [Docker ps_cmd 0, Print ''Container c1 not found.'',
           Docker [''stop'', ''web''] 1, Print ''Error stopping web''])"
proof -
  let ?w = "world_of ''repo:tag'' [] None"
  let ?wf = "world_of ''repo:tag'' [''stop''] None"
  let ?at = "cli_none\<lparr>cli_stop := True, cli_t := True\<rparr>"
  let ?as = "cli_none\<lparr>cli_stop := True\<rparr>"
  have strs:
    "map (\<lambda>c. cfg_str c ''name'') [cfg_c1, cfg_c2] = map Inr [''c1'', ''c2'']"
    "map (\<lambda>c. cfg_str c ''image'') [cfg_c1, cfg_c2] = map Inr [''repo:tag'', ''repo:tag'']"
    "map (\<lambda>c. cfg_str c ''name'') [cfg_c1, cfg_c1] = map Inr [''c1'', ''c1'']"
    "map (\<lambda>c. cfg_str c ''image'') [cfg_c1, cfg_c1] = map Inr [''repo:tag'', ''repo:tag'']"
    "map (\<lambda>c. cfg_str c ''name'') [cfg_c1, cfg_web] = map Inr [''c1'', ''web'']"
    "map (\<lambda>c. cfg_str c ''image'') [cfg_c1, cfg_web] = map Inr [''repo:tag'', ''nginx:latest'']"
    by (simp_all add: cfg_str_def cfg_c1_def cfg_c2_def cfg_web_def)
  have ps: "returncode (subprocess_run ?w [] ps_cmd) = 0" "returncode (subprocess_run ?wf [] ps_cmd) = 0"
    by (simp_all add: world_of_def ps_cmd_def)
  have flags: "cli_t ?at" "\<not> cli_t ?as"
    by (simp_all add: cli_none_def)
  from validation_exit_code [of "[cfg_c1, cfg_c2]" "[''c1'', ''c2'']" "[''repo:tag'', ''repo:tag'']"
      ?w ?at "[]" "\<lambda>i. ?w"] strs ps flags
  have a: "fst (DockerStarter_check ?at [cfg_c1, cfg_c2] {} {} []) = Inl (SystemExit 1)"
    by simp
  from validation_exit_code [of "[cfg_c1, cfg_c1]" "[''c1'', ''c1'']" "[''repo:tag'', ''repo:tag'']"
      ?w ?as "[]" "\<lambda>i. ?w"] strs ps flags
  have b: "fst (DockerStarter_check ?as [cfg_c1, cfg_c1] {} {} []) = Inl (SystemExit 1)"
    by simp
  from validation_exit_code [of "[cfg_c1, cfg_web]" "[''c1'', ''web'']" "[''repo:tag'', ''nginx:latest'']"
      ?wf ?as "[]" "\<lambda>i. ?wf"] strs ps flags
  have c: "DockerStarter_check ?as [cfg_c1, cfg_web] {} {} [] = (Inr (), [])"
    by simp
  have d: "DockerStarter ?w (\<lambda>i. ?w) ?at [cfg_c1, cfg_c2]
       = (Exit 1,
          [Docker ps_cmd 0,
           Print (''Image repo:tag duplicated and threading enabled, don'' @ [CHR 0x27]
                  @ ''t use -t. UNACCEPTABLE!'')])"
    by (simp add: DockerStarter_def docker_defs io_defs example_defs worker_defs cfg_c2_def ps_cmd_def)
  have e: "DockerStarter ?w (\<lambda>i. ?w) ?as [cfg_c1, cfg_c1]
       = (Exit 1,
          [Docker ps_cmd 0, Print ''Container name c1 duplicated. It must be unique. UNACCEPTABLE!''])"
    by (simp add: DockerStarter_def docker_defs io_defs example_defs worker_defs ps_cmd_def)
  have f: "DockerStarter ?wf (\<lambda>i. ?wf) ?as [cfg_c1, cfg_web]
       = (Exit 0,
          [Docker ps_cmd 0, Print ''Container c1 not found.'',
           Docker [''stop'', ''web''] 1, Print ''Error stopping web''])"
    by (simp add: DockerStarter_def docker_defs io_defs example_defs worker_defs cfg_web_def ps_cmd_def
        status_def)
  from a b c d e f show ?thesis by simp
qed

text \<open>
  C3 does not hold of the code.  The validation is as the claim has it, but a failure of
  a worker can keep the process from ending with code 0: an exception ends the worker's
  thread before \<open>_status\<close> is set, and the coordinator, which only polls \<open>status()\<close>, waits
  forever.  With no image on the host the digest listing is empty and \<open>ValueError\<close> ends
  the worker of \<open>--start\<close> and of \<open>--remove\<close>; sequentially the second declaration is never
  reached, concurrently the polling loop never ends.  A failure that the worker reports
  (a failed \<open>docker stop\<close>) leaves the exit code 0.
\<close>

theorem failed_worker_never_exits:
  "DockerStarter world_no_images (\<lambda>i. world_no_images) (cli_none\<lparr>cli_start := True\<rparr>) [cfg_app]
     = (Hang, [Docker ps_cmd 0, Docker digests_cmd 0])
   \<and> DockerStarter world_no_images (\<lambda>i. world_no_images) (cli_none\<lparr>cli_start := True, cli_t := True\<rparr>)
        [cfg_app]
     = (Hang, [Docker ps_cmd 0])
   \<and> DockerStarter world_no_images (\<lambda>i. world_no_images) (cli_none\<lparr>cli_remove := True\<rparr>)
        [cfg_app, cfg_web]
     = (Hang, [Docker ps_cmd 0, Docker digests_cmd 0])
   \<and> DockerStarter (world_of ''repo:tag'' [''stop''] None) (\<lambda>i. world_of ''repo:tag'' [''stop''] None)
        (cli_none\<lparr>cli_stop := True\<rparr>) [cfg_app, cfg_web]
     = (Exit 0,
        [Docker ps_cmd 0, Docker [''stop'', ''app''] 1, Print ''Error stopping app'',
         Docker [''stop'', ''web''] 1, Print ''Error stopping web''])"
  by (simp add: DockerStarter_def DockerStarter_all_once_def status_def world_no_images_def
      docker_defs io_defs worker_defs example_defs cfg_web_def digests_cmd_def ps_cmd_def)

section \<open>A failed digest fetch\<close>








section \<open>Exceptions that leave the worker\<close>

text \<open>
  C2 does not hold of the code.  The registry answers 200 without a content-digest and
  without an entity-tag header: \<open>_docker_remote_sha256\<close> prints that the digest was not
  found and then calls \<open>strip\<close> on \<open>None\<close>; the \<open>AttributeError\<close> leaves \<open>run\<close>, the status
  stays \<open>None\<close> and the coordinator polls forever.  An empty image listing does the same
  with the \<open>ValueError\<close> of the tuple assignment in \<open>_docker_images_sha256\<close>.
\<close>

theorem worker_exception_escapes:
  "StarterWorker_run (world_of ''repo:tag'' [] None) cfg_c1 (cli_none\<lparr>cli_update := True\<rparr>) [] []
     = (Inl AttributeError,
        [Docker digests_cmd 0, AuthGet ''repo'', ManifestHead ''repo'' ''tag'' ''t0ken'',
         Print ''Registry error headers parsing - sha256 not found''])
   \<and> status (Inl AttributeError) = None
   \<and> DockerStarter (world_of ''repo:tag'' [] None) (\<lambda>i. world_of ''repo:tag'' [] None)
         (cli_none\<lparr>cli_update := True\<rparr>) [cfg_c1]
     = (Hang,
        [Docker ps_cmd 0, Docker digests_cmd 0, AuthGet ''repo'', ManifestHead ''repo'' ''tag'' ''t0ken'',
         Print ''Registry error headers parsing - sha256 not found''])
   \<and> StarterWorker_run world_no_images cfg_c1 (cli_none\<lparr>cli_start := True\<rparr>) [] []
     = (Inl ValueError, [Docker digests_cmd 0])
   \<and> status (Inl ValueError) = None"
  by (simp add: DockerStarter_def status_def world_no_images_def docker_defs io_defs worker_defs
      example_defs digests_cmd_def ps_cmd_def)

section \<open>The remove action\<close>

lemma stop_and_remove_eq:
  assumes "cfg_str c ''name'' = Inr name"
    and "rs = returncode (subprocess_run w tr [''stop'', name])"
    and "ta = tr @ [Docker [''stop'', name] rs,
                   Print (if rs = 0 then ''stop '' @ name else ''Error stopping '' @ name)]"
    and "rr = returncode (subprocess_run w ta [''rm'', name])"
  shows "stop_and_remove w c a containers tr =
     (if name \<in> set containers
      then (if rs = 0 then (Inr (rr = 0), ta @ [Docker [''rm'', name] rr]) else (Inr False, ta))
      else if cli_stop a then (Inr True, tr @ [Print (''Container '' @ name @ '' not found.'')])
      else (Inr True, tr))"
  using assms
  by (simp add: stop_and_remove_def StarterWorker_stop_def StarterWorker__remove_def
      docker_stop_def docker_rm_def docker_run_fatal_def Let_def io_defs)

lemma rmi_by_reference_eq:
  assumes "cfg_str c ''image'' = Inr img"
    and "docker_images_sha256 w t = (Inr images, tc)"
    and "ri = returncode (subprocess_run w tc [''rmi'', img])"
  shows "StarterWorker_rmi w c None t =
     (if images img = None then (Inr True, tc)
      else (Inr (ri = 0),
            tc @ [Docker [''rmi'', img] ri]
               @ (if ri = 0 then []
                  else [Print (''Error delete '' @ img @ '' image. Maybe containers use it?'')])))"
  using assms
  by (simp add: StarterWorker_rmi_def docker_rmi_def docker_run_fatal_def Let_def io_defs)

lemma remove_eq:
  "cfg_str c ''name'' = Inr name \<and> cfg_str c ''image'' = Inr img \<and>
   rs = returncode (subprocess_run w tr [''stop'', name]) \<and>
   ta = tr @ [Docker [''stop'', name] rs,
              Print (if rs = 0 then ''stop '' @ name else ''Error stopping '' @ name)] \<and>
   rr = returncode (subprocess_run w ta [''rm'', name]) \<and>
   tb = (if name \<in> set containers
         then (if rs = 0 then ta @ [Docker [''rm'', name] rr] else ta)
         else if cli_stop a then tr @ [Print (''Container '' @ name @ '' not found.'')]
         else tr) \<and>
   docker_images_sha256 w tb = (Inr images, tc) \<and>
   ri = returncode (subprocess_run w tc [''rmi'', img])
   \<longrightarrow>
     StarterWorker_remove w c a containers tr =
       (if images img = None then (Inr True, tc)
        else (Inr (ri = 0),
              tc @ [Docker [''rmi'', img] ri]
                 @ (if ri = 0 then []
                    else [Print (''Error delete '' @ img @ '' image. Maybe containers use it?'')])))
     \<and> tc = tb @ [Docker digests_cmd 0]"
proof
  assume h: "cfg_str c ''name'' = Inr name \<and> cfg_str c ''image'' = Inr img \<and>
   rs = returncode (subprocess_run w tr [''stop'', name]) \<and>
   ta = tr @ [Docker [''stop'', name] rs,
              Print (if rs = 0 then ''stop '' @ name else ''Error stopping '' @ name)] \<and>
   rr = returncode (subprocess_run w ta [''rm'', name]) \<and>
   tb = (if name \<in> set containers
         then (if rs = 0 then ta @ [Docker [''rm'', name] rr] else ta)
         else if cli_stop a then tr @ [Print (''Container '' @ name @ '' not found.'')]
         else tr) \<and>
   docker_images_sha256 w tb = (Inr images, tc) \<and>
   ri = returncode (subprocess_run w tc [''rmi'', img])"
  then have "\<exists>ok. stop_and_remove w c a containers tr = (Inr ok, tb)"
    using stop_and_remove_eq [of c name rs w tr ta rr a containers] by auto
  then obtain ok where sr: "stop_and_remove w c a containers tr = (Inr ok, tb)" ..
  from h have rmi: "StarterWorker_rmi w c None tb =
       (if images img = None then (Inr True, tc)
        else (Inr (ri = 0),
              tc @ [Docker [''rmi'', img] ri]
                 @ (if ri = 0 then []
                    else [Print (''Error delete '' @ img @ '' image. Maybe containers use it?'')])))"
    using rmi_by_reference_eq [of c img w tb images tc ri] by blast
  have eq: "StarterWorker_remove w c a containers tr = StarterWorker_rmi w c None tb"
    by (simp add: StarterWorker_remove_def bind_io_def sr)
  from h have "docker_images_sha256 w tb = (Inr images, tc)" by blast
  then have tc: "tc = tb @ [Docker digests_cmd 0]" by (rule images_sha256_trace)
  show "StarterWorker_remove w c a containers tr =
       (if images img = None then (Inr True, tc)
        else (Inr (ri = 0),
              tc @ [Docker [''rmi'', img] ri]
                 @ (if ri = 0 then []
                    else [Print (''Error delete '' @ img @ '' image. Maybe containers use it?'')])))
     \<and> tc = tb @ [Docker digests_cmd 0]"
    unfolding eq rmi by (intro conjI refl tc)
qed

text \<open>
  C7, as the code has it.  For a declaration with a name and an image: \<open>_remove\<close> stops
  the container when the snapshot has it and prints the outcome of the stop; it removes
  the container only when the snapshot has it and the stop succeeded; then, whatever the
  first two steps gave, it lists the images and, when the listing has the reference,
  removes the image by reference, printing a failed removal.  The result is the outcome
  of the image step alone.
\<close>

theorem remove_steps:
  "cfg_str c ''name'' = Inr name \<and> cfg_str c ''image'' = Inr img \<and>
   rs = returncode (subprocess_run w tr [''stop'', name]) \<and>
   ta = tr @ [Docker [''stop'', name] rs,
              Print (if rs = 0 then ''stop '' @ name else ''Error stopping '' @ name)] \<and>
   rr = returncode (subprocess_run w ta [''rm'', name]) \<and>
   tb = (if name \<in> set containers
         then (if rs = 0 then ta @ [Docker [''rm'', name] rr] else ta)
         else if cli_stop a then tr @ [Print (''Container '' @ name @ '' not found.'')]
         else tr) \<and>
   docker_images_sha256 w tb = (Inr images, tc) \<and>
   ri = returncode (subprocess_run w tc [''rmi'', img])
   \<longrightarrow>
     StarterWorker_remove w c a containers tr =
       (if images img = None then (Inr True, tc)
        else (Inr (ri = 0),
              tc @ [Docker [''rmi'', img] ri]
                 @ (if ri = 0 then []
                    else [Print (''Error delete '' @ img @ '' image. Maybe containers use it?'')])))
     \<and> tc = tb @ [Docker digests_cmd 0]"
  by (rule remove_eq)

text \<open>
  The claim as stated fails: after a failed stop the container removal is not attempted
  (first run); and a failed container removal leaves no report in the trace (second
  run).
\<close>

theorem remove_steps_counterexample:
  "StarterWorker_remove (world_of ''repo:tag'' [''stop''] None) cfg_app (cli_none\<lparr>cli_remove := True\<rparr>)
     [''app''] []
     = (Inr True,
        [Docker [''stop'', ''app''] 1, Print ''Error stopping app'',
         Docker digests_cmd 0, Docker [''rmi'', ''repo:tag''] 0])
   \<and> StarterWorker_remove (world_of ''repo:tag'' [''rm''] None) cfg_app (cli_none\<lparr>cli_remove := True\<rparr>)
     [''app''] []
     = (Inr True,
        [Docker [''stop'', ''app''] 0, Print ''stop app'', Docker [''rm'', ''app''] 1,
         Docker digests_cmd 0, Docker [''rmi'', ''repo:tag''] 0])"
  by (simp add: docker_defs io_defs worker_defs example_defs digests_cmd_def)

theorem remove_steps_witness:
  "cfg_str cfg_app ''name'' = Inr ''app'' \<and> cfg_str cfg_app ''image'' = Inr ''repo:tag''
   \<and> returncode (subprocess_run (world_of ''repo:tag'' [''rmi''] None) [] [''stop'', ''app'']) = 0
   \<and> returncode (subprocess_run (world_of ''repo:tag'' [''rmi''] None)
         [Docker [''stop'', ''app''] 0, Print ''stop app''] [''rm'', ''app'']) = 0
   \<and> docker_images_sha256 (world_of ''repo:tag'' [''rmi''] None)
         [Docker [''stop'', ''app''] 0, Print ''stop app'', Docker [''rm'', ''app''] 0]
       = (Inr [''repo:tag'' \<mapsto> ''sha256:AAA''],
          [Docker [''stop'', ''app''] 0, Print ''stop app'', Docker [''rm'', ''app''] 0, Docker digests_cmd 0])
   \<and> returncode (subprocess_run (world_of ''repo:tag'' [''rmi''] None)
         [Docker [''stop'', ''app''] 0, Print ''stop app'', Docker [''rm'', ''app''] 0, Docker digests_cmd 0]
         [''rmi'', ''repo:tag'']) = 1
   \<and> StarterWorker_remove (world_of ''repo:tag'' [''rmi''] None) cfg_app (cli_none\<lparr>cli_remove := True\<rparr>)
         [''app''] []
       = (Inr False,
          [Docker [''stop'', ''app''] 0, Print ''stop app'', Docker [''rm'', ''app''] 0,
           Docker digests_cmd 0, Docker [''rmi'', ''repo:tag''] 1,
           Print ''Error delete repo:tag image. Maybe containers use it?''])"
proof -
  let ?w = "world_of ''repo:tag'' [''rmi''] None"
  let ?a = "cli_none\<lparr>cli_remove := True\<rparr>"
  let ?tb = "[Docker [''stop'', ''app''] 0, Print ''stop app'', Docker [''rm'', ''app''] 0]"
  have strs: "cfg_str cfg_app ''name'' = Inr ''app''" "cfg_str cfg_app ''image'' = Inr ''repo:tag''"
    by (simp_all add: cfg_str_def cfg_app_def)
  have rcs: "returncode (subprocess_run ?w [] [''stop'', ''app'']) = 0"
    "returncode (subprocess_run ?w [Docker [''stop'', ''app''] 0, Print ''stop app''] [''rm'', ''app'']) = 0"
    "returncode (subprocess_run ?w (?tb @ [Docker digests_cmd 0]) [''rmi'', ''repo:tag'']) = 1"
    by (simp_all add: world_of_def)
  have dig: "docker_images_sha256 ?w ?tb = (Inr [''repo:tag'' \<mapsto> ''sha256:AAA''], ?tb @ [Docker digests_cmd 0])"
    by (simp add: docker_defs io_defs example_defs digests_cmd_def)
  from remove_steps [where w = ?w and c = cfg_app and a = ?a and containers = "[''app'']" and tr = "[]"
      and name = "''app''" and img = "''repo:tag''" and rs = 0 and rr = 0 and ri = 1
      and ta = "[Docker [''stop'', ''app''] 0, Print ''stop app'']" and tb = ?tb
      and images = "[''repo:tag'' \<mapsto> ''sha256:AAA'']" and tc = "?tb @ [Docker digests_cmd 0]"]
    strs rcs dig
  have r: "StarterWorker_remove ?w cfg_app ?a [''app''] []
       = (Inr False,
          [Docker [''stop'', ''app''] 0, Print ''stop app'', Docker [''rm'', ''app''] 0,
           Docker digests_cmd 0, Docker [''rmi'', ''repo:tag''] 1,
           Print ''Error delete repo:tag image. Maybe containers use it?''])"
    by simp
  from strs rcs dig r show ?thesis by simp
qed

section \<open>The purge action\<close>

lemma images_sha256_fatal:
  "returncode (subprocess_run w t digests_cmd) \<noteq> 0 \<Longrightarrow>
   docker_images_sha256 w t =
     (Inl (RuntimeError (''Error docker '' @ join '' '' digests_cmd @ '': ''
                         @ stderr (subprocess_run w t digests_cmd))),
      t @ [Docker digests_cmd (returncode (subprocess_run w t digests_cmd))])"
  by (simp add: docker_images_sha256_def docker_run_fatal_def digests_cmd_def Let_def bind_io_def)

lemma images_sha256_raises_trace:
  "docker_images_sha256 w t = (Inl e, tc) \<Longrightarrow>
   tc = t @ [Docker digests_cmd (returncode (subprocess_run w t digests_cmd))]"
  by (auto simp: docker_images_sha256_def docker_run_fatal_def digests_cmd_def Let_def io_defs
      split: if_splits sum.splits)

lemma rmi_by_reference_raises:
  assumes "cfg_str c ''image'' = Inr img"
    and "docker_images_sha256 w t = (Inl e, tc)"
  shows "StarterWorker_rmi w c None t = (Inl e, tc)"
  using assms
  by (simp add: StarterWorker_rmi_def io_defs)

lemma remove_raises:
  assumes "cfg_str c ''name'' = Inr name" and "cfg_str c ''image'' = Inr img"
    and "rs = returncode (subprocess_run w tr [''stop'', name])"
    and "ta = tr @ [Docker [''stop'', name] rs,
              Print (if rs = 0 then ''stop '' @ name else ''Error stopping '' @ name)]"
    and "rr = returncode (subprocess_run w ta [''rm'', name])"
    and "tb = (if name \<in> set containers
         then (if rs = 0 then ta @ [Docker [''rm'', name] rr] else ta)
         else if cli_stop a then tr @ [Print (''Container '' @ name @ '' not found.'')]
         else tr)"
    and "docker_images_sha256 w tb = (Inl e, tc)"
  shows "StarterWorker_remove w c a containers tr = (Inl e, tc)"
proof -
  have "\<exists>ok. stop_and_remove w c a containers tr = (Inr ok, tb)"
    using stop_and_remove_eq [of c name rs w tr ta rr a containers] assms by auto
  then obtain ok where sr: "stop_and_remove w c a containers tr = (Inr ok, tb)" ..
  have eq: "StarterWorker_remove w c a containers tr = StarterWorker_rmi w c None tb"
    by (simp add: StarterWorker_remove_def bind_io_def sr)
  show ?thesis
    unfolding eq using assms(2,7) by (rule rmi_by_reference_raises)
qed

text \<open>
  C8, as the code has it.  For a declaration with a name, an image and a data path:
  \<open>_purge\<close> runs \<open>_remove\<close>, whose image step lists the images after the stop and the
  container removal.  When the listing gives a mapping, \<open>_purge\<close> deletes the tree under
  the data path exactly when the image step did not fail; a failed stop or a failed
  container removal does not keep it from deleting.  \<open>shutil.rmtree\<close> is called with
  \<open>ignore_errors\<close>, asks nothing and cannot fail, so a data path that is not there changes
  nothing, and \<open>_purge\<close> ends normally.  When the listing raises, \<open>_purge\<close> ends with that
  exception right after the listing and deletes nothing; a listing command that fails
  raises the \<open>RuntimeError\<close> of \<open>fatal=True\<close>.
\<close>

theorem purge_steps:
  "(cfg_str c ''name'' = Inr name \<and> cfg_str c ''image'' = Inr img \<and> cfg_str c ''data_path'' = Inr dp \<and>
    rs = returncode (subprocess_run w tr [''stop'', name]) \<and>
    ta = tr @ [Docker [''stop'', name] rs,
               Print (if rs = 0 then ''stop '' @ name else ''Error stopping '' @ name)] \<and>
    rr = returncode (subprocess_run w ta [''rm'', name]) \<and>
    tb = (if name \<in> set containers
          then (if rs = 0 then ta @ [Docker [''rm'', name] rr] else ta)
          else if cli_stop a then tr @ [Print (''Container '' @ name @ '' not found.'')]
          else tr) \<and>
    docker_images_sha256 w tb = (res, tc) \<and>
    rl = returncode (subprocess_run w tb digests_cmd) \<and>
    ri = returncode (subprocess_run w tc [''rmi'', img])
    \<longrightarrow>
      tc = tb @ [Docker digests_cmd rl]
      \<and> (\<forall>images. res = Inr images \<longrightarrow>
            rl = 0 \<and>
            StarterWorker_purge w c a containers tr =
              (if images img = None then (Inr (), tc @ [Rmtree dp])
               else if ri = 0 then (Inr (), tc @ [Docker [''rmi'', img] 0, Rmtree dp])
               else (Inr (),
                     tc @ [Docker [''rmi'', img] ri,
                           Print (''Error delete '' @ img @ '' image. Maybe containers use it?'')])))
      \<and> (\<forall>e. res = Inl e \<longrightarrow> StarterWorker_purge w c a containers tr = (Inl e, tc))
      \<and> (rl \<noteq> 0 \<longrightarrow>
            res = Inl (RuntimeError (''Error docker '' @ join '' '' digests_cmd @ '': ''
                                     @ stderr (subprocess_run w tb digests_cmd)))))"
proof (intro impI)
  assume h: "cfg_str c ''name'' = Inr name \<and> cfg_str c ''image'' = Inr img \<and> cfg_str c ''data_path'' = Inr dp \<and>
    rs = returncode (subprocess_run w tr [''stop'', name]) \<and>
    ta = tr @ [Docker [''stop'', name] rs,
               Print (if rs = 0 then ''stop '' @ name else ''Error stopping '' @ name)] \<and>
    rr = returncode (subprocess_run w ta [''rm'', name]) \<and>
    tb = (if name \<in> set containers
          then (if rs = 0 then ta @ [Docker [''rm'', name] rr] else ta)
          else if cli_stop a then tr @ [Print (''Container '' @ name @ '' not found.'')]
          else tr) \<and>
    docker_images_sha256 w tb = (res, tc) \<and>
    rl = returncode (subprocess_run w tb digests_cmd) \<and>
    ri = returncode (subprocess_run w tc [''rmi'', img])"
  then have name: "cfg_str c ''name'' = Inr name" and img: "cfg_str c ''image'' = Inr img"
    and dp: "cfg_str c ''data_path'' = Inr dp"
    and rs: "rs = returncode (subprocess_run w tr [''stop'', name])"
    and ta: "ta = tr @ [Docker [''stop'', name] rs,
               Print (if rs = 0 then ''stop '' @ name else ''Error stopping '' @ name)]"
    and rr: "rr = returncode (subprocess_run w ta [''rm'', name])"
    and tb: "tb = (if name \<in> set containers
          then (if rs = 0 then ta @ [Docker [''rm'', name] rr] else ta)
          else if cli_stop a then tr @ [Print (''Container '' @ name @ '' not found.'')]
          else tr)"
    and dig: "docker_images_sha256 w tb = (res, tc)"
    and rl: "rl = returncode (subprocess_run w tb digests_cmd)"
    and ri: "ri = returncode (subprocess_run w tc [''rmi'', img])"
    by blast+
  have trace: "tc = tb @ [Docker digests_cmd rl]"
  proof (cases res)
    case (Inl e)
    with dig show ?thesis unfolding rl by (auto dest: images_sha256_raises_trace)
  next
    case (Inr images)
    with dig have "tc = tb @ [Docker digests_cmd 0]" by (auto dest: images_sha256_trace)
    moreover have "rl = 0"
    proof (rule ccontr)
      assume "rl \<noteq> 0"
      with rl images_sha256_fatal [of w tb] dig Inr show False by simp
    qed
    ultimately show ?thesis by simp
  qed
  have ok: "rl = 0 \<and> StarterWorker_purge w c a containers tr =
              (if images img = None then (Inr (), tc @ [Rmtree dp])
               else if ri = 0 then (Inr (), tc @ [Docker [''rmi'', img] 0, Rmtree dp])
               else (Inr (),
                     tc @ [Docker [''rmi'', img] ri,
                           Print (''Error delete '' @ img @ '' image. Maybe containers use it?'')]))"
    if r: "res = Inr images" for images
  proof
    show "rl = 0"
    proof (rule ccontr)
      assume "rl \<noteq> 0"
      with rl images_sha256_fatal [of w tb] dig r show False by simp
    qed
    from dig r have d: "docker_images_sha256 w tb = (Inr images, tc)" by simp
    have rem: "StarterWorker_remove w c a containers tr =
       (if images img = None then (Inr True, tc)
        else (Inr (ri = 0),
              tc @ [Docker [''rmi'', img] ri]
                 @ (if ri = 0 then []
                    else [Print (''Error delete '' @ img @ '' image. Maybe containers use it?'')])))"
      using remove_eq [of c name img rs w tr ta rr tb containers a images tc ri]
        name img rs ta rr tb d ri by blast
    show "StarterWorker_purge w c a containers tr =
              (if images img = None then (Inr (), tc @ [Rmtree dp])
               else if ri = 0 then (Inr (), tc @ [Docker [''rmi'', img] 0, Rmtree dp])
               else (Inr (),
                     tc @ [Docker [''rmi'', img] ri,
                           Print (''Error delete '' @ img @ '' image. Maybe containers use it?'')]))"
      by (simp add: StarterWorker_purge_def bind_io_def rem dp lift_io_def rmtree_def return_io_def)
  qed
  have raises: "StarterWorker_purge w c a containers tr = (Inl e, tc)" if r: "res = Inl e" for e
  proof -
    from dig r have d: "docker_images_sha256 w tb = (Inl e, tc)" by simp
    have "StarterWorker_remove w c a containers tr = (Inl e, tc)"
      by (rule remove_raises [OF name img rs ta rr tb d])
    then show ?thesis by (simp add: StarterWorker_purge_def bind_io_def)
  qed
  have fatal: "res = Inl (RuntimeError (''Error docker '' @ join '' '' digests_cmd @ '': ''
                                     @ stderr (subprocess_run w tb digests_cmd)))" if "rl \<noteq> 0"
    using that rl images_sha256_fatal [of w tb] dig by simp
  from trace ok raises fatal
  show "tc = tb @ [Docker digests_cmd rl]
      \<and> (\<forall>images. res = Inr images \<longrightarrow>
            rl = 0 \<and>
            StarterWorker_purge w c a containers tr =
              (if images img = None then (Inr (), tc @ [Rmtree dp])
               else if ri = 0 then (Inr (), tc @ [Docker [''rmi'', img] 0, Rmtree dp])
               else (Inr (),
                     tc @ [Docker [''rmi'', img] ri,
                           Print (''Error delete '' @ img @ '' image. Maybe containers use it?'')])))
      \<and> (\<forall>e. res = Inl e \<longrightarrow> StarterWorker_purge w c a containers tr = (Inl e, tc))
      \<and> (rl \<noteq> 0 \<longrightarrow>
            res = Inl (RuntimeError (''Error docker '' @ join '' '' digests_cmd @ '': ''
                                     @ stderr (subprocess_run w tb digests_cmd))))"
    by (intro conjI allI impI) blast+
qed

text \<open>
  The claim as stated fails: when the image removal fails, the data path is not deleted.
\<close>

theorem purge_steps_counterexample:
  "StarterWorker_purge (world_of ''repo:tag'' [''rmi''] None) cfg_app (cli_none\<lparr>cli_purge := True\<rparr>)
     [''app''] []
     = (Inr (),
        [Docker [''stop'', ''app''] 0, Print ''stop app'', Docker [''rm'', ''app''] 0,
         Docker digests_cmd 0, Docker [''rmi'', ''repo:tag''] 1,
         Print ''Error delete repo:tag image. Maybe containers use it?''])"
  by (simp add: docker_defs io_defs worker_defs example_defs digests_cmd_def)

theorem purge_steps_witness:
  "cfg_str cfg_app ''name'' = Inr ''app'' \<and> cfg_str cfg_app ''image'' = Inr ''repo:tag''
   \<and> cfg_str cfg_app ''data_path'' = Inr ''/d''
   \<and> returncode (subprocess_run (world_of ''repo:tag'' [''stop''] None) [] [''stop'', ''app'']) = 1
   \<and> docker_images_sha256 (world_of ''repo:tag'' [''stop''] None)
         [Docker [''stop'', ''app''] 1, Print ''Error stopping app'']
       = (Inr [''repo:tag'' \<mapsto> ''sha256:AAA''],
          [Docker [''stop'', ''app''] 1, Print ''Error stopping app'', Docker digests_cmd 0])
   \<and> returncode (subprocess_run (world_of ''repo:tag'' [''stop''] None)
         [Docker [''stop'', ''app''] 1, Print ''Error stopping app'', Docker digests_cmd 0]
         [''rmi'', ''repo:tag'']) = 0
   \<and> StarterWorker_purge (world_of ''repo:tag'' [''stop''] None) cfg_app (cli_none\<lparr>cli_purge := True\<rparr>)
         [''app''] []
       = (Inr (),
          [Docker [''stop'', ''app''] 1, Print ''Error stopping app'',
           Docker digests_cmd 0, Docker [''rmi'', ''repo:tag''] 0, Rmtree ''/d''])
   \<and> returncode (subprocess_run (world_of ''repo:tag'' [''images''] None) [] [''stop'', ''app'']) = 0
   \<and> returncode (subprocess_run (world_of ''repo:tag'' [''images''] None)
         [Docker [''stop'', ''app''] 0, Print ''stop app''] [''rm'', ''app'']) = 0
   \<and> returncode (subprocess_run (world_of ''repo:tag'' [''images''] None)
         [Docker [''stop'', ''app''] 0, Print ''stop app'', Docker [''rm'', ''app''] 0] digests_cmd) = 1
   \<and> docker_images_sha256 (world_of ''repo:tag'' [''images''] None)
         [Docker [''stop'', ''app''] 0, Print ''stop app'', Docker [''rm'', ''app''] 0]
       = (Inl (RuntimeError
                 ''Error docker images --digests --format {{.Repository}}:{{.Tag}} {{.Digest}}: failed''),
          [Docker [''stop'', ''app''] 0, Print ''stop app'', Docker [''rm'', ''app''] 0, Docker digests_cmd 1])
   \<and> StarterWorker_purge (world_of ''repo:tag'' [''images''] None) cfg_app (cli_none\<lparr>cli_purge := True\<rparr>)
         [''app''] []
       = (Inl (RuntimeError
                 ''Error docker images --digests --format {{.Repository}}:{{.Tag}} {{.Digest}}: failed''),
          [Docker [''stop'', ''app''] 0, Print ''stop app'', Docker [''rm'', ''app''] 0, Docker digests_cmd 1])"
proof -
  let ?w = "world_of ''repo:tag'' [''stop''] None"
  let ?v = "world_of ''repo:tag'' [''images''] None"
  let ?a = "cli_none\<lparr>cli_purge := True\<rparr>"
  let ?tb = "[Docker [''stop'', ''app''] 1, Print ''Error stopping app'']"
  let ?ua = "[Docker [''stop'', ''app''] 0, Print ''stop app'']"
  let ?ub = "[Docker [''stop'', ''app''] 0, Print ''stop app'', Docker [''rm'', ''app''] 0]"
  let ?err = "RuntimeError ''Error docker images --digests --format {{.Repository}}:{{.Tag}} {{.Digest}}: failed''"
  have strs: "cfg_str cfg_app ''name'' = Inr ''app''" "cfg_str cfg_app ''image'' = Inr ''repo:tag''"
    "cfg_str cfg_app ''data_path'' = Inr ''/d''"
    by (simp_all add: cfg_str_def cfg_app_def)
  have rcs: "returncode (subprocess_run ?w [] [''stop'', ''app'']) = 1"
    "returncode (subprocess_run ?w (?tb @ [Docker digests_cmd 0]) [''rmi'', ''repo:tag'']) = 0"
    "returncode (subprocess_run ?w ?tb digests_cmd) = 0"
    by (simp_all add: world_of_def digests_cmd_def)
  have dig: "docker_images_sha256 ?w ?tb = (Inr [''repo:tag'' \<mapsto> ''sha256:AAA''], ?tb @ [Docker digests_cmd 0])"
    by (simp add: docker_defs io_defs example_defs digests_cmd_def)
  have rcv: "returncode (subprocess_run ?v [] [''stop'', ''app'']) = 0"
    "returncode (subprocess_run ?v ?ua [''rm'', ''app'']) = 0"
    "returncode (subprocess_run ?v ?ub digests_cmd) = 1"
    by (simp_all add: world_of_def digests_cmd_def)
  have digv: "docker_images_sha256 ?v ?ub = (Inl ?err, ?ub @ [Docker digests_cmd 1])"
    by (simp add: docker_defs io_defs example_defs digests_cmd_def)
  from purge_steps [where w = ?w and c = cfg_app and a = ?a and containers = "[''app'']" and tr = "[]"
      and name = "''app''" and img = "''repo:tag''" and dp = "''/d''" and rs = 1 and ri = 0 and rl = 0
      and rr = "returncode (subprocess_run ?w ?tb [''rm'', ''app''])"
      and ta = ?tb and tb = ?tb
      and res = "Inr [''repo:tag'' \<mapsto> ''sha256:AAA'']" and tc = "?tb @ [Docker digests_cmd 0]"]
    strs rcs dig
  have r: "StarterWorker_purge ?w cfg_app ?a [''app''] []
       = (Inr (),
          [Docker [''stop'', ''app''] 1, Print ''Error stopping app'',
           Docker digests_cmd 0, Docker [''rmi'', ''repo:tag''] 0, Rmtree ''/d''])"
    by simp
  from purge_steps [where w = ?v and c = cfg_app and a = ?a and containers = "[''app'']" and tr = "[]"
      and name = "''app''" and img = "''repo:tag''" and dp = "''/d''" and rs = 0 and rr = 0 and rl = 1
      and ri = "returncode (subprocess_run ?v (?ub @ [Docker digests_cmd 1]) [''rmi'', ''repo:tag''])"
      and ta = ?ua and tb = ?ub
      and res = "Inl ?err" and tc = "?ub @ [Docker digests_cmd 1]"]
    strs rcv digv
  have v: "StarterWorker_purge ?v cfg_app ?a [''app''] [] = (Inl ?err, ?ub @ [Docker digests_cmd 1])"
    by simp
  from strs rcs dig r rcv digv v show ?thesis by simp
qed

section \<open>Directories\<close>

lemma no_makedirs_creates: "event_kind e \<noteq> EMakedirs \<Longrightarrow> creates_only_data_path c e"
  by (auto simp: creates_only_data_path_def)

lemma run_cmd_makedir:
  "run_cmd c a = Inr (cmd, mk) \<Longrightarrow> \<exists>vs. cfg_items c ''v'' = Inr vs \<and> mk = (vs \<noteq> [])"
  by (auto simp: run_cmd_def bind_exn_def split: sum.splits if_splits)

lemma emits_creates_run_container:
  "emits (StarterWorker_run_container w c a) (creates_only_data_path c)"
proof (cases "run_cmd c a")
  case (Inl e)
  then show ?thesis
    by (simp add: StarterWorker_run_container_def emits_def io_defs)
next
  case (Inr r)
  obtain cmd mk where r: "r = (cmd, mk)" by (cases r)
  with Inr run_cmd_makedir obtain vs where vs: "cfg_items c ''v'' = Inr vs" "mk = (vs \<noteq> [])"
    by blast
  show ?thesis
    unfolding StarterWorker_run_container_def docker_run_def
    using Inr r vs
    by (auto intro!: emits_intros emits_makedirs
        simp: bind_io_def lift_io_def creates_only_data_path_def emits_def makedirs_def docker_run_fatal_def
              Let_def return_io_def print_return_def print_io_def
        split: sum.splits)
qed


lemma emits_creates_start: "emits (StarterWorker_start w c a cs) (creates_only_data_path c)"
  unfolding StarterWorker_start_def docker_start_def
  by (auto intro!: emits_bind emits_return emits_lift emits_print_return emits_docker
      emits_creates_run_container
      emits_mono [OF emits_kind_images_sha256] emits_mono [OF emits_kind_pull]
      simp: creates_only_data_path_def)

lemma emits_creates_replace:
  "emits (upgrade_replace w c a cs img old_id) (creates_only_data_path c)"
  unfolding upgrade_replace_def
  by (auto intro!: emits_bind emits_return emits_lift emits_print_return emits_creates_run_container
      emits_mono [OF emits_kind_pull] emits_mono [OF emits_kind_stop_and_remove]
      emits_mono [OF emits_kind_rmi]
      simp: creates_only_data_path_def)

lemma emits_creates_if_stale:
  "emits (upgrade_if_stale w c a cs img old_sha old_id) (creates_only_data_path c)"
  unfolding upgrade_if_stale_def
  by (auto intro!: emits_bind emits_return emits_creates_replace emits_mono [OF emits_kind_update]
      simp: creates_only_data_path_def)

lemma emits_creates_upgrade: "emits (StarterWorker_upgrade w c a cs) (creates_only_data_path c)"
  unfolding StarterWorker_upgrade_def
  by (auto intro!: emits_bind emits_return emits_lift emits_print_return emits_creates_start
      emits_creates_if_stale
      emits_mono [OF emits_kind_images_sha256] emits_mono [OF emits_kind_images_id]
      emits_mono [OF emits_kind_allow]
      simp: creates_only_data_path_def split: option.splits)

lemma emits_creates_run: "emits (StarterWorker_run w c a cs) (creates_only_data_path c)"
  unfolding StarterWorker_run_def
  by (auto intro!: emits_bind emits_return emits_config_check emits_creates_start emits_creates_upgrade
      emits_mono [OF emits_kind_stop] emits_mono [OF emits_kind_update]
      emits_mono [OF emits_kind_remove] emits_mono [OF emits_kind_purge]
      simp: creates_only_data_path_def)

lemma emits_no_makedirs_run:
  "\<not> cli_start a \<and> (cli_stop a \<or> cli_update a \<or> \<not> cli_upgrade a) \<Longrightarrow>
   emits (StarterWorker_run w c a cs) (\<lambda>e. event_kind e \<noteq> EMakedirs)"
  unfolding StarterWorker_run_def
  by (auto intro!: emits_bind emits_return emits_config_check
      emits_mono [OF emits_kind_stop] emits_mono [OF emits_kind_update]
      emits_mono [OF emits_kind_remove] emits_mono [OF emits_kind_purge])

lemma emitsD2:
  assumes "emits m P" and "Q \<Longrightarrow> emits m R" and "m tr = (r, tr')"
  shows "\<exists>evs. tr' = tr @ evs \<and> (\<forall>e\<in>set evs. P e) \<and> (Q \<longrightarrow> (\<forall>e\<in>set evs. R e))"
proof -
  from emitsD [OF assms(1,3)] obtain evs where evs: "tr' = tr @ evs" "\<forall>e\<in>set evs. P e"
    by blast
  have "\<forall>e\<in>set evs. R e" if Q
  proof -
    from emitsD [OF assms(2) assms(3)] that obtain evs2 where "tr' = tr @ evs2" "\<forall>e\<in>set evs2. R e"
      by blast
    with evs show ?thesis by simp
  qed
  with evs show ?thesis by blast
qed

text \<open>
  C10, as the code has it.  \<open>_run\<close> sets \<open>makedir\<close> exactly when the declaration has a
  volume, and then calls \<open>os.makedirs\<close> on the data path itself, right before
  \<open>docker run\<close>: when that call fails nothing is run, and when it succeeds the data path
  and its parents exist and no other directory has been created.  In every run of a
  worker a directory creation is this one call, and under the actions stop, update,
  remove and purge there is none.
\<close>

theorem data_path_created_before_run:
  "(run_cmd c a = Inr (cmd, mk) \<and> cfg_str c ''data_path'' = Inr dp \<and>
    ta = (if mk then tr @ [Makedirs dp True] else tr) \<and>
    rc = returncode (subprocess_run w ta (''run'' # cmd))
    \<longrightarrow>
      (\<exists>vs. cfg_items c ''v'' = Inr vs \<and> mk = (vs \<noteq> []))
      \<and> StarterWorker_run_container w c a tr =
          (if mk \<and> \<not> os_makedirs w tr dp then (Inl OSError, tr @ [Makedirs dp False])
           else (Inr (rc = 0),
                 ta @ [Docker (''run'' # cmd) rc,
                       Print ((if rc = 0 then ''docker run'' else ''Failed docker run'') @ '' '' @ join '' '' cmd)]))
      \<and> dirs_after dirs ta = (if mk then dirs_after dirs tr \<union> set (ancestors dp) else dirs_after dirs tr))
   \<and> (StarterWorker_run w c a containers tr = (r, tr') \<longrightarrow>
        (\<exists>evs. tr' = tr @ evs \<and> (\<forall>e\<in>set evs. creates_only_data_path c e)
           \<and> (\<not> cli_start a \<and> (cli_stop a \<or> cli_update a \<or> \<not> cli_upgrade a) \<longrightarrow>
                (\<forall>e\<in>set evs. event_kind e \<noteq> EMakedirs))))"
proof (intro conjI impI)
  assume h: "run_cmd c a = Inr (cmd, mk) \<and> cfg_str c ''data_path'' = Inr dp \<and>
    ta = (if mk then tr @ [Makedirs dp True] else tr) \<and>
    rc = returncode (subprocess_run w ta (''run'' # cmd))"
  then show "\<exists>vs. cfg_items c ''v'' = Inr vs \<and> mk = (vs \<noteq> [])"
    using run_cmd_makedir by blast
  from h show "StarterWorker_run_container w c a tr =
          (if mk \<and> \<not> os_makedirs w tr dp then (Inl OSError, tr @ [Makedirs dp False])
           else (Inr (rc = 0),
                 ta @ [Docker (''run'' # cmd) rc,
                       Print ((if rc = 0 then ''docker run'' else ''Failed docker run'') @ '' '' @ join '' '' cmd)]))"
    unfolding StarterWorker_run_container_def
    by (auto simp: io_defs makedirs_def docker_run_def docker_run_fatal_def Let_def)
  from h show "dirs_after dirs ta = (if mk then dirs_after dirs tr \<union> set (ancestors dp) else dirs_after dirs tr)"
    by (simp add: dirs_after_def)
next
  assume "StarterWorker_run w c a containers tr = (r, tr')"
  from emitsD2 [OF emits_creates_run emits_no_makedirs_run this]
  show "\<exists>evs. tr' = tr @ evs \<and> (\<forall>e\<in>set evs. creates_only_data_path c e)
           \<and> (\<not> cli_start a \<and> (cli_stop a \<or> cli_update a \<or> \<not> cli_upgrade a) \<longrightarrow>
                (\<forall>e\<in>set evs. event_kind e \<noteq> EMakedirs))" .
qed

text \<open>
  The claim as stated fails: with the volume \<open>conf\<close> under the data path \<open>/srv/web\<close> and an
  empty file system, \<open>/srv/web/conf\<close> does not exist when \<open>docker run\<close> is called.
\<close>

theorem data_path_created_before_run_counterexample:
  "cfg_items cfg_web ''v'' = Inr [(''conf'', ''/etc/nginx'')]
   \<and> path_join ''/srv/web'' ''conf'' = ''/srv/web/conf''
   \<and> StarterWorker_run (world_of ''nginx:latest'' [] None) cfg_web (cli_none\<lparr>cli_start := True\<rparr>) [] []
       = (Inr (),
          [Docker digests_cmd 0, Makedirs ''/srv/web'' True,
           Docker [''run'', ''-d'', ''-p'', ''8080:80'', ''-v'', ''/srv/web/conf:/etc/nginx'', ''-e'', ''TZ=UTC'',
                   ''--network'', ''host'', ''--memory=512m'', ''--restart=unless-stopped'',
                   ''--name'', ''web'', ''nginx:latest''] 0,
           Print (''docker run -d -p 8080:80 -v /srv/web/conf:/etc/nginx -e TZ=UTC ''
                  @ ''--network host --memory=512m --restart=unless-stopped --name web nginx:latest'')])
   \<and> dirs_after {} [Docker digests_cmd 0, Makedirs ''/srv/web'' True] = {''/srv'', ''/srv/web''}
   \<and> ''/srv/web/conf'' \<notin> dirs_after {} [Docker digests_cmd 0, Makedirs ''/srv/web'' True]"
proof -
  have d: "dirs_after {} [Docker digests_cmd 0, Makedirs ''/srv/web'' True] = {''/srv'', ''/srv/web''}"
    by (simp add: dirs_after_def ancestors_def upt_rec)
  have r: "StarterWorker_run (world_of ''nginx:latest'' [] None) cfg_web (cli_none\<lparr>cli_start := True\<rparr>) [] []
       = (Inr (),
          [Docker digests_cmd 0, Makedirs ''/srv/web'' True,
           Docker [''run'', ''-d'', ''-p'', ''8080:80'', ''-v'', ''/srv/web/conf:/etc/nginx'', ''-e'', ''TZ=UTC'',
                   ''--network'', ''host'', ''--memory=512m'', ''--restart=unless-stopped'',
                   ''--name'', ''web'', ''nginx:latest''] 0,
           Print (''docker run -d -p 8080:80 -v /srv/web/conf:/etc/nginx -e TZ=UTC ''
                  @ ''--network host --memory=512m --restart=unless-stopped --name web nginx:latest'')])"
    by (simp add: docker_defs io_defs worker_defs example_defs cfg_web_def digests_cmd_def path_join_def)
  show ?thesis
    unfolding d using r by (simp add: cfg_items_def cfg_web_def path_join_def)
qed

theorem data_path_created_before_run_witness:
  "run_cmd cfg_web (cli_none\<lparr>cli_start := True\<rparr>)
     = Inr ([''-d'', ''-p'', ''8080:80'', ''-v'', ''/srv/web/conf:/etc/nginx'', ''-e'', ''TZ=UTC'',
             ''--network'', ''host'', ''--memory=512m'', ''--restart=unless-stopped'',
             ''--name'', ''web'', ''nginx:latest''], True)
   \<and> cfg_str cfg_web ''data_path'' = Inr ''/srv/web''
   \<and> os_makedirs (world_of ''nginx:latest'' [] None) [Docker digests_cmd 0] ''/srv/web''
   \<and> StarterWorker_run_container (world_of ''nginx:latest'' [] None) cfg_web (cli_none\<lparr>cli_start := True\<rparr>)
         [Docker digests_cmd 0]
       = (Inr True,
          [Docker digests_cmd 0, Makedirs ''/srv/web'' True,
           Docker [''run'', ''-d'', ''-p'', ''8080:80'', ''-v'', ''/srv/web/conf:/etc/nginx'', ''-e'', ''TZ=UTC'',
                   ''--network'', ''host'', ''--memory=512m'', ''--restart=unless-stopped'',
                   ''--name'', ''web'', ''nginx:latest''] 0,
           Print (''docker run -d -p 8080:80 -v /srv/web/conf:/etc/nginx -e TZ=UTC ''
                  @ ''--network host --memory=512m --restart=unless-stopped --name web nginx:latest'')])
   \<and> dirs_after {} [Docker digests_cmd 0, Makedirs ''/srv/web'' True]
       = dirs_after {} [Docker digests_cmd 0] \<union> set (ancestors ''/srv/web'')
   \<and> ''/srv/web'' \<in> dirs_after {} [Docker digests_cmd 0, Makedirs ''/srv/web'' True]
   \<and> StarterWorker_run (world_of ''repo:tag'' [''stop''] None) cfg_web (cli_none\<lparr>cli_stop := True\<rparr>) [''web''] []
       = (Inr (), [Docker [''stop'', ''web''] 1, Print ''Error stopping web''])
   \<and> (\<exists>evs. [Docker [''stop'', ''web''] 1, Print ''Error stopping web''] = [] @ evs
          \<and> (\<forall>e\<in>set evs. creates_only_data_path cfg_web e)
          \<and> (\<forall>e\<in>set evs. event_kind e \<noteq> EMakedirs))"
proof -
  let ?w = "world_of ''nginx:latest'' [] None"
  let ?a = "cli_none\<lparr>cli_start := True\<rparr>"
  let ?cmd = "[''-d'', ''-p'', ''8080:80'', ''-v'', ''/srv/web/conf:/etc/nginx'', ''-e'', ''TZ=UTC'',
             ''--network'', ''host'', ''--memory=512m'', ''--restart=unless-stopped'',
             ''--name'', ''web'', ''nginx:latest'']"
  have cmd: "run_cmd cfg_web ?a = Inr (?cmd, True)"
    by (simp add: run_cmd_def bind_exn_def cfg_items_def cfg_list_def cfg_str_def cfg_web_def cli_none_def
        path_join_def)
  have dp: "cfg_str cfg_web ''data_path'' = Inr ''/srv/web''"
    by (simp add: cfg_str_def cfg_web_def)
  have mk: "os_makedirs ?w [Docker digests_cmd 0] ''/srv/web''"
    by (simp add: world_of_def)
  have rc: "returncode (subprocess_run ?w [Docker digests_cmd 0, Makedirs ''/srv/web'' True] (''run'' # ?cmd)) = 0"
    by (simp add: world_of_def)
  note inst = data_path_created_before_run [where c = cfg_web and dirs = "{}"]
  from inst [where a = ?a and w = ?w and cmd = ?cmd and mk = True and dp = "''/srv/web''" and rc = 0
      and tr = "[Docker digests_cmd 0]" and ta = "[Docker digests_cmd 0, Makedirs ''/srv/web'' True]",
      THEN conjunct1] cmd dp mk rc
  have a: "StarterWorker_run_container ?w cfg_web ?a [Docker digests_cmd 0]
       = (Inr True,
          [Docker digests_cmd 0, Makedirs ''/srv/web'' True, Docker (''run'' # ?cmd) 0,
           Print (''docker run '' @ join '' '' ?cmd)])"
    and b: "dirs_after {} [Docker digests_cmd 0, Makedirs ''/srv/web'' True]
       = dirs_after {} [Docker digests_cmd 0] \<union> set (ancestors ''/srv/web'')"
    by simp_all
  have c: "''/srv/web'' \<in> dirs_after {} [Docker digests_cmd 0, Makedirs ''/srv/web'' True]"
    unfolding b by (simp add: ancestors_def)
  let ?ws = "world_of ''repo:tag'' [''stop''] None"
  let ?as = "cli_none\<lparr>cli_stop := True\<rparr>"
  have s: "StarterWorker_run ?ws cfg_web ?as [''web''] []
       = (Inr (), [Docker [''stop'', ''web''] 1, Print ''Error stopping web''])"
    by (simp add: docker_defs io_defs worker_defs example_defs cfg_web_def)
  have flags: "\<not> cli_start ?as" "cli_stop ?as"
    by (simp_all add: cli_none_def)
  from inst [where a = ?as and w = ?ws and containers = "[''web'']" and tr = "[]" and r = "Inr ()"
      and tr' = "[Docker [''stop'', ''web''] 1, Print ''Error stopping web'']", THEN conjunct2] s flags
  have d: "\<exists>evs. [Docker [''stop'', ''web''] 1, Print ''Error stopping web''] = [] @ evs
          \<and> (\<forall>e\<in>set evs. creates_only_data_path cfg_web e)
          \<and> (\<forall>e\<in>set evs. event_kind e \<noteq> EMakedirs)"
    by blast
  from cmd dp mk a b c s d show ?thesis by simp
qed

section \<open>The upgrade action deletes the old image last\<close>

lemma bind_ioE:
  assumes "bind_io m k t = (r, t')"
  obtains (raised) e where "m t = (Inl e, t')" "r = Inl e"
  | (returned) x ta where "m t = (Inr x, ta)" "k x ta = (r, t')"
  using assms by (auto simp: bind_io_def split: prod.splits sum.splits)

lemma first_split:
  "P @ X # tail = pre @ Y # post \<Longrightarrow> \<forall>e\<in>set P. \<not> Q e \<Longrightarrow> \<forall>e\<in>set tail. \<not> Q e \<Longrightarrow> Q Y \<Longrightarrow>
   pre = P \<and> Y = X \<and> post = tail"
proof (induction P arbitrary: pre)
  case Nil
  then show ?case by (cases pre) auto
next
  case (Cons b bs)
  then show ?case by (cases pre) auto
qed

lemma rmi_target:
  assumes "(if i = [] then lift_io (cfg_str c ''image'') else return_io i) t = (r, t')"
  shows "t' = t \<and> (case r of Inl e \<Rightarrow> True | Inr target \<Rightarrow> if i = [] then cfg_str c ''image'' = Inr target else target = i)"
  using assms by (auto simp: lift_io_def return_io_def split: if_splits sum.splits)

lemma rmi_delete:
  assumes "bind_io (docker_rmi w target) (\<lambda>ok.
           if \<not> ok
           then print_return (''Error delete '' @ target @ '' image. Maybe containers use it?'') False
           else return_io True) t = (r, t')"
  shows "\<exists>rc. t' = t @ Docker [''rmi'', target] rc # delete_report target rc \<and> r = Inr (rc = 0)"
  using assms
  by (auto simp: docker_rmi_def docker_run_fatal_def delete_report_def Let_def io_defs split: if_splits)

lemma rmi_shape:
  assumes "StarterWorker_rmi w c (Some i) t = (r, t')"
  shows "(\<exists>P. t' = t @ P \<and> (\<forall>e\<in>set P. event_kind e = EList))
       \<or> (\<exists>P rc target. t' = t @ P @ Docker [''rmi'', target] rc # delete_report target rc
             \<and> (\<forall>e\<in>set P. event_kind e = EList) \<and> r = Inr (rc = 0)
             \<and> (if i = [] then cfg_str c ''image'' = Inr target else target = i))"
proof -
  let ?known = "bind_io (docker_repo_id w) (\<lambda>ids. return_io (i \<in> set ids))"
  let ?present = "\<lambda>known. if known then return_io True
              else bind_io (lift_io (cfg_str c ''image'')) (\<lambda>img.
                   bind_io (docker_images_sha256 w) (\<lambda>images. return_io (images img \<noteq> None)))"
  let ?del = "bind_io (if i = [] then lift_io (cfg_str c ''image'') else return_io i) (\<lambda>target.
         bind_io (docker_rmi w target) (\<lambda>ok.
           if \<not> ok
           then print_return (''Error delete '' @ target @ '' image. Maybe containers use it?'') False
           else return_io True))"
  have eq: "StarterWorker_rmi w c (Some i) =
      bind_io ?known (\<lambda>known. bind_io (?present known) (\<lambda>present.
        if present then ?del else return_io True))"
    by (simp add: StarterWorker_rmi_def cong: if_cong)
  have k: "emits ?known (\<lambda>e. event_kind e = EList)"
    by (auto intro!: emits_bind emits_return emits_mono [OF emits_kind_repo_id])
  have p: "emits (?present known) (\<lambda>e. event_kind e = EList)" for known
    by (auto intro!: emits_bind emits_return emits_lift emits_mono [OF emits_kind_images_sha256])
  from assms [unfolded eq] show ?thesis
  proof (cases rule: bind_ioE)
    case (raised e)
    with emitsD [OF k] show ?thesis by blast
  next
    case (returned known ta)
    from emitsD [OF k returned(1)] obtain P1 where
      P1: "ta = t @ P1" "\<forall>e\<in>set P1. event_kind e = EList" by blast
    from returned(2) show ?thesis
    proof (cases rule: bind_ioE)
      case (raised e)
      from emitsD [OF p raised(1)] obtain P2 where
        P2: "t' = ta @ P2" "\<forall>e\<in>set P2. event_kind e = EList" by blast
      from P1 P2 have "t' = t @ (P1 @ P2) \<and> (\<forall>e\<in>set (P1 @ P2). event_kind e = EList)" by auto
      then show ?thesis by blast
    next
      case (returned present tb)
      from emitsD [OF p returned(1)] obtain P2 where
        P2: "tb = ta @ P2" "\<forall>e\<in>set P2. event_kind e = EList" by blast
      from P1 P2 have P: "tb = t @ (P1 @ P2)" "\<forall>e\<in>set (P1 @ P2). event_kind e = EList" by auto
      show ?thesis
      proof (cases present)
        case False
        with returned(2) have "t' = tb" by (simp add: return_io_def)
        with P show ?thesis by blast
      next
        case True
        with returned(2) have "?del tb = (r, t')" by simp
        then show ?thesis
        proof (cases rule: bind_ioE)
          case (raised e)
          with rmi_target [OF raised(1)] P show ?thesis by blast
        next
          case (returned target tc)
          from rmi_target [OF returned(1)]
          have tc: "tc = tb" and tg: "if i = [] then cfg_str c ''image'' = Inr target else target = i"
            by simp_all
          from rmi_delete [OF returned(2)] obtain rc where
            "t' = tc @ Docker [''rmi'', target] rc # delete_report target rc" "r = Inr (rc = 0)"
            by blast
          with tc P tg have "t' = t @ (P1 @ P2) @ Docker [''rmi'', target] rc # delete_report target rc
             \<and> (\<forall>e\<in>set (P1 @ P2). event_kind e = EList) \<and> r = Inr (rc = 0)
             \<and> (if i = [] then cfg_str c ''image'' = Inr target else target = i)"
            by simp
          then show ?thesis by blast
        qed
      qed
    qed
  qed
qed


lemma pull_ok:
  "StarterWorker_pull w c a t = (Inr True, t') \<Longrightarrow> \<exists>e. t' = t @ [e] \<and> obtained e"
  by (auto simp: StarterWorker_pull_def docker_build_def docker_pull_def docker_run_fatal_def Let_def io_defs
      split: if_splits sum.splits)

lemma replacesI1: "\<forall>e\<in>set evs. event_kind e \<noteq> ERmi \<Longrightarrow> replaces c old_id r evs"
  by (simp add: replaces_def)

lemma replace_shape:
  assumes "upgrade_replace w c a cs img old_id t = (r, t')"
  shows "\<exists>evs. t' = t @ evs \<and> replaces c old_id r evs"
proof -
  have kp: "emits (StarterWorker_pull w c a) (\<lambda>e. event_kind e \<noteq> ERmi)"
    by (rule emits_mono [OF emits_kind_pull]) auto
  have ks: "emits (stop_and_remove w c a cs) (\<lambda>e. event_kind e \<noteq> ERmi)"
    by (rule emits_mono [OF emits_kind_stop_and_remove]) auto
  have kr: "emits (if removed then bind_io (StarterWorker_run_container w c a) (\<lambda>_. return_io ())
                   else return_io ()) (\<lambda>e. event_kind e \<noteq> ERmi)" for removed
    by (auto intro!: emits_bind emits_return emits_mono [OF emits_kind_run_container])
  have ku: "emits (lift_io (unpack2 (rsplit1 CHR '':'' img))) (\<lambda>e. event_kind e \<noteq> ERmi)"
    by (rule emits_lift)
  from assms [unfolded upgrade_replace_def] show ?thesis
  proof (cases rule: bind_ioE)
    case (raised e)
    from emitsD [OF kp raised(1)] show ?thesis by (blast intro: replacesI1)
  next
    case (returned pulled ta)
    from emitsD [OF kp returned(1)] obtain E0 where
      E0: "ta = t @ E0" "\<forall>e\<in>set E0. event_kind e \<noteq> ERmi" by blast
    show ?thesis
    proof (cases pulled)
      case False
      with returned(2) have "t' = ta @ [Print ''Runtime error, exit'']"
        by (simp add: io_defs)
      with E0 have "t' = t @ (E0 @ [Print ''Runtime error, exit''])"
        "\<forall>e\<in>set (E0 @ [Print ''Runtime error, exit'']). event_kind e \<noteq> ERmi"
        by auto
      then show ?thesis by (blast intro: replacesI1)
    next
      case True
      with returned(1) have "StarterWorker_pull w c a t = (Inr True, ta)" by simp
      from pull_ok [OF this] obtain e0 where e0: "ta = t @ [e0]" "obtained e0" by blast
      with E0 have E0': "E0 = [e0]" by simp
      from returned(2) True
      have "bind_io (stop_and_remove w c a cs) (\<lambda>removed.
         bind_io (if removed
                  then bind_io (StarterWorker_run_container w c a) (\<lambda>_. return_io ())
                  else return_io ()) (\<lambda>_.
         bind_io (lift_io (unpack2 (rsplit1 CHR '':'' img))) (\<lambda>_.
         bind_io (StarterWorker_rmi w c (Some old_id)) (\<lambda>_.
           return_io None)))) ta = (r, t')"
        by simp
      then show ?thesis
      proof (cases rule: bind_ioE)
        case (raised e)
        from emitsD [OF ks raised(1)] E0 obtain E1 where
          "t' = t @ (E0 @ E1)" "\<forall>e\<in>set (E0 @ E1). event_kind e \<noteq> ERmi" by auto
        then show ?thesis by (blast intro: replacesI1)
      next
        case (returned removed tb)
        from emitsD [OF ks returned(1)] E0 obtain E1 where
          E1: "tb = t @ (E0 @ E1)" "\<forall>e\<in>set (E0 @ E1). event_kind e \<noteq> ERmi" by auto
        from returned(2) show ?thesis
        proof (cases rule: bind_ioE)
          case (raised e)
          from emitsD [OF kr raised(1)] E1 obtain E2 where
            "t' = t @ (E0 @ E1 @ E2)" "\<forall>e\<in>set (E0 @ E1 @ E2). event_kind e \<noteq> ERmi" by auto
          then show ?thesis by (blast intro: replacesI1)
        next
          case (returned u tc)
          from emitsD [OF kr returned(1)] E1 obtain E2 where
            E2: "tc = t @ (E0 @ E1 @ E2)" "\<forall>e\<in>set (E0 @ E1 @ E2). event_kind e \<noteq> ERmi" by auto
          from returned(2) show ?thesis
          proof (cases rule: bind_ioE)
            case (raised e)
            then have "t' = tc" by (simp add: lift_io_def)
            with E2 show ?thesis by (blast intro: replacesI1)
          next
            case (returned v td)
            then have td: "td = tc" by (simp add: lift_io_def)
            from returned(2) show ?thesis
            proof (cases rule: bind_ioE)
              case (raised e)
              from rmi_shape [OF raised(1)] raised(2) obtain P where
                "t' = td @ P" "\<forall>e\<in>set P. event_kind e = EList" by auto
              with td E2 have "t' = t @ (E0 @ E1 @ E2 @ P)"
                "\<forall>e\<in>set (E0 @ E1 @ E2 @ P). event_kind e \<noteq> ERmi" by auto
              then show ?thesis by (blast intro: replacesI1)
            next
              case (returned x te)
              then have fin: "t' = te" "r = Inr None" by (simp_all add: return_io_def)
              from rmi_shape [OF returned(1)] show ?thesis
              proof
                assume "\<exists>P. te = td @ P \<and> (\<forall>e\<in>set P. event_kind e = EList)"
                then obtain P where "te = td @ P" "\<forall>e\<in>set P. event_kind e = EList" by blast
                with td E2 fin have "t' = t @ (E0 @ E1 @ E2 @ P)"
                  "\<forall>e\<in>set (E0 @ E1 @ E2 @ P). event_kind e \<noteq> ERmi" by auto
                then show ?thesis by (blast intro: replacesI1)
              next
                assume "\<exists>P rc target. te = td @ P @ Docker [''rmi'', target] rc # delete_report target rc
                   \<and> (\<forall>e\<in>set P. event_kind e = EList) \<and> Inr x = Inr (rc = 0)
                   \<and> (if old_id = [] then cfg_str c ''image'' = Inr target else target = old_id)"
                then obtain P rc target where
                  P: "te = td @ P @ Docker [''rmi'', target] rc # delete_report target rc"
                  "\<forall>e\<in>set P. event_kind e = EList"
                  "if old_id = [] then cfg_str c ''image'' = Inr target else target = old_id"
                  by blast
                let ?P = "E0 @ E1 @ E2 @ P"
                from P td E2 fin have "t' = t @ (?P @ Docker [''rmi'', target] rc # delete_report target rc)"
                  by simp
                moreover from P E2 have "\<forall>e\<in>set ?P. event_kind e \<noteq> ERmi" by auto
                moreover from E0' e0 have "\<exists>e\<in>set ?P. obtained e" by simp
                ultimately have "t' = t @ (?P @ Docker [''rmi'', target] rc # delete_report target rc)
                   \<and> replaces c old_id r (?P @ Docker [''rmi'', target] rc # delete_report target rc)"
                  unfolding replaces_def using fin P(3) by blast
                then show ?thesis by blast
              qed
            qed
          qed
        qed
      qed
    qed
  qed
qed


lemma replaces_prepend:
  assumes "\<forall>e\<in>set E. event_kind e \<noteq> ERmi" and "replaces c old_id r evs"
  shows "replaces c old_id r (E @ evs)"
  using assms(2) unfolding replaces_def
proof
  assume "\<forall>e\<in>set evs. event_kind e \<noteq> ERmi"
  with assms(1) have "\<forall>e\<in>set (E @ evs). event_kind e \<noteq> ERmi" by auto
  then show "(\<forall>e\<in>set (E @ evs). event_kind e \<noteq> ERmi)
     \<or> (\<exists>P rc target.
           E @ evs = P @ Docker [''rmi'', target] rc # delete_report target rc \<and>
           (\<forall>e\<in>set P. event_kind e \<noteq> ERmi) \<and> (\<exists>e\<in>set P. obtained e) \<and> r = Inr None \<and>
           (if old_id = [] then cfg_str c ''image'' = Inr target else target = old_id))" ..
next
  assume "\<exists>P rc target.
           evs = P @ Docker [''rmi'', target] rc # delete_report target rc \<and>
           (\<forall>e\<in>set P. event_kind e \<noteq> ERmi) \<and> (\<exists>e\<in>set P. obtained e) \<and> r = Inr None \<and>
           (if old_id = [] then cfg_str c ''image'' = Inr target else target = old_id)"
  then obtain P rc target where
    P: "evs = P @ Docker [''rmi'', target] rc # delete_report target rc"
    "\<forall>e\<in>set P. event_kind e \<noteq> ERmi" "\<exists>e\<in>set P. obtained e" "r = Inr None"
    "if old_id = [] then cfg_str c ''image'' = Inr target else target = old_id"
    by blast
  from P assms(1) have "E @ evs = (E @ P) @ Docker [''rmi'', target] rc # delete_report target rc \<and>
           (\<forall>e\<in>set (E @ P). event_kind e \<noteq> ERmi) \<and> (\<exists>e\<in>set (E @ P). obtained e) \<and> r = Inr None \<and>
           (if old_id = [] then cfg_str c ''image'' = Inr target else target = old_id)"
    by auto
  then show "(\<forall>e\<in>set (E @ evs). event_kind e \<noteq> ERmi)
     \<or> (\<exists>P rc target.
           E @ evs = P @ Docker [''rmi'', target] rc # delete_report target rc \<and>
           (\<forall>e\<in>set P. event_kind e \<noteq> ERmi) \<and> (\<exists>e\<in>set P. obtained e) \<and> r = Inr None \<and>
           (if old_id = [] then cfg_str c ''image'' = Inr target else target = old_id))"
    by blast
qed

lemma if_stale_shape:
  assumes "upgrade_if_stale w c a cs img old_sha old_id t = (r, t')"
  shows "\<exists>evs. t' = t @ evs \<and> replaces c old_id r evs"
proof -
  have ku: "emits (StarterWorker_update w c a (Some old_sha)) (\<lambda>e. event_kind e \<noteq> ERmi)"
    by (rule emits_mono [OF emits_kind_update]) auto
  from assms [unfolded upgrade_if_stale_def] show ?thesis
  proof (cases rule: bind_ioE)
    case (raised e)
    from emitsD [OF ku raised(1)] show ?thesis by (blast intro: replacesI1)
  next
    case (returned stale ta)
    from emitsD [OF ku returned(1)] obtain E0 where
      E0: "ta = t @ E0" "\<forall>e\<in>set E0. event_kind e \<noteq> ERmi" by blast
    show ?thesis
    proof (cases "stale \<or> cli_b a")
      case False
      with returned(2) have "t' = ta" by (simp add: return_io_def)
      with E0 show ?thesis by (blast intro: replacesI1)
    next
      case True
      with returned(2) have "upgrade_replace w c a cs img old_id ta = (r, t')" by auto
      from replace_shape [OF this] obtain evs where "t' = ta @ evs" "replaces c old_id r evs"
        by blast
      with E0 replaces_prepend [OF E0(2)] have "t' = t @ (E0 @ evs) \<and> replaces c old_id r (E0 @ evs)"
        by simp
      then show ?thesis by blast
    qed
  qed
qed

lemma upgrade_shape:
  assumes "StarterWorker_upgrade w c a cs tr = (r, tr')"
  shows "\<exists>evs. tr' = tr @ evs \<and>
     ((\<forall>e\<in>set evs. event_kind e \<noteq> ERmi)
      \<or> (\<exists>images tra ids trb img old_sha old_id.
            docker_images_sha256 w tr = (Inr images, tra) \<and> cfg_str c ''image'' = Inr img \<and>
            images img = Some old_sha \<and> docker_images_id w tra = (Inr ids, trb) \<and>
            ids img = Some old_id \<and> replaces c old_id r evs))"
proof -
  have kd: "emits (docker_images_sha256 w) (\<lambda>e. event_kind e \<noteq> ERmi)"
    by (rule emits_mono [OF emits_kind_images_sha256]) auto
  have ki: "emits (docker_images_id w) (\<lambda>e. event_kind e \<noteq> ERmi)"
    by (rule emits_mono [OF emits_kind_images_id]) auto
  have ks: "emits (StarterWorker_start w c a cs) (\<lambda>e. event_kind e \<noteq> ERmi)"
    by (rule emits_mono [OF emits_kind_start]) auto
  have ka: "emits (StarterWorker_allow_source_change a old) (\<lambda>e. event_kind e \<noteq> ERmi)" for old
    by (rule emits_mono [OF emits_kind_allow]) auto
  have kn: "emits (bind_io (lift_io (cfg_str c ''name'')) (\<lambda>name.
                   print_return (''Runtime error,'' @ name @ '' ID not found, exit'') None))
              (\<lambda>e. event_kind e \<noteq> ERmi)"
    by (auto intro!: emits_bind emits_lift emits_print_return)
  from assms [unfolded StarterWorker_upgrade_def] show ?thesis
  proof (cases rule: bind_ioE)
    case (raised e)
    from emitsD [OF kd raised(1)] show ?thesis by blast
  next
    case (returned images tra)
    from emitsD [OF kd returned(1)] obtain E0 where
      E0: "tra = tr @ E0" "\<forall>e\<in>set E0. event_kind e \<noteq> ERmi" by blast
    from returned(2) show ?thesis
    proof (cases rule: bind_ioE)
      case (raised e)
      then have "tr' = tra" by (simp add: lift_io_def)
      with E0 show ?thesis by blast
    next
      case (returned img tb)
      then have img: "cfg_str c ''image'' = Inr img" and tb: "tb = tra"
        by (simp_all add: lift_io_def)
      show ?thesis
      proof (cases "images img")
        case None
        with returned(2) have "StarterWorker_start w c a cs tb = (r, tr')" by simp
        from emitsD [OF ks this] tb E0 obtain E1 where
          "tr' = tr @ (E0 @ E1)" "\<forall>e\<in>set (E0 @ E1). event_kind e \<noteq> ERmi" by auto
        then show ?thesis by blast
      next
        case (Some old_sha)
        with returned(2) have "bind_io (docker_images_id w) (\<lambda>ids.
             case ids img of
               None \<Rightarrow>
                 bind_io (lift_io (cfg_str c ''name'')) (\<lambda>name.
                   print_return (''Runtime error,'' @ name @ '' ID not found, exit'') None)
             | Some old_id \<Rightarrow>
                 bind_io (StarterWorker_allow_source_change a old_sha) (\<lambda>allowed.
                   if \<not> allowed then return_io None
                   else upgrade_if_stale w c a cs img old_sha old_id)) tb = (r, tr')"
          by simp
        then show ?thesis
        proof (cases rule: bind_ioE)
          case (raised e)
          from emitsD [OF ki raised(1)] tb E0 obtain E1 where
            "tr' = tr @ (E0 @ E1)" "\<forall>e\<in>set (E0 @ E1). event_kind e \<noteq> ERmi" by auto
          then show ?thesis by blast
        next
          case (returned ids tc)
          from emitsD [OF ki returned(1)] tb E0 obtain E1 where
            E1: "tc = tr @ (E0 @ E1)" "\<forall>e\<in>set (E0 @ E1). event_kind e \<noteq> ERmi" by auto
          show ?thesis
          proof (cases "ids img")
            case None
            with returned(2) have "bind_io (lift_io (cfg_str c ''name'')) (\<lambda>name.
                   print_return (''Runtime error,'' @ name @ '' ID not found, exit'') None) tc = (r, tr')"
              by simp
            from emitsD [OF kn this] E1 obtain E2 where
              "tr' = tr @ (E0 @ E1 @ E2)" "\<forall>e\<in>set (E0 @ E1 @ E2). event_kind e \<noteq> ERmi" by auto
            then show ?thesis by blast
          next
            case old_id: (Some old_id)
            with returned(2) have "bind_io (StarterWorker_allow_source_change a old_sha) (\<lambda>allowed.
                   if \<not> allowed then return_io None
                   else upgrade_if_stale w c a cs img old_sha old_id) tc = (r, tr')"
              by simp
            then show ?thesis
            proof (cases rule: bind_ioE)
              case (raised e)
              from emitsD [OF ka raised(1)] E1 obtain E2 where
                "tr' = tr @ (E0 @ E1 @ E2)" "\<forall>e\<in>set (E0 @ E1 @ E2). event_kind e \<noteq> ERmi" by auto
              then show ?thesis by blast
            next
              case (returned allowed td)
              from emitsD [OF ka returned(1)] E1 obtain E2 where
                E2: "td = tr @ (E0 @ E1 @ E2)" "\<forall>e\<in>set (E0 @ E1 @ E2). event_kind e \<noteq> ERmi" by auto
              show ?thesis
              proof (cases allowed)
                case False
                with returned(2) have "tr' = td" by (simp add: return_io_def)
                with E2 show ?thesis by blast
              next
                case True
                with returned(2) have "upgrade_if_stale w c a cs img old_sha old_id td = (r, tr')"
                  by simp
                from if_stale_shape [OF this] obtain evs where
                  evs: "tr' = td @ evs" "replaces c old_id r evs" by blast
                from evs E2 have "tr' = tr @ ((E0 @ E1 @ E2) @ evs)" by simp
                moreover from replaces_prepend [OF E2(2) evs(2)]
                have "replaces c old_id r ((E0 @ E1 @ E2) @ evs)" .
                moreover note \<open>docker_images_sha256 w tr = (Inr images, tra)\<close> img
                  \<open>images img = Some old_sha\<close> \<open>docker_images_id w tb = (Inr ids, tc)\<close> tb old_id
                ultimately show ?thesis by blast
              qed
            qed
          qed
        qed
      qed
    qed
  qed
qed

text \<open>
  C1, as the code has it.  Whenever an upgrade calls \<open>docker rmi\<close>: the image listing and
  the ID listing at the start of the upgrade succeeded and gave the old digest and the
  old ID of the image, and the one argument of \<open>docker rmi\<close> is that ID (the reference
  when the ID is the empty string); no other \<open>docker rmi\<close> comes before it; a pull or
  build that succeeded comes before it; nothing follows it but the report of its failure
  when it failed (so the stop, the removal and the run, when made, all come before); and
  the upgrade ends normally whatever the deletion returned.
\<close>

theorem old_image_deleted_last:
  "StarterWorker_upgrade w c a containers tr = (r, tr') \<and>
   tr' = tr @ pre @ Docker (''rmi'' # args) rc # post
   \<longrightarrow>
     (\<exists>images tra ids trb img old_sha old_id.
        docker_images_sha256 w tr = (Inr images, tra) \<and> cfg_str c ''image'' = Inr img \<and>
        images img = Some old_sha \<and> docker_images_id w tra = (Inr ids, trb) \<and> ids img = Some old_id \<and>
        args = [if old_id = [] then img else old_id])
     \<and> (\<forall>e\<in>set pre. event_kind e \<noteq> ERmi)
     \<and> (\<exists>e\<in>set pre. obtained e)
     \<and> post = delete_report (hd args) rc
     \<and> r = Inr None"
proof
  assume h: "StarterWorker_upgrade w c a containers tr = (r, tr') \<and>
   tr' = tr @ pre @ Docker (''rmi'' # args) rc # post"
  let ?Q = "\<lambda>e. event_kind e = ERmi"
  have QY: "?Q (Docker (''rmi'' # args) rc)" by simp
  from h upgrade_shape [of w c a containers tr r tr'] obtain evs where
    evs: "tr' = tr @ evs"
    and shape: "(\<forall>e\<in>set evs. event_kind e \<noteq> ERmi)
      \<or> (\<exists>images tra ids trb img old_sha old_id.
            docker_images_sha256 w tr = (Inr images, tra) \<and> cfg_str c ''image'' = Inr img \<and>
            images img = Some old_sha \<and> docker_images_id w tra = (Inr ids, trb) \<and>
            ids img = Some old_id \<and> replaces c old_id r evs)"
    by blast
  from h evs have split: "evs = pre @ Docker (''rmi'' # args) rc # post" by simp
  then have no: "\<not> (\<forall>e\<in>set evs. event_kind e \<noteq> ERmi)" by auto
  with shape obtain images tra ids trb img old_sha old_id where
    facts: "docker_images_sha256 w tr = (Inr images, tra)" "cfg_str c ''image'' = Inr img"
      "images img = Some old_sha" "docker_images_id w tra = (Inr ids, trb)" "ids img = Some old_id"
    and rep: "replaces c old_id r evs"
    by blast
  from rep no obtain P rc2 target where
    P: "evs = P @ Docker [''rmi'', target] rc2 # delete_report target rc2"
      "\<forall>e\<in>set P. event_kind e \<noteq> ERmi" "\<exists>e\<in>set P. obtained e" "r = Inr None"
      "if old_id = [] then cfg_str c ''image'' = Inr target else target = old_id"
    unfolding replaces_def by blast
  have tail: "\<forall>e\<in>set (delete_report target rc2). \<not> ?Q e"
    by (simp add: delete_report_def)
  from P(1) split have "P @ Docker [''rmi'', target] rc2 # delete_report target rc2
      = pre @ Docker (''rmi'' # args) rc # post"
    by simp
  from first_split [of P _ _ pre _ post ?Q, OF this _ tail QY] P(2)
  have eqs: "pre = P" "Docker (''rmi'' # args) rc = Docker [''rmi'', target] rc2"
    "post = delete_report target rc2"
    by auto
  from eqs(2) have args: "args = [target]" "rc = rc2" by simp_all
  from P(5) facts(2) have "target = (if old_id = [] then img else old_id)" by (auto split: if_splits)
  with args facts have "\<exists>images tra ids trb img old_sha old_id.
        docker_images_sha256 w tr = (Inr images, tra) \<and> cfg_str c ''image'' = Inr img \<and>
        images img = Some old_sha \<and> docker_images_id w tra = (Inr ids, trb) \<and> ids img = Some old_id \<and>
        args = [if old_id = [] then img else old_id]"
    by blast
  moreover from eqs P have "\<forall>e\<in>set pre. event_kind e \<noteq> ERmi" "\<exists>e\<in>set pre. obtained e" by simp_all
  moreover from eqs args have "post = delete_report (hd args) rc" by simp
  ultimately show "(\<exists>images tra ids trb img old_sha old_id.
        docker_images_sha256 w tr = (Inr images, tra) \<and> cfg_str c ''image'' = Inr img \<and>
        images img = Some old_sha \<and> docker_images_id w tra = (Inr ids, trb) \<and> ids img = Some old_id \<and>
        args = [if old_id = [] then img else old_id])
     \<and> (\<forall>e\<in>set pre. event_kind e \<noteq> ERmi)
     \<and> (\<exists>e\<in>set pre. obtained e)
     \<and> post = delete_report (hd args) rc
     \<and> r = Inr None"
    using P(4) by blast
qed

text \<open>
  The claim as stated fails: the old image is deleted although the stop failed and no new
  container was run (first run), and although \<open>docker run\<close> failed (second run).
\<close>

theorem old_image_deleted_last_counterexample:
  "StarterWorker_upgrade (world_of ''repo:tag'' [''stop''] (Some ''sha256:BBB'')) cfg_app
     (cli_none\<lparr>cli_upgrade := True\<rparr>) [''app''] []
     = (Inr None,
        [Docker digests_cmd 0, Docker ids_cmd 0,
         AuthGet ''repo'', ManifestHead ''repo'' ''tag'' ''t0ken'',
         Docker [''pull'', ''repo:tag''] 0,
         Docker [''stop'', ''app''] 1, Print ''Error stopping app'',
         Docker repo_cmd 0, Docker [''rmi'', ''0123abcd''] 0])
   \<and> StarterWorker_upgrade (world_of ''repo:tag'' [''run''] (Some ''sha256:BBB'')) cfg_app
     (cli_none\<lparr>cli_upgrade := True\<rparr>) [''app''] []
     = (Inr None,
        [Docker digests_cmd 0, Docker ids_cmd 0,
         AuthGet ''repo'', ManifestHead ''repo'' ''tag'' ''t0ken'',
         Docker [''pull'', ''repo:tag''] 0,
         Docker [''stop'', ''app''] 0, Print ''stop app'', Docker [''rm'', ''app''] 0,
         Docker [''run'', ''-d'', ''--restart=always'', ''--name'', ''app'', ''repo:tag''] 1,
         Print ''Failed docker run -d --restart=always --name app repo:tag'',
         Docker repo_cmd 0, Docker [''rmi'', ''0123abcd''] 0])"
  by (simp add: docker_defs io_defs worker_defs example_defs digests_cmd_def ids_cmd_def repo_cmd_def)

theorem old_image_deleted_last_witness:
  "StarterWorker_upgrade (world_of ''repo:tag'' [''rmi''] (Some ''sha256:BBB'')) cfg_app
     (cli_none\<lparr>cli_upgrade := True\<rparr>) [''app''] []
     = (Inr None,
        [] @ [Docker digests_cmd 0, Docker ids_cmd 0,
              AuthGet ''repo'', ManifestHead ''repo'' ''tag'' ''t0ken'',
              Docker [''pull'', ''repo:tag''] 0,
              Docker [''stop'', ''app''] 0, Print ''stop app'', Docker [''rm'', ''app''] 0,
              Docker [''run'', ''-d'', ''--restart=always'', ''--name'', ''app'', ''repo:tag''] 0,
              Print ''docker run -d --restart=always --name app repo:tag'',
              Docker repo_cmd 0]
         @ Docker (''rmi'' # [''0123abcd'']) 1
         # [Print ''Error delete 0123abcd image. Maybe containers use it?''])
   \<and> [Print ''Error delete 0123abcd image. Maybe containers use it?''] = delete_report (hd [''0123abcd'']) 1
   \<and> obtained (Docker [''pull'', ''repo:tag''] 0)"
proof -
  let ?w = "world_of ''repo:tag'' [''rmi''] (Some ''sha256:BBB'')"
  let ?a = "cli_none\<lparr>cli_upgrade := True\<rparr>"
  let ?pre = "[Docker digests_cmd 0, Docker ids_cmd 0,
              AuthGet ''repo'', ManifestHead ''repo'' ''tag'' ''t0ken'',
              Docker [''pull'', ''repo:tag''] 0,
              Docker [''stop'', ''app''] 0, Print ''stop app'', Docker [''rm'', ''app''] 0,
              Docker [''run'', ''-d'', ''--restart=always'', ''--name'', ''app'', ''repo:tag''] 0,
              Print ''docker run -d --restart=always --name app repo:tag'',
              Docker repo_cmd 0]"
  let ?post = "[Print ''Error delete 0123abcd image. Maybe containers use it?'']"
  have u: "StarterWorker_upgrade ?w cfg_app ?a [''app''] []
     = (Inr None, [] @ ?pre @ Docker (''rmi'' # [''0123abcd'']) 1 # ?post)"
    by (simp add: docker_defs io_defs worker_defs example_defs digests_cmd_def ids_cmd_def repo_cmd_def)
  from old_image_deleted_last [of ?w cfg_app ?a "[''app'']" "[]" "Inr None"
      "[] @ ?pre @ Docker (''rmi'' # [''0123abcd'']) 1 # ?post" ?pre "[''0123abcd'']" 1 ?post] u
  have "?post = delete_report (hd [''0123abcd'']) 1"
    by blast
  with u show ?thesis by simp
qed

section \<open>The source guard in an upgrade\<close>

lemma upgrade_permitted:
  assumes dig: "docker_images_sha256 w tr = (Inr images, tra)"
    and img: "cfg_str c ''image'' = Inr img"
    and old: "images img = Some old_sha"
    and ids: "docker_images_id w tra = (Inr ids, trb)" "ids img = Some old_id"
    and guard: "\<not> guard_blocks a old_sha"
  shows "StarterWorker_upgrade w c a containers tr = upgrade_if_stale w c a containers img old_sha old_id trb"
  unfolding StarterWorker_upgrade_def
  using guard
  by (simp add: bind_io_def lift_io_def return_io_def img dig old ids allow_source_change_eq)

lemma if_stale_steps:
  assumes upd: "StarterWorker_update w c a (Some old_sha) trb = (ru, tc)"
  shows "(\<forall>e. ru = Inl e \<longrightarrow> upgrade_if_stale w c a cs img old_sha old_id trb = (Inl e, tc))
    \<and> (\<forall>stale. ru = Inr stale \<and> \<not> (stale \<or> cli_b a) \<longrightarrow>
          upgrade_if_stale w c a cs img old_sha old_id trb = (Inr None, tc))
    \<and> (\<forall>stale rp td. ru = Inr stale \<and> (stale \<or> cli_b a) \<and> StarterWorker_pull w c a tc = (rp, td) \<longrightarrow>
          (\<forall>e. rp = Inl e \<longrightarrow> upgrade_if_stale w c a cs img old_sha old_id trb = (Inl e, td))
        \<and> (rp = Inr False \<longrightarrow>
              upgrade_if_stale w c a cs img old_sha old_id trb
                = (Inr None, td @ [Print ''Runtime error, exit'']))
        \<and> (rp = Inr True \<longrightarrow>
              (\<exists>ev rest. td = tc @ [ev] \<and> obtained ev
                 \<and> snd (upgrade_if_stale w c a cs img old_sha old_id trb) = td @ rest)))"
proof (intro conjI allI impI)
  fix e assume "ru = Inl e"
  with upd show "upgrade_if_stale w c a cs img old_sha old_id trb = (Inl e, tc)"
    by (simp add: upgrade_if_stale_def bind_io_def)
next
  fix stale assume "ru = Inr stale \<and> \<not> (stale \<or> cli_b a)"
  with upd show "upgrade_if_stale w c a cs img old_sha old_id trb = (Inr None, tc)"
    by (simp add: upgrade_if_stale_def bind_io_def return_io_def)
next
  fix stale rp td e
  assume h: "ru = Inr stale \<and> (stale \<or> cli_b a) \<and> StarterWorker_pull w c a tc = (rp, td)" and "rp = Inl e"
  with upd have "upgrade_if_stale w c a cs img old_sha old_id trb = upgrade_replace w c a cs img old_id tc"
    by (auto simp: upgrade_if_stale_def bind_io_def)
  with h \<open>rp = Inl e\<close> show "upgrade_if_stale w c a cs img old_sha old_id trb = (Inl e, td)"
    by (simp add: upgrade_replace_def bind_io_def)
next
  fix stale rp td
  assume h: "ru = Inr stale \<and> (stale \<or> cli_b a) \<and> StarterWorker_pull w c a tc = (rp, td)" and "rp = Inr False"
  with upd have "upgrade_if_stale w c a cs img old_sha old_id trb = upgrade_replace w c a cs img old_id tc"
    by (auto simp: upgrade_if_stale_def bind_io_def)
  with h \<open>rp = Inr False\<close>
  show "upgrade_if_stale w c a cs img old_sha old_id trb = (Inr None, td @ [Print ''Runtime error, exit''])"
    by (simp add: upgrade_replace_def bind_io_def print_return_def print_io_def return_io_def)
next
  fix stale rp td
  assume h: "ru = Inr stale \<and> (stale \<or> cli_b a) \<and> StarterWorker_pull w c a tc = (rp, td)" and t: "rp = Inr True"
  with upd have eq: "upgrade_if_stale w c a cs img old_sha old_id trb = upgrade_replace w c a cs img old_id tc"
    by (auto simp: upgrade_if_stale_def bind_io_def)
  from h t have p: "StarterWorker_pull w c a tc = (Inr True, td)" by simp
  from pull_ok [OF p] obtain ev where ev: "td = tc @ [ev]" "obtained ev" by blast
  let ?rest = "\<lambda>removed.
         bind_io (if removed
                  then bind_io (StarterWorker_run_container w c a) (\<lambda>_. return_io ())
                  else return_io ()) (\<lambda>_.
         bind_io (lift_io (unpack2 (rsplit1 CHR '':'' img))) (\<lambda>_.
         bind_io (StarterWorker_rmi w c (Some old_id)) (\<lambda>_.
           return_io (None :: bool option))))"
  have k: "emits (bind_io (stop_and_remove w c a cs) ?rest) (\<lambda>e. True)"
    by (auto intro!: emits_bind emits_return emits_lift
        emits_mono [OF emits_kind_stop_and_remove] emits_mono [OF emits_kind_run_container]
        emits_mono [OF emits_kind_rmi])
  have e1: "upgrade_replace w c a cs img old_id tc = bind_io (stop_and_remove w c a cs) ?rest td"
    by (simp add: upgrade_replace_def bind_io_Inr [where m = "StarterWorker_pull w c a"] p)
  obtain r t' where rt: "bind_io (stop_and_remove w c a cs) ?rest td = (r, t')"
    by (meson surj_pair)
  from emitsD [OF k rt] obtain rest where rest: "t' = td @ rest" by blast
  have "upgrade_if_stale w c a cs img old_sha old_id trb = (r, t')"
    unfolding eq e1 by (rule rt)
  then have "snd (upgrade_if_stale w c a cs img old_sha old_id trb) = td @ rest"
    using rest by simp
  with ev show "\<exists>ev rest. td = tc @ [ev] \<and> obtained ev
                 \<and> snd (upgrade_if_stale w c a cs img old_sha old_id trb) = td @ rest"
    by blast
qed

text \<open>
  C5.  \<open>_allow_source_change\<close> infers the provenance of the existing image from its
  digest (the sentinel \<open><none>\<close> means locally built, anything else the registry) and the
  requested provenance from \<open>-b\<close>; it refuses, printing the blocked direction, exactly
  when the two differ and \<open>-f\<close> is not set.  In an upgrade of an image whose digest and
  ID are listed, a refusal ends the upgrade after the two listings and the report, with
  no mutating call.  With \<open>-f\<close> set, or when the two provenances agree, the upgrade goes
  on after the two listings with the staleness check: an exception of the check ends the
  upgrade; when the check finds nothing new and \<open>-b\<close> is not set the upgrade ends there;
  otherwise the new image is pulled or built next, a failure of that is reported as
  \<open>Runtime error, exit\<close>, and after a success the upgrade continues from there.
\<close>

theorem source_guard:
  "StarterWorker_allow_source_change a old_sha tr =
     (if guard_blocks a old_sha then (Inr False, tr @ [guard_report a old_sha]) else (Inr True, tr))
   \<and> (docker_images_sha256 w tr = (Inr images, tra) \<and> cfg_str c ''image'' = Inr img \<and>
       images img = Some old_sha \<and> docker_images_id w tra = (Inr ids, trb) \<and> ids img = Some old_id \<longrightarrow>
         (\<forall>e \<in> set [Docker digests_cmd 0, Docker ids_cmd 0, guard_report a old_sha]. \<not> mutating e)
         \<and> (guard_blocks a old_sha \<longrightarrow>
               StarterWorker_upgrade w c a containers tr =
                 (Inr None, tr @ [Docker digests_cmd 0, Docker ids_cmd 0, guard_report a old_sha]))
         \<and> ((cli_f a \<or> inferred_provenance old_sha = requested_provenance a) \<and>
            StarterWorker_update w c a (Some old_sha) trb = (ru, tc) \<longrightarrow>
               trb = tr @ [Docker digests_cmd 0, Docker ids_cmd 0]
             \<and> (\<forall>e. ru = Inl e \<longrightarrow> StarterWorker_upgrade w c a containers tr = (Inl e, tc))
             \<and> (\<forall>stale. ru = Inr stale \<and> \<not> (stale \<or> cli_b a) \<longrightarrow>
                   StarterWorker_upgrade w c a containers tr = (Inr None, tc))
             \<and> (\<forall>stale rp td.
                   ru = Inr stale \<and> (stale \<or> cli_b a) \<and> StarterWorker_pull w c a tc = (rp, td) \<longrightarrow>
                     (\<forall>e. rp = Inl e \<longrightarrow> StarterWorker_upgrade w c a containers tr = (Inl e, td))
                   \<and> (rp = Inr False \<longrightarrow>
                         StarterWorker_upgrade w c a containers tr
                           = (Inr None, td @ [Print ''Runtime error, exit'']))
                   \<and> (rp = Inr True \<longrightarrow>
                         (\<exists>ev rest. td = tc @ [ev] \<and> obtained ev
                            \<and> snd (StarterWorker_upgrade w c a containers tr) = td @ rest)))))"
proof (intro conjI impI)
  show "StarterWorker_allow_source_change a old_sha tr =
     (if guard_blocks a old_sha then (Inr False, tr @ [guard_report a old_sha]) else (Inr True, tr))"
    by (rule allow_source_change_eq)
next
  show "\<forall>e \<in> set [Docker digests_cmd 0, Docker ids_cmd 0, guard_report a old_sha]. \<not> mutating e"
    by (simp add: digests_cmd_def ids_cmd_def guard_report_def)
next
  assume h: "docker_images_sha256 w tr = (Inr images, tra) \<and> cfg_str c ''image'' = Inr img \<and>
       images img = Some old_sha \<and> docker_images_id w tra = (Inr ids, trb) \<and> ids img = Some old_id"
    and g: "guard_blocks a old_sha"
  from h have t1: "tra = tr @ [Docker digests_cmd 0]" and t2: "trb = tra @ [Docker ids_cmd 0]"
    by (auto dest: images_sha256_trace images_id_trace)
  from h show "StarterWorker_upgrade w c a containers tr =
                 (Inr None, tr @ [Docker digests_cmd 0, Docker ids_cmd 0, guard_report a old_sha])"
    unfolding StarterWorker_upgrade_def
    by (simp add: bind_io_Inr [where m = "docker_images_sha256 w"]
        bind_io_Inr [where m = "docker_images_id w"] allow_source_change_eq t1 t2 g
        bind_io_def lift_io_def return_io_def)
next
  assume h: "docker_images_sha256 w tr = (Inr images, tra) \<and> cfg_str c ''image'' = Inr img \<and>
       images img = Some old_sha \<and> docker_images_id w tra = (Inr ids, trb) \<and> ids img = Some old_id"
    and g: "(cli_f a \<or> inferred_provenance old_sha = requested_provenance a) \<and>
            StarterWorker_update w c a (Some old_sha) trb = (ru, tc)"
  from h have t1: "tra = tr @ [Docker digests_cmd 0]" and t2: "trb = tra @ [Docker ids_cmd 0]"
    by (auto dest: images_sha256_trace images_id_trace)
  then show "trb = tr @ [Docker digests_cmd 0, Docker ids_cmd 0]" by simp
  from g have ng: "\<not> guard_blocks a old_sha"
    and upd: "StarterWorker_update w c a (Some old_sha) trb = (ru, tc)"
    by (auto simp: guard_blocks_def)
  from h have dig: "docker_images_sha256 w tr = (Inr images, tra)"
    and img: "cfg_str c ''image'' = Inr img" and old: "images img = Some old_sha"
    and ids: "docker_images_id w tra = (Inr ids, trb)" and oid: "ids img = Some old_id" by blast+
  have eq: "StarterWorker_upgrade w c a containers tr
      = upgrade_if_stale w c a containers img old_sha old_id trb"
    by (rule upgrade_permitted [OF dig img old ids oid ng])
  note steps = if_stale_steps [OF upd, where cs = containers and img = img and old_id = old_id]
  show "\<forall>e. ru = Inl e \<longrightarrow> StarterWorker_upgrade w c a containers tr = (Inl e, tc)"
    unfolding eq by (rule steps [THEN conjunct1])
  show "\<forall>stale. ru = Inr stale \<and> \<not> (stale \<or> cli_b a) \<longrightarrow>
                   StarterWorker_upgrade w c a containers tr = (Inr None, tc)"
    unfolding eq by (rule steps [THEN conjunct2, THEN conjunct1])
  show "\<forall>stale rp td.
                   ru = Inr stale \<and> (stale \<or> cli_b a) \<and> StarterWorker_pull w c a tc = (rp, td) \<longrightarrow>
                     (\<forall>e. rp = Inl e \<longrightarrow> StarterWorker_upgrade w c a containers tr = (Inl e, td))
                   \<and> (rp = Inr False \<longrightarrow>
                         StarterWorker_upgrade w c a containers tr
                           = (Inr None, td @ [Print ''Runtime error, exit'']))
                   \<and> (rp = Inr True \<longrightarrow>
                         (\<exists>ev rest. td = tc @ [ev] \<and> obtained ev
                            \<and> snd (StarterWorker_upgrade w c a containers tr) = td @ rest))"
    unfolding eq by (rule steps [THEN conjunct2, THEN conjunct2])
qed


theorem source_guard_witness:
  "docker_images_sha256 (world_of ''repo:tag'' [] None) [] = (Inr [''repo:tag'' \<mapsto> ''sha256:AAA''], [Docker digests_cmd 0])
   \<and> cfg_str cfg_app ''image'' = Inr ''repo:tag''
   \<and> [''repo:tag'' \<mapsto> ''sha256:AAA''] ''repo:tag'' = Some ''sha256:AAA''
   \<and> docker_images_id (world_of ''repo:tag'' [] None) [Docker digests_cmd 0]
        = (Inr [''repo:tag'' \<mapsto> ''0123abcd''], [Docker digests_cmd 0, Docker ids_cmd 0])
   \<and> [''repo:tag'' \<mapsto> ''0123abcd''] ''repo:tag'' = Some ''0123abcd''
   \<and> guard_blocks (cli_none\<lparr>cli_upgrade := True, cli_b := True\<rparr>) ''sha256:AAA''
   \<and> StarterWorker_upgrade (world_of ''repo:tag'' [] None) cfg_app (cli_none\<lparr>cli_upgrade := True, cli_b := True\<rparr>) [''app''] []
        = (Inr None,
           [Docker digests_cmd 0, Docker ids_cmd 0,
            Print ''Disallow! Use -f for change image source from hub to local build''])
   \<and> StarterWorker_allow_source_change (cli_none\<lparr>cli_upgrade := True\<rparr>) ''<none>'' []
        = (Inr False, [Print ''Disallow! Use -f for change image source from local build to hub''])
   \<and> StarterWorker_allow_source_change (cli_none\<lparr>cli_upgrade := True, cli_f := True\<rparr>) ''<none>'' [] = (Inr True, [])
   \<and> docker_images_sha256 world_local_build [] = (Inr [''repo:tag'' \<mapsto> ''<none>''], [Docker digests_cmd 0])
   \<and> [''repo:tag'' \<mapsto> ''<none>''] ''repo:tag'' = Some ''<none>''
   \<and> docker_images_id world_local_build [Docker digests_cmd 0]
        = (Inr [''repo:tag'' \<mapsto> ''0123abcd''], [Docker digests_cmd 0, Docker ids_cmd 0])
   \<and> guard_blocks (cli_none\<lparr>cli_upgrade := True\<rparr>) ''<none>''
   \<and> StarterWorker_upgrade world_local_build cfg_app (cli_none\<lparr>cli_upgrade := True\<rparr>) [''app''] []
        = (Inr None,
           [Docker digests_cmd 0, Docker ids_cmd 0,
            Print ''Disallow! Use -f for change image source from local build to hub''])
   \<and> cli_f (cli_none\<lparr>cli_upgrade := True, cli_f := True\<rparr>)
   \<and> StarterWorker_update world_local_build cfg_app (cli_none\<lparr>cli_upgrade := True, cli_f := True\<rparr>)
        (Some ''<none>'') [Docker digests_cmd 0, Docker ids_cmd 0]
        = (Inr True,
           [Docker digests_cmd 0, Docker ids_cmd 0, AuthGet ''repo'', ManifestHead ''repo'' ''tag'' ''t0ken''])
   \<and> StarterWorker_pull world_local_build cfg_app (cli_none\<lparr>cli_upgrade := True, cli_f := True\<rparr>)
        [Docker digests_cmd 0, Docker ids_cmd 0, AuthGet ''repo'', ManifestHead ''repo'' ''tag'' ''t0ken'']
        = (Inr True,
           [Docker digests_cmd 0, Docker ids_cmd 0, AuthGet ''repo'', ManifestHead ''repo'' ''tag'' ''t0ken'',
            Docker [''pull'', ''repo:tag''] 0])
   \<and> (\<exists>ev rest.
         [Docker digests_cmd 0, Docker ids_cmd 0, AuthGet ''repo'', ManifestHead ''repo'' ''tag'' ''t0ken'',
          Docker [''pull'', ''repo:tag''] 0]
           = [Docker digests_cmd 0, Docker ids_cmd 0, AuthGet ''repo'', ManifestHead ''repo'' ''tag'' ''t0ken''] @ [ev]
         \<and> obtained ev
         \<and> snd (StarterWorker_upgrade world_local_build cfg_app
                  (cli_none\<lparr>cli_upgrade := True, cli_f := True\<rparr>) [''app''] [])
             = [Docker digests_cmd 0, Docker ids_cmd 0, AuthGet ''repo'', ManifestHead ''repo'' ''tag'' ''t0ken'',
                Docker [''pull'', ''repo:tag''] 0] @ rest)
   \<and> StarterWorker_upgrade world_local_build cfg_app (cli_none\<lparr>cli_upgrade := True, cli_f := True\<rparr>) [''app''] []
        = (Inr None,
           [Docker digests_cmd 0, Docker ids_cmd 0, AuthGet ''repo'', ManifestHead ''repo'' ''tag'' ''t0ken'',
            Docker [''pull'', ''repo:tag''] 0,
            Docker [''stop'', ''app''] 0, Print ''stop app'', Docker [''rm'', ''app''] 0,
            Docker [''run'', ''-d'', ''--restart=always'', ''--name'', ''app'', ''repo:tag''] 0,
            Print ''docker run -d --restart=always --name app repo:tag'',
            Docker [''images'', ''--format'', ''{{.ID}}''] 0, Docker [''rmi'', ''0123abcd''] 0])"
proof -
  let ?w = "world_of ''repo:tag'' [] None"
  let ?l = "world_local_build"
  let ?a = "cli_none\<lparr>cli_upgrade := True, cli_b := True\<rparr>"
  let ?u = "cli_none\<lparr>cli_upgrade := True\<rparr>"
  let ?f = "cli_none\<lparr>cli_upgrade := True, cli_f := True\<rparr>"
  let ?trb = "[Docker digests_cmd 0, Docker ids_cmd 0]"
  let ?tc = "[Docker digests_cmd 0, Docker ids_cmd 0, AuthGet ''repo'', ManifestHead ''repo'' ''tag'' ''t0ken'']"
  let ?td = "[Docker digests_cmd 0, Docker ids_cmd 0, AuthGet ''repo'', ManifestHead ''repo'' ''tag'' ''t0ken'',
            Docker [''pull'', ''repo:tag''] 0]"
  have h1: "docker_images_sha256 ?w [] = (Inr [''repo:tag'' \<mapsto> ''sha256:AAA''], [Docker digests_cmd 0])"
    by (simp add: docker_defs io_defs example_defs digests_cmd_def)
  have h2: "cfg_str cfg_app ''image'' = Inr ''repo:tag''"
    by (simp add: cfg_str_def cfg_app_def)
  have h3: "docker_images_id ?w [Docker digests_cmd 0]
        = (Inr [''repo:tag'' \<mapsto> ''0123abcd''], [Docker digests_cmd 0, Docker ids_cmd 0])"
    by (simp add: docker_defs io_defs example_defs digests_cmd_def ids_cmd_def)
  have l1: "docker_images_sha256 ?l [] = (Inr [''repo:tag'' \<mapsto> ''<none>''], [Docker digests_cmd 0])"
    by (simp add: docker_defs io_defs example_defs world_local_build_def digests_cmd_def)
  have l3: "docker_images_id ?l [Docker digests_cmd 0]
        = (Inr [''repo:tag'' \<mapsto> ''0123abcd''], [Docker digests_cmd 0, Docker ids_cmd 0])"
    by (simp add: docker_defs io_defs example_defs world_local_build_def digests_cmd_def ids_cmd_def)
  have g: "guard_blocks ?a ''sha256:AAA''"
    by (simp add: guard_blocks_def inferred_provenance_def requested_provenance_def cli_none_def)
  have r: "guard_report ?a ''sha256:AAA''
             = Print ''Disallow! Use -f for change image source from hub to local build''"
    by (simp add: guard_report_def inferred_provenance_def requested_provenance_def cli_none_def)
  have g2: "guard_blocks ?u ''<none>''" "\<not> guard_blocks ?f ''<none>''"
    by (simp_all add: guard_blocks_def inferred_provenance_def requested_provenance_def cli_none_def)
  have r2: "guard_report ?u ''<none>''
             = Print ''Disallow! Use -f for change image source from local build to hub''"
    by (simp add: guard_report_def inferred_provenance_def requested_provenance_def cli_none_def)
  have up: "StarterWorker_update ?l cfg_app ?f (Some ''<none>'') ?trb = (Inr True, ?tc)"
    by (simp add: docker_defs io_defs worker_defs example_defs world_local_build_def
        digests_cmd_def ids_cmd_def)
  have pl: "StarterWorker_pull ?l cfg_app ?f ?tc = (Inr True, ?td)"
    by (simp add: docker_defs io_defs worker_defs example_defs world_local_build_def
        digests_cmd_def ids_cmd_def)
  have m1: "[''repo:tag'' \<mapsto> ''<none>''] ''repo:tag'' = Some ''<none>''"
    and m2: "[''repo:tag'' \<mapsto> ''0123abcd''] ''repo:tag'' = Some ''0123abcd''" by simp_all
  note sg = source_guard [where w = ?w and c = cfg_app and tr = "[]" and img = "''repo:tag''"
      and images = "[''repo:tag'' \<mapsto> ''sha256:AAA'']" and tra = "[Docker digests_cmd 0]"
      and ids = "[''repo:tag'' \<mapsto> ''0123abcd'']" and trb = ?trb
      and old_id = "''0123abcd''" and containers = "[''app'']"]
  note sl = source_guard [where w = ?l and c = cfg_app and tr = "[]" and img = "''repo:tag''"
      and images = "[''repo:tag'' \<mapsto> ''<none>'']" and tra = "[Docker digests_cmd 0]"
      and ids = "[''repo:tag'' \<mapsto> ''0123abcd'']" and trb = ?trb
      and old_id = "''0123abcd''" and containers = "[''app''] " and old_sha = "''<none>''"]
  from sg [where a = ?a and old_sha = "''sha256:AAA''"] h1 h2 h3 g r
  have u: "StarterWorker_upgrade ?w cfg_app ?a [''app''] []
        = (Inr None,
           [Docker digests_cmd 0, Docker ids_cmd 0,
            Print ''Disallow! Use -f for change image source from hub to local build''])"
    by simp
  from sg [where a = ?u and old_sha = "''<none>''"] g2 r2
  have b1: "StarterWorker_allow_source_change ?u ''<none>'' []
        = (Inr False, [Print ''Disallow! Use -f for change image source from local build to hub''])"
    by simp
  from sg [where a = ?f and old_sha = "''<none>''"] g2
  have b2: "StarterWorker_allow_source_change ?f ''<none>'' [] = (Inr True, [])"
    by simp
  from sl [where a = ?u] l1 h2 l3 g2 r2 m1 m2
  have u2: "StarterWorker_upgrade ?l cfg_app ?u [''app''] []
        = (Inr None,
           [Docker digests_cmd 0, Docker ids_cmd 0,
            Print ''Disallow! Use -f for change image source from local build to hub''])"
    by simp
  have hyp: "docker_images_sha256 ?l [] = (Inr [''repo:tag'' \<mapsto> ''<none>''], [Docker digests_cmd 0])
      \<and> cfg_str cfg_app ''image'' = Inr ''repo:tag''
      \<and> [''repo:tag'' \<mapsto> ''<none>''] ''repo:tag'' = Some ''<none>''
      \<and> docker_images_id ?l [Docker digests_cmd 0] = (Inr [''repo:tag'' \<mapsto> ''0123abcd''], ?trb)
      \<and> [''repo:tag'' \<mapsto> ''0123abcd''] ''repo:tag'' = Some ''0123abcd''"
    by (intro conjI l1 h2 m1 l3 m2)
  have f: "cli_f ?f" by (simp add: cli_none_def)
  have hyp2: "(cli_f ?f \<or> inferred_provenance ''<none>'' = requested_provenance ?f) \<and>
      StarterWorker_update ?l cfg_app ?f (Some ''<none>'') ?trb = (Inr True, ?tc)"
    by (intro conjI disjI1 f up)
  have hyp3: "Inr True = (Inr True :: exn + bool) \<and> (True \<or> cli_b ?f) \<and> StarterWorker_pull ?l cfg_app ?f ?tc = (Inr True, ?td)"
    by (intro conjI refl disjI1 TrueI pl)
  note after = sl [where a = ?f and ru = "Inr True" and tc = ?tc, THEN conjunct2, THEN mp, OF hyp,
      THEN conjunct2, THEN conjunct2, THEN mp, OF hyp2,
      THEN conjunct2, THEN conjunct2, THEN conjunct2, THEN spec, THEN spec, THEN spec, THEN mp, OF hyp3,
      THEN conjunct2, THEN conjunct2, THEN mp, OF refl]
  have p: "\<exists>ev rest. ?td = ?tc @ [ev] \<and> obtained ev
                   \<and> snd (StarterWorker_upgrade ?l cfg_app ?f [''app''] []) = ?td @ rest"
    by (rule after)
  have full: "StarterWorker_upgrade ?l cfg_app ?f [''app''] []
        = (Inr None,
           [Docker digests_cmd 0, Docker ids_cmd 0, AuthGet ''repo'', ManifestHead ''repo'' ''tag'' ''t0ken'',
            Docker [''pull'', ''repo:tag''] 0,
            Docker [''stop'', ''app''] 0, Print ''stop app'', Docker [''rm'', ''app''] 0,
            Docker [''run'', ''-d'', ''--restart=always'', ''--name'', ''app'', ''repo:tag''] 0,
            Print ''docker run -d --restart=always --name app repo:tag'',
            Docker [''images'', ''--format'', ''{{.ID}}''] 0, Docker [''rmi'', ''0123abcd''] 0])"
    by (simp add: docker_defs io_defs worker_defs example_defs world_local_build_def
        digests_cmd_def ids_cmd_def repo_cmd_def)
  show ?thesis
    by (intro conjI h1 h2 h3 g u b1 b2 l1 l3 g2 u2 f up pl p full) simp_all
qed

end
